theory Spec2Isabelle
  imports Complex_Main "HOL-Library.Multiset"
begin

section \<open>Conventions\<close>

text \<open>
  This theory embeds the annotation engine of \<^verbatim>\<open>beamspy/annotation.py\<close>.
  Masses, intensities, abundances and tolerances are Python floats in the source; here
  they are real numbers, so every comparison and every sum is the exact one. The
  statements proved below are about comparisons, orderings and control flow; none of
  them rests on rounding, on non-finite values or on the text form of a number.
  A Python exception is a value of type \<open>error\<close>, returned as \<open>Inl\<close>; a function that
  can raise returns \<open>error + 'a\<close>.
\<close>

datatype error =
    ValueError
  | TypeError
  | KeyError
  | IndexError
  | IntegrityError
  | OperationalError
  | ZeroDivisionError
  | AttributeError
  | OverflowError

section \<open>Tolerance arithmetic\<close>

text \<open>
  \<^verbatim>\<open>
  def calculate_mz_tolerance(mass, ppm):
      min_tol = mass - (mass * 0.000001 * ppm)
      max_tol = mass + (mass * 0.000001 * ppm)
      return min_tol, max_tol
  \<close>
\<close>

definition calculate_mz_tolerance :: "real \<Rightarrow> real \<Rightarrow> real \<times> real" where
  "calculate_mz_tolerance mass ppm =
     (mass - (mass * 0.000001 * ppm), mass + (mass * 0.000001 * ppm))"

text \<open>
  \<^verbatim>\<open>
  def calculate_ppm_error(mass, theo_mass):
      return float(theo_mass - mass) / (theo_mass * 0.000001)
  \<close>
  The division raises when the divisor is zero. (On numpy floats, which the flat peak
  list holds, the source yields a non-finite value there instead of raising; the
  oligomer rows, the one place where a statement below reaches that case, treat it
  apart.)
\<close>

definition calculate_ppm_error :: "real \<Rightarrow> real \<Rightarrow> error + real" where
  "calculate_ppm_error mass theo_mass =
     (if theo_mass * 0.000001 = 0 then Inl ZeroDivisionError
      else Inr ((theo_mass - mass) / (theo_mass * 0.000001)))"

text \<open>
  Python's \<^verbatim>\<open>round(x, 2)\<close>: to the nearest multiple of 0.01, a tie going to the even
  one.
\<close>

definition py_round :: "real \<Rightarrow> int" where
  "py_round x =
     (let f = \<lfloor>x\<rfloor>; r = x - real_of_int f
      in if r < 1 / 2 then f else if r > 1 / 2 then f + 1 else if even f then f else f + 1)"

definition round2 :: "real \<Rightarrow> real" where
  "round2 x = real_of_int (py_round (x * 100)) / 100"

section \<open>Comparison pairs\<close>

text \<open>
  A comparison pair is an ordered dictionary. The matchers read it in three ways only:
  whether it has the key \<^verbatim>\<open>mass_difference\<close>, whether the value of its first item has
  the key \<^verbatim>\<open>mass\<close>, and the first two items. So it has three shapes:
  \<^item> \<open>MassPair\<close>: two labels, each with \<^verbatim>\<open>{"mass": m, "charge": c}\<close> (adducts,
    multiply charged ions);
  \<^item> \<open>DiffPair\<close>: two labels, each with \<^verbatim>\<open>{"abundance": a}\<close>, and the key
    \<^verbatim>\<open>mass_difference\<close> (isotopes);
  \<^item> \<open>OtherPair\<close>: any other dictionary.
\<close>

datatype lib_pair =
    MassPair string real int string real int
  | DiffPair string real string real real
  | OtherPair

text \<open>
  \<^verbatim>\<open>
  def _check_tolerance(mz_x, mz_y, lib_pair, ppm):
      min_tol_a, max_tol_a = calculate_mz_tolerance(mz_x, ppm)
      min_tol_b, max_tol_b = calculate_mz_tolerance(mz_y, ppm)
      if "mass_difference" in lib_pair.keys():
          min_tol_b = (min_tol_b - lib_pair["mass_difference"])
          max_tol_b = (max_tol_b - lib_pair["mass_difference"])
      elif "mass" in list(lib_pair.items())[0][1]:
          min_tol_a = (min_tol_a - <mass 0>) * <charge 0>
          max_tol_a = (max_tol_a - <mass 0>) * <charge 0>
          min_tol_b = (min_tol_b - <mass 1>) * <charge 1>
          max_tol_b = (max_tol_b - <mass 1>) * <charge 1>
      else:
          raise ValueError("Incorrect format: {}".format(lib_pair))
      if min_tol_a < max_tol_b and min_tol_b < max_tol_a:
          return 1
      return 0
  \<close>
\<close>

fun check_tolerance :: "real \<Rightarrow> real \<Rightarrow> lib_pair \<Rightarrow> real \<Rightarrow> error + int" where
  "check_tolerance mz_x mz_y (DiffPair la aa lb ab md) ppm =
     (let (min_tol_a, max_tol_a) = calculate_mz_tolerance mz_x ppm;
          (min_tol_b, max_tol_b) = calculate_mz_tolerance mz_y ppm;
          min_tol_b = min_tol_b - md;
          max_tol_b = max_tol_b - md
      in if min_tol_a < max_tol_b \<and> min_tol_b < max_tol_a then Inr 1 else Inr 0)"
| "check_tolerance mz_x mz_y (MassPair la ma ca lb mb cb) ppm =
     (let (min_tol_a, max_tol_a) = calculate_mz_tolerance mz_x ppm;
          (min_tol_b, max_tol_b) = calculate_mz_tolerance mz_y ppm;
          min_tol_a = (min_tol_a - ma) * real_of_int ca;
          max_tol_a = (max_tol_a - ma) * real_of_int ca;
          min_tol_b = (min_tol_b - mb) * real_of_int cb;
          max_tol_b = (max_tol_b - mb) * real_of_int cb
      in if min_tol_a < max_tol_b \<and> min_tol_b < max_tol_a then Inr 1 else Inr 0)"
| "check_tolerance mz_x mz_y OtherPair ppm = Inl ValueError"

text \<open>
  The two intervals the specification speaks of: the tolerance windows of the two
  peaks after the shift the comparison pair asks for. A pair of the wrong shape has
  no windows.
\<close>

fun shifted_windows ::
  "real \<Rightarrow> real \<Rightarrow> lib_pair \<Rightarrow> real \<Rightarrow> ((real \<times> real) \<times> (real \<times> real)) option" where
  "shifted_windows mz_x mz_y (DiffPair la aa lb ab md) ppm =
     Some (calculate_mz_tolerance mz_x ppm,
           (fst (calculate_mz_tolerance mz_y ppm) - md,
            snd (calculate_mz_tolerance mz_y ppm) - md))"
| "shifted_windows mz_x mz_y (MassPair la ma ca lb mb cb) ppm =
     Some (((fst (calculate_mz_tolerance mz_x ppm) - ma) * real_of_int ca,
            (snd (calculate_mz_tolerance mz_x ppm) - ma) * real_of_int ca),
           ((fst (calculate_mz_tolerance mz_y ppm) - mb) * real_of_int cb,
            (snd (calculate_mz_tolerance mz_y ppm) - mb) * real_of_int cb))"
| "shifted_windows mz_x mz_y OtherPair ppm = None"

section \<open>Reference range store\<close>

text \<open>
  A row of the in-memory table \<^verbatim>\<open>MF\<close> of \<^verbatim>\<open>DbMolecularFormulaeMemory\<close>. Every column
  of an SQLite table can hold NULL, which is \<open>None\<close> here.
\<close>

record mf_row =
  mf_exact_mass :: "real option"
  mf_C :: "int option"
  mf_H :: "int option"
  mf_N :: "int option"
  mf_O :: "int option"
  mf_P :: "int option"
  mf_S :: "int option"
  mf_CHNOPS :: "int option"
  mf_HC :: "int option"
  mf_NOPSC :: "int option"
  mf_lewis :: "int option"
  mf_senior :: "int option"
  mf_double_bond_equivalents :: "real option"

text \<open>
  What \<^verbatim>\<open>select_mf\<close> returns for a row: the twelve selected columns, in the order of
  \<^verbatim>\<open>col_names\<close> (the column \<^verbatim>\<open>CHNOPS\<close> is not selected).
\<close>

record mf_record =
  rec_exact_mass :: "real option"
  rec_C :: "int option"
  rec_H :: "int option"
  rec_N :: "int option"
  rec_O :: "int option"
  rec_P :: "int option"
  rec_S :: "int option"
  rec_double_bond_equivalents :: "real option"
  rec_LEWIS :: "int option"
  rec_SENIOR :: "int option"
  rec_HC :: "int option"
  rec_NOPSC :: "int option"

definition mf_record_of :: "mf_row \<Rightarrow> mf_record" where
  "mf_record_of r =
     \<lparr> rec_exact_mass = mf_exact_mass r,
       rec_C = mf_C r, rec_H = mf_H r, rec_N = mf_N r,
       rec_O = mf_O r, rec_P = mf_P r, rec_S = mf_S r,
       rec_double_bond_equivalents = mf_double_bond_equivalents r,
       rec_LEWIS = mf_lewis r, rec_SENIOR = mf_senior r,
       rec_HC = mf_HC r, rec_NOPSC = mf_NOPSC r \<rparr>"

text \<open>
  SQL comparisons with a constant: a NULL column makes the comparison NULL, and a
  \<^verbatim>\<open>WHERE\<close> clause keeps a row only when its condition is true.
\<close>

definition sql_ge :: "real option \<Rightarrow> real \<Rightarrow> bool" where
  "sql_ge c v = (case c of None \<Rightarrow> False | Some x \<Rightarrow> x \<ge> v)"

definition sql_le :: "real option \<Rightarrow> real \<Rightarrow> bool" where
  "sql_le c v = (case c of None \<Rightarrow> False | Some x \<Rightarrow> x \<le> v)"

definition sql_is_one :: "int option \<Rightarrow> bool" where
  "sql_is_one c = (case c of None \<Rightarrow> False | Some x \<Rightarrow> x = 1)"

text \<open>
  \<^verbatim>\<open>
  def select_mf(self, min_tol, max_tol, rules):
      if rules:
          sql_filters = " and lewis = 1 and senior = 1 and HC = 1 and NOPSC = 1"
      else:
          sql_filters = ""
      ...
      self.cursor.execute("""SELECT exact_mass, C, H, N, O, P, S,
                          double_bond_equivalents, LEWIS, SENIOR, HC, NOPSC
                          from mf where exact_mass >= {} and exact_mass <= {}{}
                          """.format(min_tol, max_tol, sql_filters))
      return [OrderedDict(zip(col_names, list(record))) for record in self.cursor.fetchall()]
  \<close>
  The store is the list of its rows. The two bounds are not bound as parameters: they
  are written into the text of the query by \<^verbatim>\<open>str.format\<close> and read back by SQLite's
  own number reader, which does not always return the float that Python wrote (for
  \<^verbatim>\<open>1937.514094\<close> SQLite 3.46 reads the next float above). The stored masses go
  through no such conversion. The model therefore takes the reader as a parameter,
  \<open>sql_literal\<close>: the number SQLite reads from the text Python writes for a float.
  The query has no \<^verbatim>\<open>ORDER BY\<close>, so the order of the result is SQLite's choice; the
  model keeps the rows in the order of the table, and the statements below speak of
  membership only.
\<close>

definition mf_where :: "real \<Rightarrow> real \<Rightarrow> bool \<Rightarrow> mf_row \<Rightarrow> bool" where
  "mf_where min_tol max_tol rules r =
     (sql_ge (mf_exact_mass r) min_tol \<and> sql_le (mf_exact_mass r) max_tol \<and>
      (if rules
       then sql_is_one (mf_lewis r) \<and> sql_is_one (mf_senior r) \<and>
            sql_is_one (mf_HC r) \<and> sql_is_one (mf_NOPSC r)
       else True))"

definition select_mf ::
  "(real \<Rightarrow> real) \<Rightarrow> mf_row list \<Rightarrow> real \<Rightarrow> real \<Rightarrow> bool \<Rightarrow> mf_record list" where
  "select_mf sql_literal db min_tol max_tol rules =
     map mf_record_of
       (filter (mf_where (sql_literal min_tol) (sql_literal max_tol) rules) db)"

text \<open>
  A row of the table \<^verbatim>\<open>COMPOUNDS\<close> of \<^verbatim>\<open>DbCompoundsMemory\<close>; \<^verbatim>\<open>select_compounds\<close>
  selects all eleven columns, so the record it returns is the row. Its bounds reach
  SQLite as text in the same way.
  \<^verbatim>\<open>
  def select_compounds(self, min_tol, max_tol):
      col_names = ["compound_id", "compound_name", "exact_mass", "C", "H", "N", "O", "P", "S",
                   "CHNOPS", "molecular_formula"]
      self.cursor.execute("""SELECT {} FROM COMPOUNDS WHERE
                          exact_mass >= {} and exact_mass <= {}
                          """.format(",".join(map(str, col_names)), min_tol, max_tol))
      return [OrderedDict(zip(col_names, list(record))) for record in self.cursor.fetchall()]
  \<close>
\<close>

record compound_row =
  cpd_compound_id :: "string option"
  cpd_compound_name :: "string option"
  cpd_exact_mass :: "real option"
  cpd_C :: "int option"
  cpd_H :: "int option"
  cpd_N :: "int option"
  cpd_O :: "int option"
  cpd_P :: "int option"
  cpd_S :: "int option"
  cpd_CHNOPS :: "int option"
  cpd_molecular_formula :: "string option"

definition select_compounds ::
  "(real \<Rightarrow> real) \<Rightarrow> compound_row list \<Rightarrow> real \<Rightarrow> real \<Rightarrow> compound_row list" where
  "select_compounds sql_literal db min_tol max_tol =
     filter (\<lambda>r. sql_ge (cpd_exact_mass r) (sql_literal min_tol) \<and>
                 sql_le (cpd_exact_mass r) (sql_literal max_tol)) db"

section \<open>Library normalizer\<close>

text \<open>
  A library (\<^verbatim>\<open>lib.lib\<close>) is an ordered dictionary from labels to values, each value a
  float (a mass) or a dictionary \<^verbatim>\<open>{"mass": m, "charge": c}\<close>; or a list of ordered
  dictionaries (the isotope library); or something else.
\<close>

datatype lib_value = FloatValue real | DictValue real int

datatype library =
    DictLib "(string \<times> lib_value) list"
  | ListLib "lib_pair list"
  | OtherLib

text \<open>\<^verbatim>\<open>itertools.combinations(lib, 2)\<close>: the pairs of positions \<open>i < j\<close>, in lexicographic order.\<close>

fun combinations2 :: "'a list \<Rightarrow> ('a \<times> 'a) list" where
  "combinations2 [] = []"
| "combinations2 (x # xs) = map (Pair x) xs @ combinations2 xs"

text \<open>
  The pair built for two entries. The source looks at the type of the first value only:
  \<^verbatim>\<open>
  if isinstance(lib[pair[0]], float):
      lib_pairs.append(OrderedDict([(pair[0], {"mass": lib[pair[0]], "charge": 1}),
                                    (pair[1], {"mass": lib[pair[1]], "charge": 1})]))
  else:
      lib_pairs.append(OrderedDict([(pair[0], {"mass": lib[pair[0]]["mass"], "charge": lib[pair[0]]["charge"]}),
                                    (pair[1], {"mass": lib[pair[1]]["mass"], "charge": lib[pair[1]]["charge"]})]))
  \<close>
  A dictionary after a float is stored as a mass and makes the sort key
  (a float minus a dictionary) raise TypeError; a float after a dictionary is
  subscripted and raises TypeError at once.
\<close>

fun make_pair :: "string \<times> lib_value \<Rightarrow> string \<times> lib_value \<Rightarrow> error + lib_pair" where
  "make_pair (la, FloatValue ma) (lb, FloatValue mb) = Inr (MassPair la ma 1 lb mb 1)"
| "make_pair (la, FloatValue ma) (lb, DictValue mb cb) = Inl TypeError"
| "make_pair (la, DictValue ma ca) (lb, DictValue mb cb) = Inr (MassPair la ma ca lb mb cb)"
| "make_pair (la, DictValue ma ca) (lb, FloatValue mb) = Inl TypeError"

text \<open>Running fallible steps in order: the first exception ends the run.\<close>

fun sequence :: "(error + 'a) list \<Rightarrow> error + 'a list" where
  "sequence [] = Inr []"
| "sequence (Inl e # xs) = Inl e"
| "sequence (Inr x # xs) = (case sequence xs of Inl e \<Rightarrow> Inl e | Inr ys \<Rightarrow> Inr (x # ys))"

text \<open>
  The sort keys: \<^verbatim>\<open>list(pair.items())[0][1]["mass"] - list(pair.items())[1][1]["mass"]\<close>
  for a pair of masses, \<^verbatim>\<open>d["mass_difference"]\<close> for an isotope entry. Each is only
  applied to pairs of its own shape (the value 0 elsewhere is never used).
\<close>

fun mass_separation :: "lib_pair \<Rightarrow> real" where
  "mass_separation (MassPair la ma ca lb mb cb) = ma - mb"
| "mass_separation (DiffPair la aa lb ab md) = 0"
| "mass_separation OtherPair = 0"

fun has_mass_difference :: "lib_pair \<Rightarrow> bool" where
  "has_mass_difference (DiffPair la aa lb ab md) = True"
| "has_mass_difference (MassPair la ma ca lb mb cb) = False"
| "has_mass_difference OtherPair = False"

fun mass_difference :: "lib_pair \<Rightarrow> real" where
  "mass_difference (DiffPair la aa lb ab md) = md"
| "mass_difference (MassPair la ma ca lb mb cb) = 0"
| "mass_difference OtherPair = 0"

text \<open>
  \<^verbatim>\<open>sorted(xs, key=key, reverse=True)\<close>: descending by key, and stable (entries with
  equal keys keep their order), which is an ascending stable sort by the negated key.
\<close>

definition sorted_reverse :: "('a \<Rightarrow> real) \<Rightarrow> 'a list \<Rightarrow> 'a list" where
  "sorted_reverse key xs = sort_key (\<lambda>x. - key x) xs"

text \<open>
  \<^verbatim>\<open>
  def _prep_lib(lib):
      lib_pairs = []
      if isinstance(lib, OrderedDict):
          combs = list(itertools.combinations(lib, 2))
          for pair in combs:
              ...
          lib_pairs = sorted(lib_pairs, key=lambda pair: (list(pair.items())[0][1]["mass"]
                             - list(pair.items())[1][1]["mass"]), reverse=True)
          return lib_pairs
      elif isinstance(lib, list) and isinstance(lib[0], OrderedDict):
          if "mass_difference" in lib[0]:
              return sorted(lib, key=lambda d: d["mass_difference"], reverse=True)
          else:
              raise ValueError("Format library incorrect")
      else:
          raise ValueError("Incorrect format for library: {}".format(type(lib)))
  \<close>
  An empty list has no \<^verbatim>\<open>lib[0]\<close> (IndexError); a later entry without
  \<^verbatim>\<open>mass_difference\<close> makes the sort key raise KeyError.
\<close>

fun prep_lib :: "library \<Rightarrow> error + lib_pair list" where
  "prep_lib (DictLib lib) =
     (case sequence (map (\<lambda>(a, b). make_pair a b) (combinations2 lib)) of
        Inl e \<Rightarrow> Inl e
      | Inr lib_pairs \<Rightarrow> Inr (sorted_reverse mass_separation lib_pairs))"
| "prep_lib (ListLib []) = Inl IndexError"
| "prep_lib (ListLib (p # ps)) =
     (if has_mass_difference p
      then (if list_all has_mass_difference ps
            then Inr (sorted_reverse mass_difference (p # ps))
            else Inl KeyError)
      else Inl ValueError)"
| "prep_lib OtherLib = Inl ValueError"

text \<open>
  Vocabulary for the statements about the normalizer: the mass and charge an entry
  stands for, the pair two entries should give, a library whose values are all floats
  or all dictionaries, and the two labels of a pair.
\<close>

fun entry_mass :: "lib_value \<Rightarrow> real" where
  "entry_mass (FloatValue m) = m"
| "entry_mass (DictValue m c) = m"

fun entry_charge :: "lib_value \<Rightarrow> int" where
  "entry_charge (FloatValue m) = 1"
| "entry_charge (DictValue m c) = c"

fun is_float :: "lib_value \<Rightarrow> bool" where
  "is_float (FloatValue m) = True"
| "is_float (DictValue m c) = False"

definition homogeneous :: "(string \<times> lib_value) list \<Rightarrow> bool" where
  "homogeneous lib =
     (list_all (\<lambda>e. is_float (snd e)) lib \<or> list_all (\<lambda>e. \<not> is_float (snd e)) lib)"

definition pair_of :: "string \<times> lib_value \<Rightarrow> string \<times> lib_value \<Rightarrow> lib_pair" where
  "pair_of a b = MassPair (fst a) (entry_mass (snd a)) (entry_charge (snd a))
                          (fst b) (entry_mass (snd b)) (entry_charge (snd b))"

fun pair_labels :: "lib_pair \<Rightarrow> string \<times> string" where
  "pair_labels (MassPair la ma ca lb mb cb) = (la, lb)"
| "pair_labels (DiffPair la aa lb ab md) = (la, lb)"
| "pair_labels OtherPair = ([], [])"

section \<open>Peak sources\<close>

text \<open>
  A flat peak list is a data frame with the columns \<^verbatim>\<open>name\<close>, \<^verbatim>\<open>mz\<close>, \<^verbatim>\<open>rt\<close>,
  \<^verbatim>\<open>intensity\<close> (column 0 is the name, column 1 the m/z). A graph has nodes that carry
  \<^verbatim>\<open>mz\<close> and \<^verbatim>\<open>intensity\<close>, and directed edges between node identifiers. A single
  \<^verbatim>\<open>DiGraph\<close> is first cut into its weakly connected components by networkx, so the
  graph source is a list of graphs.
\<close>

record peak =
  peak_name :: string
  peak_mz :: real
  peak_rt :: real
  peak_intensity :: real

record node =
  node_id :: string
  node_mz :: real
  node_intensity :: real

record graph =
  graph_nodes :: "node list"
  graph_edges :: "(string \<times> string) list"

datatype source = Graphs "graph list" | PeakList "peak list"

text \<open>\<^verbatim>\<open>G.nodes[n]\<close>: the node with that identifier; KeyError when there is none.\<close>

definition find_node :: "graph \<Rightarrow> string \<Rightarrow> node option" where
  "find_node g n = find (\<lambda>v. node_id v = n) (graph_nodes g)"

section \<open>Pairwise matchers\<close>

record assignment =
  asg_peak_id_a :: string
  asg_peak_id_b :: string
  asg_label_a :: string
  asg_label_b :: string
  asg_charge_a :: int
  asg_charge_b :: int
  asg_ppm_error :: real

text \<open>
  The body of the innermost loop of both generators: test one comparison pair on one
  pair of peaks and yield at most one assignment.
  \<^verbatim>\<open>
  ct = _check_tolerance(mz_x, mz_y, lib_pair, ppm)
  if ct == 1:
      if "charge" in list(lib_pair.items())[0][1]:
          charge_a = list(lib_pair.items())[0][1]["charge"]
          charge_b = list(lib_pair.items())[1][1]["charge"]
      else:
          charge_a = 1
          charge_b = 1
      if "mass_difference" in lib_pair:
          ppm_error = calculate_ppm_error(mz_x, mz_y - lib_pair["mass_difference"])
      else:
          ppm_error = calculate_ppm_error((mz_x - <mass 0>) * <charge 0>,
                                          (mz_y - <mass 1>) * <charge 1>)
      yield OrderedDict([("peak_id_a", ...), ("peak_id_b", ...),
                         ("label_a", list(lib_pair.keys())[0]),
                         ("label_b", list(lib_pair.keys())[1]),
                         ('charge_a', charge_a), ('charge_b', charge_b),
                         ('ppm_error', round(ppm_error, 2))])
  \<close>
  A generator is the list of what it yields, an exception being its last item: the
  consumer handles the items one by one and never sees what follows an exception.
\<close>

definition assignment_of ::
  "string \<Rightarrow> string \<Rightarrow> real \<Rightarrow> real \<Rightarrow> real \<Rightarrow> lib_pair \<Rightarrow> (error + assignment) list" where
  "assignment_of id_x id_y mz_x mz_y ppm lp =
     (case check_tolerance mz_x mz_y lp ppm of
        Inl e \<Rightarrow> [Inl e]
      | Inr ct \<Rightarrow>
          if ct = 1 then
            (case lp of
               DiffPair la aa lb ab md \<Rightarrow>
                 (case calculate_ppm_error mz_x (mz_y - md) of
                    Inl e \<Rightarrow> [Inl e]
                  | Inr ppm_error \<Rightarrow>
                      [Inr \<lparr> asg_peak_id_a = id_x, asg_peak_id_b = id_y,
                             asg_label_a = la, asg_label_b = lb,
                             asg_charge_a = 1, asg_charge_b = 1,
                             asg_ppm_error = round2 ppm_error \<rparr>])
             | MassPair la ma ca lb mb cb \<Rightarrow>
                 (case calculate_ppm_error ((mz_x - ma) * real_of_int ca)
                                           ((mz_y - mb) * real_of_int cb) of
                    Inl e \<Rightarrow> [Inl e]
                  | Inr ppm_error \<Rightarrow>
                      [Inr \<lparr> asg_peak_id_a = id_x, asg_peak_id_b = id_y,
                             asg_label_a = la, asg_label_b = lb,
                             asg_charge_a = ca, asg_charge_b = cb,
                             asg_ppm_error = round2 ppm_error \<rparr>])
             | OtherPair \<Rightarrow> [Inl ValueError])
          else [])"

text \<open>
  \<^verbatim>\<open>
  def _annotate_pairs_from_peaklist(peaklist, ppm, lib_pairs):
      n = len(peaklist.iloc[:,1])
      for i in range(n):
          for j in range(i + 1, n):
              for lib_pair in lib_pairs:
                  ...
  \<close>
  The index pairs \<open>i < j\<close> come in the order of \<open>combinations2\<close>.
\<close>

definition annotate_pairs_from_peaklist ::
  "peak list \<Rightarrow> real \<Rightarrow> lib_pair list \<Rightarrow> (error + assignment) list" where
  "annotate_pairs_from_peaklist peaklist ppm lib_pairs =
     concat (map (\<lambda>(p_i, p_j).
               concat (map (assignment_of (peak_name p_i) (peak_name p_j)
                                          (peak_mz p_i) (peak_mz p_j) ppm) lib_pairs))
             (combinations2 peaklist))"

text \<open>
  \<^verbatim>\<open>
  def _annotate_pairs_from_graph(G, ppm, lib_pairs):
      for e in G.edges(data=True):
          mz_x = G.nodes[e[0]]["mz"]
          mz_y = G.nodes[e[1]]["mz"]
          for lib_pair in lib_pairs:
              ...
  \<close>
\<close>

definition annotate_pairs_from_graph ::
  "graph \<Rightarrow> real \<Rightarrow> lib_pair list \<Rightarrow> (error + assignment) list" where
  "annotate_pairs_from_graph G ppm lib_pairs =
     concat (map (\<lambda>(u, v).
               case find_node G u of
                 None \<Rightarrow> [Inl KeyError]
               | Some x \<Rightarrow>
                   (case find_node G v of
                      None \<Rightarrow> [Inl KeyError]
                    | Some y \<Rightarrow>
                        concat (map (assignment_of u v (node_mz x) (node_mz y) ppm) lib_pairs)))
             (graph_edges G))"

section \<open>Isotope annotation\<close>

text \<open>
  A row of the table \<^verbatim>\<open>isotopes\<close>, whose primary key is
  \<^verbatim>\<open>(peak_id_a, peak_id_b, label_a, label_b)\<close>. The rows are written with a plain
  \<^verbatim>\<open>insert\<close>, which raises \<^verbatim>\<open>sqlite3.IntegrityError\<close> on a key that is present.
\<close>

record isotope_row =
  iso_peak_id_a :: string
  iso_peak_id_b :: string
  iso_label_a :: string
  iso_label_b :: string
  iso_atoms :: "real option"
  iso_ppm_error :: real

definition isotope_key :: "isotope_row \<Rightarrow> string \<times> string \<times> string \<times> string" where
  "isotope_key r = (iso_peak_id_a r, iso_peak_id_b r, iso_label_a r, iso_label_b r)"

definition insert_isotope :: "isotope_row list \<Rightarrow> isotope_row \<Rightarrow> error + isotope_row list" where
  "insert_isotope table r =
     (if list_ex (\<lambda>q. isotope_key q = isotope_key r) table
      then Inl IntegrityError else Inr (table @ [r]))"

text \<open>
  \<^verbatim>\<open>
  abundances = {}
  for pair in lib.lib:
      abundances[list(pair.items())[0][0]] = list(pair.items())[0][1]
      abundances[list(pair.items())[1][0]] = list(pair.items())[1][1]
  \<close>
  The isotope library is a list of entries (only such a list passes \<^verbatim>\<open>_prep_lib\<close> and
  this loop); the dictionary keeps, for each label, the abundance written last.
\<close>

fun abundances_of :: "lib_pair list \<Rightarrow> (string \<rightharpoonup> real) \<Rightarrow> (string \<rightharpoonup> real)" where
  "abundances_of [] abundances = abundances"
| "abundances_of (DiffPair la aa lb ab md # lib) abundances =
     abundances_of lib (abundances(la \<mapsto> aa, lb \<mapsto> ab))"
| "abundances_of (MassPair la ma ca lb mb cb # lib) abundances = abundances_of lib abundances"
| "abundances_of (OtherPair # lib) abundances = abundances_of lib abundances"

text \<open>
  \<^verbatim>\<open>
  if x == 0.0 or y == 0.0:
      atoms = None
  elif abundances[assignment["label_a"]]["abundance"] < abundances[assignment["label_b"]]["abundance"]:
      atoms = x / y
  else:
      atoms = y/x
  \<close>
  where \<^verbatim>\<open>y\<close> is the abundance of label a times the intensity of peak b, and \<^verbatim>\<open>x\<close>
  the abundance of label b times the intensity of peak a. The same lines stand in
  both modes.
\<close>

definition atoms_of :: "real \<Rightarrow> real \<Rightarrow> real \<Rightarrow> real \<Rightarrow> real option" where
  "atoms_of abundance_a abundance_b intensity_a intensity_b =
     (let y = abundance_a * intensity_b;
          x = abundance_b * intensity_a
      in if x = 0 \<or> y = 0 then None
         else if abundance_a < abundance_b then Some (x / y)
         else Some (y / x))"

text \<open>
  Graph mode. The intensities are read from the nodes of the graph, and the row is
  written with \<^verbatim>\<open>float(atoms)\<close>, which raises TypeError when \<^verbatim>\<open>atoms\<close> is
  \<^verbatim>\<open>None\<close>:
  \<^verbatim>\<open>
  y = abundances[assignment["label_a"]]['abundance'] * peaklist[assignment["peak_id_b"]]["intensity"]
  x = abundances[assignment["label_b"]]['abundance'] * peaklist[assignment["peak_id_a"]]["intensity"]
  ...
  cursor.execute("""insert into isotopes (peak_id_a, peak_id_b, label_a, label_b, atoms, ppm_error)
                 values (?,?,?,?,?,?)""", (str(assignment["peak_id_a"]), str(assignment["peak_id_b"]),
                 assignment["label_a"], assignment["label_b"], float(atoms), float(assignment["ppm_error"])))
  \<close>
\<close>

definition isotope_row_graph ::
  "graph \<Rightarrow> (string \<rightharpoonup> real) \<Rightarrow> assignment \<Rightarrow> error + isotope_row" where
  "isotope_row_graph G abundances a =
     (case abundances (asg_label_a a) of
        None \<Rightarrow> Inl KeyError
      | Some abundance_a \<Rightarrow>
     (case find_node G (asg_peak_id_b a) of
        None \<Rightarrow> Inl KeyError
      | Some node_b \<Rightarrow>
     (case abundances (asg_label_b a) of
        None \<Rightarrow> Inl KeyError
      | Some abundance_b \<Rightarrow>
     (case find_node G (asg_peak_id_a a) of
        None \<Rightarrow> Inl KeyError
      | Some node_a \<Rightarrow>
     (case atoms_of abundance_a abundance_b (node_intensity node_a) (node_intensity node_b) of
        None \<Rightarrow> Inl TypeError
      | Some atoms \<Rightarrow>
          Inr \<lparr> iso_peak_id_a = asg_peak_id_a a, iso_peak_id_b = asg_peak_id_b a,
                iso_label_a = asg_label_a a, iso_label_b = asg_label_b a,
                iso_atoms = Some atoms, iso_ppm_error = asg_ppm_error a \<rparr>)))))"

text \<open>
  Flat-list mode. The intensity is that of the first row with the peak's name, and
  \<^verbatim>\<open>atoms\<close> is passed as it is (\<^verbatim>\<open>None\<close> is stored as NULL):
  \<^verbatim>\<open>
  y = abundances[assignment["label_a"]]["abundance"]
        * source.loc[source['name'] == assignment["peak_id_b"]]["intensity"].iloc[0]
  x = abundances[assignment["label_b"]]["abundance"]
        * source.loc[source['name'] == assignment["peak_id_a"]]["intensity"].iloc[0]
  ...
  cursor.execute("""insert into isotopes (peak_id_a, peak_id_b, label_a, label_b, atoms, ppm_error)
                 values (?,?,?,?,?,?)""", (assignment["peak_id_a"], assignment["peak_id_b"],
                 assignment["label_a"], assignment["label_b"], atoms, assignment["ppm_error"]))
  \<close>
\<close>

definition isotope_row_peaklist ::
  "peak list \<Rightarrow> (string \<rightharpoonup> real) \<Rightarrow> assignment \<Rightarrow> error + isotope_row" where
  "isotope_row_peaklist peaklist abundances a =
     (case abundances (asg_label_a a) of
        None \<Rightarrow> Inl KeyError
      | Some abundance_a \<Rightarrow>
     (case find (\<lambda>p. peak_name p = asg_peak_id_b a) peaklist of
        None \<Rightarrow> Inl IndexError
      | Some peak_b \<Rightarrow>
     (case abundances (asg_label_b a) of
        None \<Rightarrow> Inl KeyError
      | Some abundance_b \<Rightarrow>
     (case find (\<lambda>p. peak_name p = asg_peak_id_a a) peaklist of
        None \<Rightarrow> Inl IndexError
      | Some peak_a \<Rightarrow>
          Inr \<lparr> iso_peak_id_a = asg_peak_id_a a, iso_peak_id_b = asg_peak_id_b a,
                iso_label_a = asg_label_a a, iso_label_b = asg_label_b a,
                iso_atoms = atoms_of abundance_a abundance_b
                              (peak_intensity peak_a) (peak_intensity peak_b),
                iso_ppm_error = asg_ppm_error a \<rparr>))))"

text \<open>The loop over the assignments of one generator, writing each row as it comes.\<close>

fun isotopes_loop ::
  "(assignment \<Rightarrow> error + isotope_row) \<Rightarrow> isotope_row list \<Rightarrow> (error + assignment) list
     \<Rightarrow> error + isotope_row list" where
  "isotopes_loop mk table [] = Inr table"
| "isotopes_loop mk table (Inl e # rest) = Inl e"
| "isotopes_loop mk table (Inr a # rest) =
     (case mk a of
        Inl e \<Rightarrow> Inl e
      | Inr r \<Rightarrow>
          (case insert_isotope table r of
             Inl e \<Rightarrow> Inl e
           | Inr table' \<Rightarrow> isotopes_loop mk table' rest))"

fun isotopes_graphs ::
  "real \<Rightarrow> lib_pair list \<Rightarrow> (string \<rightharpoonup> real) \<Rightarrow> isotope_row list \<Rightarrow> graph list
     \<Rightarrow> error + isotope_row list" where
  "isotopes_graphs ppm lib_pairs abundances table [] = Inr table"
| "isotopes_graphs ppm lib_pairs abundances table (G # source) =
     (case isotopes_loop (isotope_row_graph G abundances) table
             (annotate_pairs_from_graph G ppm lib_pairs) of
        Inl e \<Rightarrow> Inl e
      | Inr table' \<Rightarrow> isotopes_graphs ppm lib_pairs abundances table' source)"

text \<open>
  \<^verbatim>\<open>annotate_isotopes(source, db_out, ppm, lib)\<close>: the table is dropped and created
  anew, so the result is the table written by this run, or the exception that ended
  it.
\<close>

definition annotate_isotopes :: "source \<Rightarrow> real \<Rightarrow> lib_pair list \<Rightarrow> error + isotope_row list" where
  "annotate_isotopes source ppm lib =
     (case prep_lib (ListLib lib) of
        Inl e \<Rightarrow> Inl e
      | Inr lib_pairs \<Rightarrow>
          (let abundances = abundances_of lib Map.empty
           in case source of
                Graphs graphs \<Rightarrow> isotopes_graphs ppm lib_pairs abundances [] graphs
              | PeakList peaklist \<Rightarrow>
                  isotopes_loop (isotope_row_peaklist peaklist abundances) []
                    (annotate_pairs_from_peaklist peaklist ppm lib_pairs)))"

section \<open>Artifact annotation\<close>

text \<open>
  \<^verbatim>\<open>
  def _annotate_artifacts(peaklist, diff=0.02):
      n = peaklist.iloc[:, 1]
      for i in range(n):
          for j in range(i + 1, n):
              mz_diff = peaklist.iloc[i,1] - peaklist.iloc[j,1]
              ppm_error = calculate_ppm_error(peaklist.iloc[i,1], peaklist.iloc[j,1])
              if abs(mz_diff) < diff:
                  yield i, j, mz_diff, ppm_error
  \<close>
  Here \<^verbatim>\<open>n\<close> is the column of m/z values itself, not its length, and \<^verbatim>\<open>range\<close>
  accepts integers only. The value given to \<^verbatim>\<open>range\<close> is therefore modelled with its
  type.
\<close>

datatype py_value = PyInt int | PySeries "real list"

fun py_range :: "py_value \<Rightarrow> error + nat list" where
  "py_range (PyInt n) = Inr [0..<nat n]"
| "py_range (PySeries column) = Inl TypeError"

fun py_range_from :: "nat \<Rightarrow> py_value \<Rightarrow> error + nat list" where
  "py_range_from i (PyInt n) = Inr [i..<nat n]"
| "py_range_from i (PySeries column) = Inl TypeError"

definition artifact_of ::
  "peak list \<Rightarrow> real \<Rightarrow> nat \<Rightarrow> nat \<Rightarrow> (error + nat \<times> nat \<times> real \<times> real) list" where
  "artifact_of peaklist diff i j =
     (if i < length peaklist \<and> j < length peaklist then
        (let mz_diff = peak_mz (peaklist ! i) - peak_mz (peaklist ! j)
         in case calculate_ppm_error (peak_mz (peaklist ! i)) (peak_mz (peaklist ! j)) of
              Inl e \<Rightarrow> [Inl e]
            | Inr ppm_error \<Rightarrow>
                if \<bar>mz_diff\<bar> < diff then [Inr (i, j, mz_diff, ppm_error)] else [])
      else [Inl IndexError])"

definition annotate_artifacts_gen ::
  "peak list \<Rightarrow> real \<Rightarrow> (error + nat \<times> nat \<times> real \<times> real) list" where
  "annotate_artifacts_gen peaklist diff =
     (let n = PySeries (map peak_mz peaklist)
      in case py_range n of
           Inl e \<Rightarrow> [Inl e]
         | Inr is \<Rightarrow>
             concat (map (\<lambda>i. case py_range_from (i + 1) n of
                                Inl e \<Rightarrow> [Inl e]
                              | Inr js \<Rightarrow> concat (map (artifact_of peaklist diff i) js)) is))"

text \<open>
  A row of the table \<^verbatim>\<open>artifacts\<close>. The orchestrator reads each yielded tuple with string
  keys (\<^verbatim>\<open>assignment["peak_id_a"]\<close>), which a tuple does not have (TypeError). In graph
  mode it passes \<^verbatim>\<open>graph.nodes(data=True)\<close> to the generator, a view without
  \<^verbatim>\<open>iloc\<close> (AttributeError), after reading \<^verbatim>\<open>source[0]\<close> (IndexError on an empty list).
  \<^verbatim>\<open>
  if (isinstance(source, list) or isinstance(source, np.ndarray)) and isinstance(source[0], nx.classes.graph.Graph):
      for graph in source:
          peaklist = graph.nodes(data=True)
          for assignment in _annotate_artifacts(peaklist, diff=diff):
              cursor.execute("""insert into artifacts (peak_id_a, peak_id_b, mz_diff, ppm_error)
                             values (?,?,?,?)""", (assignment["peak_id_a"], assignment["peak_id_b"],
                                                   assignment["label_a"], assignment["label_b"]))
  elif isinstance(source, pd.core.frame.DataFrame):
      for assignment in _annotate_artifacts(source, diff=diff):
          cursor.execute(... the same ...)
  \<close>
\<close>

record artifact_row =
  art_peak_id_a :: string
  art_peak_id_b :: string
  art_mz_diff :: real
  art_ppm_error :: real

fun artifacts_loop ::
  "artifact_row list \<Rightarrow> (error + nat \<times> nat \<times> real \<times> real) list \<Rightarrow> error + artifact_row list" where
  "artifacts_loop table [] = Inr table"
| "artifacts_loop table (Inl e # rest) = Inl e"
| "artifacts_loop table (Inr assignment # rest) = Inl TypeError"

fun annotate_artifacts :: "source \<Rightarrow> real \<Rightarrow> error + artifact_row list" where
  "annotate_artifacts (Graphs []) diff = Inl IndexError"
| "annotate_artifacts (Graphs (G # graphs)) diff = Inl AttributeError"
| "annotate_artifacts (PeakList peaklist) diff =
     artifacts_loop [] (annotate_artifacts_gen peaklist diff)"

section \<open>Oligomer annotation\<close>

text \<open>
  The oligomer search is a nest of loops whose innermost body tests one candidate and,
  when the test succeeds, builds a row and inserts it into the table \<^verbatim>\<open>oligomers\<close>.
  Whether a candidate is accepted does not depend on what has been written, so the
  model has two layers. The first is the sequence of the matches the loops accept, in
  the order of the loops: an accepted match is the two peaks with their m/z, the
  adduct with its mass, and the multiplicity \<^verbatim>\<open>d\<close>. The second, further below
  (\<open>annotate_oligomers\<close>), takes the matches one by one, builds the row and inserts
  it; the first exception ends the run there, and the matches after it are never
  reached. The adduct library maps each label to its mass.
\<close>

record oligomer_match =
  olg_peak_id_a :: string
  olg_peak_id_b :: string
  olg_mz_a :: real
  olg_mz_b :: real
  olg_adduct :: string
  olg_mass :: real
  olg_d :: int

text \<open>
  Flat-list mode:
  \<^verbatim>\<open>
  n = len(source.iloc[:,0])
  for adduct in lib.lib.keys():
      for i in range(n):
          for d in range(1, maximum):
              for j in range(i + 1, n):
                  min_tol_a, max_tol_a = calculate_mz_tolerance(
                      source.iloc[i][1] + ((source.iloc[i][1] - lib.lib[adduct]) * d), ppm)
                  min_tol_b, max_tol_b = calculate_mz_tolerance(source.iloc[j][1], ppm)
                  if (min_tol_b > max_tol_a and max_tol_b > max_tol_a):
                      break
                  min_tol_a = min_tol_a - lib.lib[adduct]
                  max_tol_a = max_tol_a - lib.lib[adduct]
                  min_tol_b = min_tol_b - lib.lib[adduct]
                  max_tol_b = max_tol_b - lib.lib[adduct]
                  if min_tol_a < max_tol_b and min_tol_b < max_tol_a:
                      ...
                      cursor.execute("""insert into oligomers ...""")
  \<close>
  The innermost loop runs over the peaks after peak \<open>i\<close>; its \<^verbatim>\<open>break\<close> leaves that
  loop, so the peaks that follow are not looked at for this \<open>i\<close> and \<open>d\<close>. The
  functions below give the accepted matches; the lines after the test (the row and
  its insert) are the second layer.
\<close>

fun oligomers_partners ::
  "real \<Rightarrow> string \<times> real \<Rightarrow> peak \<Rightarrow> int \<Rightarrow> peak list \<Rightarrow> oligomer_match list" where
  "oligomers_partners ppm (adduct, mass) p_i d [] = []"
| "oligomers_partners ppm (adduct, mass) p_i d (p_j # rest) =
     (let (min_tol_a, max_tol_a) =
            calculate_mz_tolerance (peak_mz p_i + ((peak_mz p_i - mass) * real_of_int d)) ppm;
          (min_tol_b, max_tol_b) = calculate_mz_tolerance (peak_mz p_j) ppm
      in if min_tol_b > max_tol_a \<and> max_tol_b > max_tol_a then []
         else
           (let min_tol_a = min_tol_a - mass;
                max_tol_a = max_tol_a - mass;
                min_tol_b = min_tol_b - mass;
                max_tol_b = max_tol_b - mass
            in (if min_tol_a < max_tol_b \<and> min_tol_b < max_tol_a
                then [\<lparr> olg_peak_id_a = peak_name p_i, olg_peak_id_b = peak_name p_j,
                        olg_mz_a = peak_mz p_i, olg_mz_b = peak_mz p_j,
                        olg_adduct = adduct, olg_mass = mass, olg_d = d \<rparr>]
                else []))
           @ oligomers_partners ppm (adduct, mass) p_i d rest)"

text \<open>The loops over \<open>i\<close> and \<open>d\<close>: \<^verbatim>\<open>range(1, maximum)\<close> is 1, ..., maximum - 1.\<close>

fun oligomers_peaks ::
  "real \<Rightarrow> string \<times> real \<Rightarrow> int \<Rightarrow> peak list \<Rightarrow> oligomer_match list" where
  "oligomers_peaks ppm adduct maximum [] = []"
| "oligomers_peaks ppm adduct maximum (p_i # rest) =
     concat (map (\<lambda>d. oligomers_partners ppm adduct p_i d rest) [1..maximum - 1])
     @ oligomers_peaks ppm adduct maximum rest"

definition oligomers_accepted_peaklist ::
  "peak list \<Rightarrow> real \<Rightarrow> (string \<times> real) list \<Rightarrow> int \<Rightarrow> oligomer_match list" where
  "oligomers_accepted_peaklist peaklist ppm lib maximum =
     concat (map (\<lambda>adduct. oligomers_peaks ppm adduct maximum peaklist) lib)"

text \<open>
  Graph mode:
  \<^verbatim>\<open>
  for graph in source:
      for n in graph.nodes():
          neighbors = list(graph.neighbors(n))
          for d in range(1, len(neighbors)+1):
              for nn in neighbors:
                  mz_x = graph.nodes[n]["mz"]
                  mz_y = graph.nodes[nn]["mz"]
                  if mz_x < mz_y:
                      for adduct in lib.lib.keys():
                          ... the same body ...
  \<close>
  Here the innermost loop runs over the adducts, and the \<^verbatim>\<open>break\<close> leaves that loop.
  The neighbours of a node of a directed graph are its successors. The parameter
  \<^verbatim>\<open>maximum\<close> is not read in this mode.
\<close>

fun oligomers_adducts ::
  "real \<Rightarrow> node \<Rightarrow> node \<Rightarrow> int \<Rightarrow> (string \<times> real) list \<Rightarrow> oligomer_match list" where
  "oligomers_adducts ppm n nn d [] = []"
| "oligomers_adducts ppm n nn d ((adduct, mass) # lib) =
     (let mz_x = node_mz n;
          mz_y = node_mz nn;
          (min_tol_a, max_tol_a) =
            calculate_mz_tolerance (mz_x + ((mz_x - mass) * real_of_int d)) ppm;
          (min_tol_b, max_tol_b) = calculate_mz_tolerance mz_y ppm
      in if min_tol_b > max_tol_a \<and> max_tol_b > max_tol_a then []
         else
           (let min_tol_a = min_tol_a - mass;
                max_tol_a = max_tol_a - mass;
                min_tol_b = min_tol_b - mass;
                max_tol_b = max_tol_b - mass
            in (if min_tol_a < max_tol_b \<and> min_tol_b < max_tol_a
                then [\<lparr> olg_peak_id_a = node_id n, olg_peak_id_b = node_id nn,
                        olg_mz_a = mz_x, olg_mz_b = mz_y,
                        olg_adduct = adduct, olg_mass = mass, olg_d = d \<rparr>]
                else []))
           @ oligomers_adducts ppm n nn d lib)"

definition oligomers_node ::
  "graph \<Rightarrow> real \<Rightarrow> (string \<times> real) list \<Rightarrow> node \<Rightarrow> (error + oligomer_match) list" where
  "oligomers_node G ppm lib n =
     (let neighbors = map snd (filter (\<lambda>e. fst e = node_id n) (graph_edges G))
      in concat (map (\<lambda>d.
           concat (map (\<lambda>nn.
             case find_node G nn of
               None \<Rightarrow> [Inl KeyError]
             | Some y \<Rightarrow>
                 if node_mz n < node_mz y
                 then map Inr (oligomers_adducts ppm n y d lib)
                 else []) neighbors))
         [1..int (length neighbors)]))"

fun oligomers_accepted ::
  "source \<Rightarrow> real \<Rightarrow> (string \<times> real) list \<Rightarrow> int \<Rightarrow> (error + oligomer_match) list" where
  "oligomers_accepted (Graphs graphs) ppm lib maximum =
     concat (map (\<lambda>G. concat (map (oligomers_node G ppm lib) (graph_nodes G))) graphs)"
| "oligomers_accepted (PeakList peaklist) ppm lib maximum =
     map Inr (oligomers_accepted_peaklist peaklist ppm lib maximum)"

text \<open>
  The search without the early exit: the same loops, with the two lines of the
  \<^verbatim>\<open>break\<close> removed. This is the naive variant the specification compares with.
\<close>

fun oligomers_partners_naive ::
  "real \<Rightarrow> string \<times> real \<Rightarrow> peak \<Rightarrow> int \<Rightarrow> peak list \<Rightarrow> oligomer_match list" where
  "oligomers_partners_naive ppm (adduct, mass) p_i d [] = []"
| "oligomers_partners_naive ppm (adduct, mass) p_i d (p_j # rest) =
     (let (min_tol_a, max_tol_a) =
            calculate_mz_tolerance (peak_mz p_i + ((peak_mz p_i - mass) * real_of_int d)) ppm;
          (min_tol_b, max_tol_b) = calculate_mz_tolerance (peak_mz p_j) ppm;
          min_tol_a = min_tol_a - mass;
          max_tol_a = max_tol_a - mass;
          min_tol_b = min_tol_b - mass;
          max_tol_b = max_tol_b - mass
      in (if min_tol_a < max_tol_b \<and> min_tol_b < max_tol_a
          then [\<lparr> olg_peak_id_a = peak_name p_i, olg_peak_id_b = peak_name p_j,
                  olg_mz_a = peak_mz p_i, olg_mz_b = peak_mz p_j,
                  olg_adduct = adduct, olg_mass = mass, olg_d = d \<rparr>]
          else [])
         @ oligomers_partners_naive ppm (adduct, mass) p_i d rest)"

fun oligomers_peaks_naive ::
  "real \<Rightarrow> string \<times> real \<Rightarrow> int \<Rightarrow> peak list \<Rightarrow> oligomer_match list" where
  "oligomers_peaks_naive ppm adduct maximum [] = []"
| "oligomers_peaks_naive ppm adduct maximum (p_i # rest) =
     concat (map (\<lambda>d. oligomers_partners_naive ppm adduct p_i d rest) [1..maximum - 1])
     @ oligomers_peaks_naive ppm adduct maximum rest"

definition oligomers_accepted_peaklist_naive ::
  "peak list \<Rightarrow> real \<Rightarrow> (string \<times> real) list \<Rightarrow> int \<Rightarrow> oligomer_match list" where
  "oligomers_accepted_peaklist_naive peaklist ppm lib maximum =
     concat (map (\<lambda>adduct. oligomers_peaks_naive ppm adduct maximum peaklist) lib)"

fun oligomers_adducts_naive ::
  "real \<Rightarrow> node \<Rightarrow> node \<Rightarrow> int \<Rightarrow> (string \<times> real) list \<Rightarrow> oligomer_match list" where
  "oligomers_adducts_naive ppm n nn d [] = []"
| "oligomers_adducts_naive ppm n nn d ((adduct, mass) # lib) =
     (let mz_x = node_mz n;
          mz_y = node_mz nn;
          (min_tol_a, max_tol_a) =
            calculate_mz_tolerance (mz_x + ((mz_x - mass) * real_of_int d)) ppm;
          (min_tol_b, max_tol_b) = calculate_mz_tolerance mz_y ppm;
          min_tol_a = min_tol_a - mass;
          max_tol_a = max_tol_a - mass;
          min_tol_b = min_tol_b - mass;
          max_tol_b = max_tol_b - mass
      in (if min_tol_a < max_tol_b \<and> min_tol_b < max_tol_a
          then [\<lparr> olg_peak_id_a = node_id n, olg_peak_id_b = node_id nn,
                  olg_mz_a = mz_x, olg_mz_b = mz_y,
                  olg_adduct = adduct, olg_mass = mass, olg_d = d \<rparr>]
          else [])
         @ oligomers_adducts_naive ppm n nn d lib)"

definition oligomers_node_naive ::
  "graph \<Rightarrow> real \<Rightarrow> (string \<times> real) list \<Rightarrow> node \<Rightarrow> (error + oligomer_match) list" where
  "oligomers_node_naive G ppm lib n =
     (let neighbors = map snd (filter (\<lambda>e. fst e = node_id n) (graph_edges G))
      in concat (map (\<lambda>d.
           concat (map (\<lambda>nn.
             case find_node G nn of
               None \<Rightarrow> [Inl KeyError]
             | Some y \<Rightarrow>
                 if node_mz n < node_mz y
                 then map Inr (oligomers_adducts_naive ppm n y d lib)
                 else []) neighbors))
         [1..int (length neighbors)]))"

fun oligomers_accepted_naive ::
  "source \<Rightarrow> real \<Rightarrow> (string \<times> real) list \<Rightarrow> int \<Rightarrow> (error + oligomer_match) list" where
  "oligomers_accepted_naive (Graphs graphs) ppm lib maximum =
     concat (map (\<lambda>G. concat (map (oligomers_node_naive G ppm lib) (graph_nodes G))) graphs)"
| "oligomers_accepted_naive (PeakList peaklist) ppm lib maximum =
     map Inr (oligomers_accepted_peaklist_naive peaklist ppm lib maximum)"

text \<open>
  Vocabulary for the statements about the search: the scaled candidate
  \<^verbatim>\<open>mz_x + (mz_x - mass) * d\<close>, the condition of the \<^verbatim>\<open>break\<close>, the acceptance test,
  and the match recorded for two peaks or two nodes.
\<close>

definition candidate :: "real \<Rightarrow> real \<Rightarrow> int \<Rightarrow> real" where
  "candidate mz_x mass d = mz_x + ((mz_x - mass) * real_of_int d)"

definition diverged :: "real \<Rightarrow> real \<Rightarrow> real \<Rightarrow> bool" where
  "diverged ppm c mz_y =
     (fst (calculate_mz_tolerance mz_y ppm) > snd (calculate_mz_tolerance c ppm) \<and>
      snd (calculate_mz_tolerance mz_y ppm) > snd (calculate_mz_tolerance c ppm))"

definition accepts :: "real \<Rightarrow> real \<Rightarrow> real \<Rightarrow> real \<Rightarrow> bool" where
  "accepts ppm mass c mz_y =
     (fst (calculate_mz_tolerance c ppm) - mass < snd (calculate_mz_tolerance mz_y ppm) - mass \<and>
      fst (calculate_mz_tolerance mz_y ppm) - mass < snd (calculate_mz_tolerance c ppm) - mass)"

definition match_of :: "peak \<Rightarrow> peak \<Rightarrow> string \<Rightarrow> real \<Rightarrow> int \<Rightarrow> oligomer_match" where
  "match_of p_i p_j adduct mass d =
     \<lparr> olg_peak_id_a = peak_name p_i, olg_peak_id_b = peak_name p_j,
       olg_mz_a = peak_mz p_i, olg_mz_b = peak_mz p_j, olg_adduct = adduct, olg_mass = mass, olg_d = d \<rparr>"

definition node_match :: "node \<Rightarrow> node \<Rightarrow> string \<Rightarrow> real \<Rightarrow> int \<Rightarrow> oligomer_match" where
  "node_match n nn adduct mass d =
     \<lparr> olg_peak_id_a = node_id n, olg_peak_id_b = node_id nn,
       olg_mz_a = node_mz n, olg_mz_b = node_mz nn, olg_adduct = adduct, olg_mass = mass, olg_d = d \<rparr>"

section \<open>Reference-match annotation\<close>

text \<open>
  The reference-match tables are written with a plain \<^verbatim>\<open>insert\<close> (or
  \<^verbatim>\<open>executemany\<close> of it): SQLite raises \<^verbatim>\<open>IntegrityError\<close> when a row with the same
  primary key is present. The loop takes the rows as they are produced; an exception
  raised while a row is built ends the run as well.
\<close>

fun insert_rows :: "('r \<Rightarrow> 'r \<Rightarrow> bool) \<Rightarrow> 'r list \<Rightarrow> (error + 'r) list \<Rightarrow> error + 'r list" where
  "insert_rows same_key table [] = Inr table"
| "insert_rows same_key table (Inl e # rest) = Inl e"
| "insert_rows same_key table (Inr r # rest) =
     (if list_ex (\<lambda>q. same_key q r) table then Inl IntegrityError
      else insert_rows same_key (table @ [r]) rest)"

text \<open>
  A row of a table \<^verbatim>\<open>compounds_<db_name>\<close>, whose primary key is
  \<^verbatim>\<open>(id, compound_id, adduct)\<close>. In a primary key of an ordinary SQLite table NULL
  values are distinct from each other, so a row with a NULL \<^verbatim>\<open>compound_id\<close> clashes
  with no row.
\<close>

record compound_match =
  cm_id :: string
  cm_mz :: real
  cm_exact_mass :: real
  cm_ppm_error :: real
  cm_adduct :: string
  cm_C :: "int option"
  cm_H :: "int option"
  cm_N :: "int option"
  cm_O :: "int option"
  cm_P :: "int option"
  cm_S :: "int option"
  cm_CHNOPS :: "int option"
  cm_molecular_formula :: "string option"
  cm_compound_id :: "string option"
  cm_compound_name :: "string option"

definition compound_same_key :: "compound_match \<Rightarrow> compound_match \<Rightarrow> bool" where
  "compound_same_key q r =
     (cm_id q = cm_id r \<and> cm_adduct q = cm_adduct r \<and>
      (case (cm_compound_id q, cm_compound_id r) of
         (Some a, Some b) \<Rightarrow> a = b
       | _ \<Rightarrow> False))"

text \<open>
  \<^verbatim>\<open>
  for i in range(len(peaklist.iloc[:, 0])):
      mz = float(peaklist["mz"].iloc[i])
      name = str(peaklist["name"].iloc[i])
      min_tol, max_tol = calculate_mz_tolerance(mz, ppm)
      for adduct in lib_adducts.lib:
          if mz - lib_adducts.lib[adduct] > 0.5:
              if "conn_mem" in locals():
                  records = conn_mem.select_compounds(min_tol - lib_adducts.lib[adduct],
                                                      max_tol - lib_adducts.lib[adduct])
              elif "conn_local" in locals():
                  ... the same range query on the table db_name ...
              for record in records:
                  record["id"] = name
                  record["exact_mass"] = record["exact_mass"] + float(lib_adducts.lib[adduct])
                  record["mz"] = mz
                  record["ppm_error"] = calculate_ppm_error(mz, record["exact_mass"])
                  record["adduct"] = adduct
                  cursor.execute("""insert into compounds_{} ({}) values (?,?,?,?,?,?,?,?,?,?,?,?,?,?,?)
                                 """.format(...), list(record.values()))
  \<close>
  The compound store is the list of its rows, whichever of the two connections holds
  it. A NULL exact mass cannot be added to a float (TypeError).
\<close>

definition compound_match_of ::
  "string \<Rightarrow> real \<Rightarrow> string \<Rightarrow> real \<Rightarrow> compound_row \<Rightarrow> error + compound_match" where
  "compound_match_of name mz adduct mass record =
     (case cpd_exact_mass record of
        None \<Rightarrow> Inl TypeError
      | Some m \<Rightarrow>
          (let exact_mass = m + mass
           in case calculate_ppm_error mz exact_mass of
                Inl e \<Rightarrow> Inl e
              | Inr ppm_error \<Rightarrow>
                  Inr \<lparr> cm_id = name, cm_mz = mz, cm_exact_mass = exact_mass,
                        cm_ppm_error = ppm_error, cm_adduct = adduct,
                        cm_C = cpd_C record, cm_H = cpd_H record, cm_N = cpd_N record,
                        cm_O = cpd_O record, cm_P = cpd_P record, cm_S = cpd_S record,
                        cm_CHNOPS = cpd_CHNOPS record,
                        cm_molecular_formula = cpd_molecular_formula record,
                        cm_compound_id = cpd_compound_id record,
                        cm_compound_name = cpd_compound_name record \<rparr>))"

definition compound_candidates ::
  "(real \<Rightarrow> real) \<Rightarrow> peak list \<Rightarrow> (string \<times> real) list \<Rightarrow> real \<Rightarrow> compound_row list
     \<Rightarrow> (error + compound_match) list" where
  "compound_candidates sql_literal peaklist lib ppm db =
     concat (map (\<lambda>p.
       (let mz = peak_mz p;
            name = peak_name p;
            (min_tol, max_tol) = calculate_mz_tolerance mz ppm
        in concat (map (\<lambda>(adduct, mass).
             if mz - mass > 0.5
             then map (compound_match_of name mz adduct mass)
                      (select_compounds sql_literal db (min_tol - mass) (max_tol - mass))
             else []) lib))) peaklist)"

definition annotate_compounds ::
  "(real \<Rightarrow> real) \<Rightarrow> peak list \<Rightarrow> (string \<times> real) list \<Rightarrow> real \<Rightarrow> compound_row list
     \<Rightarrow> error + compound_match list" where
  "annotate_compounds sql_literal peaklist lib_adducts ppm db =
     insert_rows compound_same_key []
       (compound_candidates sql_literal peaklist lib_adducts ppm db)"

text \<open>
  A row of the table \<^verbatim>\<open>molecular_formulae\<close>, whose primary key is
  \<^verbatim>\<open>(id, mz, molecular_formula, adduct)\<close>; none of the four is ever NULL.
\<close>

record mf_match =
  mm_id :: string
  mm_mz :: real
  mm_exact_mass :: real
  mm_ppm_error :: real
  mm_adduct :: string
  mm_C :: "int option"
  mm_H :: "int option"
  mm_N :: "int option"
  mm_O :: "int option"
  mm_P :: "int option"
  mm_S :: "int option"
  mm_CHNOPS :: "int option"
  mm_molecular_formula :: string
  mm_HC :: "int option"
  mm_NOPSC :: "int option"
  mm_lewis :: "int option"
  mm_senior :: "int option"
  mm_double_bond_equivalents :: "real option"

definition mf_same_key :: "mf_match \<Rightarrow> mf_match \<Rightarrow> bool" where
  "mf_same_key q r =
     (mm_id q = mm_id r \<and> mm_mz q = mm_mz r \<and>
      mm_molecular_formula q = mm_molecular_formula r \<and> mm_adduct q = mm_adduct r)"

text \<open>
  \<^verbatim>\<open>annotate_molecular_formulae\<close> with a local reference file (the remote service is
  outside this model):
  \<^verbatim>\<open>
  for i in range(len(peaklist.iloc[:, 0])):
      mz = float(peaklist["mz"].iloc[i])
      name = str(peaklist["name"].iloc[i])
      min_tol, max_tol = calculate_mz_tolerance(mz, ppm)
      if max_mz is not None and mz > max_mz:  # max_mz is None with a local file
          continue
      values = []
      for adduct in lib_adducts.lib:
          if mz - lib_adducts.lib[adduct] > 0.5:
              records = conn_mem.select_mf(min_tol - lib_adducts.lib[adduct],
                                           max_tol - lib_adducts.lib[adduct], rules)
              for record in records:
                  record["id"] = name
                  if "CHNOPS" not in record:
                      record["CHNOPS"] = True
                  ...
                  record["exact_mass"] = record["exact_mass"] + lib_adducts.lib[adduct]
                  record["mz"] = mz
                  record["ppm_error"] = calculate_ppm_error(mz, record["exact_mass"])
                  comp = OrderedDict([(item, record[item]) for item in record if item in nist_database.keys()])
                  record["molecular_formula"] = composition_to_string(comp)
                  record["adduct"] = adduct
              records = _remove_elements_from_compositions(records, keep=["C", "H", "N", "O", "P", "S"])
              values.extend([list(record.values()) for record in records])
      if len(values) > 0:
          cursor.executemany("""insert into molecular_formulae ({}) values (?,...,?)""", values)
  \<close>
  \<^verbatim>\<open>composition_to_string\<close> belongs to \<^verbatim>\<open>beamspy.auxiliary\<close>; it is a parameter here,
  applied to the six element counts of the record in the order C, H, N, O, P, S.
  The rows of one peak are all built before the first of them is inserted.
\<close>

definition mf_match_of ::
  "((string \<times> int option) list \<Rightarrow> string) \<Rightarrow> string \<Rightarrow> real \<Rightarrow> string \<Rightarrow> real \<Rightarrow> mf_record
     \<Rightarrow> error + mf_match" where
  "mf_match_of composition_to_string name mz adduct mass record =
     (case rec_exact_mass record of
        None \<Rightarrow> Inl TypeError
      | Some m \<Rightarrow>
          (let exact_mass = m + mass
           in case calculate_ppm_error mz exact_mass of
                Inl e \<Rightarrow> Inl e
              | Inr ppm_error \<Rightarrow>
                  (let comp = [(''C'', rec_C record), (''H'', rec_H record),
                               (''N'', rec_N record), (''O'', rec_O record),
                               (''P'', rec_P record), (''S'', rec_S record)]
                   in Inr \<lparr> mm_id = name, mm_mz = mz, mm_exact_mass = exact_mass,
                           mm_ppm_error = ppm_error, mm_adduct = adduct,
                           mm_C = rec_C record, mm_H = rec_H record, mm_N = rec_N record,
                           mm_O = rec_O record, mm_P = rec_P record, mm_S = rec_S record,
                           mm_CHNOPS = Some 1,
                           mm_molecular_formula = composition_to_string comp,
                           mm_HC = rec_HC record, mm_NOPSC = rec_NOPSC record,
                           mm_lewis = rec_LEWIS record, mm_senior = rec_SENIOR record,
                           mm_double_bond_equivalents =
                             rec_double_bond_equivalents record \<rparr>)))"

definition mf_candidates ::
  "(real \<Rightarrow> real) \<Rightarrow> ((string \<times> int option) list \<Rightarrow> string) \<Rightarrow> (string \<times> real) list \<Rightarrow> real
     \<Rightarrow> mf_row list \<Rightarrow> bool \<Rightarrow> peak \<Rightarrow> (error + mf_match) list" where
  "mf_candidates sql_literal composition_to_string lib ppm db rules p =
     (let mz = peak_mz p;
          name = peak_name p;
          (min_tol, max_tol) = calculate_mz_tolerance mz ppm
      in concat (map (\<lambda>(adduct, mass).
           if mz - mass > 0.5
           then map (mf_match_of composition_to_string name mz adduct mass)
                    (select_mf sql_literal db (min_tol - mass) (max_tol - mass) rules)
           else []) lib))"

fun molecular_formulae_loop ::
  "(real \<Rightarrow> real) \<Rightarrow> ((string \<times> int option) list \<Rightarrow> string) \<Rightarrow> (string \<times> real) list \<Rightarrow> real
     \<Rightarrow> mf_row list \<Rightarrow> bool \<Rightarrow> mf_match list \<Rightarrow> peak list \<Rightarrow> error + mf_match list" where
  "molecular_formulae_loop sql_literal composition_to_string lib ppm db rules table [] =
     Inr table"
| "molecular_formulae_loop sql_literal composition_to_string lib ppm db rules table
     (p # peaklist) =
     (case sequence (mf_candidates sql_literal composition_to_string lib ppm db rules p) of
        Inl e \<Rightarrow> Inl e
      | Inr values \<Rightarrow>
          (case insert_rows mf_same_key table (map Inr values) of
             Inl e \<Rightarrow> Inl e
           | Inr table' \<Rightarrow>
               molecular_formulae_loop sql_literal composition_to_string lib ppm db rules
                 table' peaklist))"

definition annotate_molecular_formulae ::
  "(real \<Rightarrow> real) \<Rightarrow> ((string \<times> int option) list \<Rightarrow> string) \<Rightarrow> peak list
     \<Rightarrow> (string \<times> real) list \<Rightarrow> real \<Rightarrow> mf_row list \<Rightarrow> bool \<Rightarrow> error + mf_match list" where
  "annotate_molecular_formulae sql_literal composition_to_string peaklist lib_adducts ppm
     db rules =
     molecular_formulae_loop sql_literal composition_to_string lib_adducts ppm db rules []
       peaklist"

text \<open>
  Vocabulary for the statements about these tables: two rows of a list, the first
  before the second, that have the same primary key.
\<close>

definition key_clash :: "('r \<Rightarrow> 'r \<Rightarrow> bool) \<Rightarrow> 'r list \<Rightarrow> bool" where
  "key_clash same_key rows =
     (\<exists>pre r mid r' post. rows = pre @ r # mid @ r' # post \<and> same_key r r')"

section \<open>Writing the oligomers table\<close>

text \<open>
  The lines that follow a successful test, the same in both modes:
  \<^verbatim>\<open>
  a = (mz_x - lib.lib[adduct]) + (mz_x - lib.lib[adduct]) * d
  b = mz_y - lib.lib[adduct]
  ratio = (mz_y - lib.lib[adduct]) / (mz_x - lib.lib[adduct])
  ppm_error = calculate_ppm_error(a, b)
  if "M" in adduct:
      adduct_oligo = adduct.replace("M", "{}M".format(int(round(ratio))))
  else:
      adduct_oligo = "{}{}".format(int(round(ratio)), adduct)
  cursor.execute("""insert into oligomers (peak_id_a, peak_id_b, mz_a, mz_b, label_a, label_b, mz_ratio, ppm_error)
                 values (?,?,?,?,?,?,?,?)""", (n, nn, mz_x, mz_y, adduct, adduct_oligo, round(ratio, 2), round(ppm_error, 2)))
  \<close>
  The two divisions behave according to the kind of float the m/z values are. The
  column of a data frame holds numpy floats, for which a division by zero does not
  raise but gives a value that is not finite: \<^verbatim>\<open>int(round(ratio))\<close> then raises
  OverflowError (infinity) or ValueError (not a number), and a \<^verbatim>\<open>ppm_error\<close> that is
  not finite is written as it is, which is \<open>None\<close> in the model. For Python floats
  each of the two divisions raises ZeroDivisionError. The flag \<open>numpy\<close> says which
  kind is at hand.
\<close>

text \<open>\<^verbatim>\<open>"{}".format(k)\<close> for an integer: its decimal digits, with a minus sign when negative.\<close>

fun show_nat :: "nat \<Rightarrow> string" where
  "show_nat n =
     (if n < 10 then [''0123456789'' ! n]
      else show_nat (n div 10) @ [''0123456789'' ! (n mod 10)])"

definition show_int :: "int \<Rightarrow> string" where
  "show_int k = (if k < 0 then ''-'' @ show_nat (nat (- k)) else show_nat (nat k))"

record oligomer_row =
  orow_peak_id_a :: string
  orow_peak_id_b :: string
  orow_mz_a :: real
  orow_mz_b :: real
  orow_label_a :: string
  orow_label_b :: string
  orow_mz_ratio :: real
  orow_ppm_error :: "real option"

definition oligomer_label :: "string \<Rightarrow> real \<Rightarrow> string" where
  "oligomer_label adduct ratio =
     (if CHR ''M'' \<in> set adduct
      then concat (map (\<lambda>c. if c = CHR ''M'' then show_int (py_round ratio) @ ''M'' else [c])
                       adduct)
      else show_int (py_round ratio) @ adduct)"

definition oligomer_row_of :: "bool \<Rightarrow> oligomer_match \<Rightarrow> error + oligomer_row" where
  "oligomer_row_of numpy m =
     (let mz_x = olg_mz_a m;
          mz_y = olg_mz_b m;
          adduct = olg_adduct m;
          mass = olg_mass m;
          a = (mz_x - mass) + (mz_x - mass) * real_of_int (olg_d m);
          b = mz_y - mass
      in if mz_x - mass = 0
         then (if \<not> numpy then Inl ZeroDivisionError
               else if mz_y - mass = 0 then Inl ValueError else Inl OverflowError)
         else
           (let ratio = (mz_y - mass) / (mz_x - mass)
            in case calculate_ppm_error a b of
                 Inl e \<Rightarrow>
                   if numpy
                   then Inr \<lparr> orow_peak_id_a = olg_peak_id_a m, orow_peak_id_b = olg_peak_id_b m,
                               orow_mz_a = mz_x, orow_mz_b = mz_y,
                               orow_label_a = adduct, orow_label_b = oligomer_label adduct ratio,
                               orow_mz_ratio = round2 ratio, orow_ppm_error = None \<rparr>
                   else Inl e
               | Inr ppm_error \<Rightarrow>
                   Inr \<lparr> orow_peak_id_a = olg_peak_id_a m, orow_peak_id_b = olg_peak_id_b m,
                          orow_mz_a = mz_x, orow_mz_b = mz_y,
                          orow_label_a = adduct, orow_label_b = oligomer_label adduct ratio,
                          orow_mz_ratio = round2 ratio,
                          orow_ppm_error = Some (round2 ppm_error) \<rparr>))"

text \<open>
  The table is created with \<^verbatim>\<open>PRIMARY KEY (peak_id_a, peak_id_b)\<close> and the insert is a
  plain one, so a second accepted match for the same two peaks raises
  \<^verbatim>\<open>sqlite3.IntegrityError\<close>. The two columns are declared \<^verbatim>\<open>INTEGER\<close>: SQLite
  converts a text that reads as a number before it stores it, and compares the key on
  what is stored. The function \<open>stored\<close> is that conversion (the identity on a name
  that does not read as a number); the rows of the model keep the values as they are
  passed to the insert.
\<close>

definition oligomer_same_key :: "(string \<Rightarrow> 'k) \<Rightarrow> oligomer_row \<Rightarrow> oligomer_row \<Rightarrow> bool" where
  "oligomer_same_key stored q r =
     (stored (orow_peak_id_a q) = stored (orow_peak_id_a r) \<and>
      stored (orow_peak_id_b q) = stored (orow_peak_id_b r))"

text \<open>
  An item of the sequence of the first layer is an accepted match, or the KeyError of
  a node without attributes; the run handles the items in order.
\<close>

fun oligomer_item :: "bool \<Rightarrow> error + oligomer_match \<Rightarrow> error + oligomer_row" where
  "oligomer_item numpy (Inl e) = Inl e"
| "oligomer_item numpy (Inr m) = oligomer_row_of numpy m"

text \<open>The m/z values of a flat list are numpy floats; for the nodes of a graph the caller says.\<close>

fun numpy_mz :: "bool \<Rightarrow> source \<Rightarrow> bool" where
  "numpy_mz numpy_nodes (PeakList peaklist) = True"
| "numpy_mz numpy_nodes (Graphs graphs) = numpy_nodes"

text \<open>
  \<^verbatim>\<open>annotate_oligomers(source, db_out, ppm, lib, maximum=2)\<close>: the table is dropped and
  created anew, so the result is the table written by this run, or the exception that
  ended it. The second definition is the same run on the search without the early
  exit.
\<close>

definition annotate_oligomers ::
  "(string \<Rightarrow> 'k) \<Rightarrow> bool \<Rightarrow> source \<Rightarrow> real \<Rightarrow> (string \<times> real) list \<Rightarrow> int
   \<Rightarrow> error + oligomer_row list" where
  "annotate_oligomers stored numpy_nodes source ppm lib maximum =
     insert_rows (oligomer_same_key stored) []
       (map (oligomer_item (numpy_mz numpy_nodes source))
            (oligomers_accepted source ppm lib maximum))"

definition annotate_oligomers_naive ::
  "(string \<Rightarrow> 'k) \<Rightarrow> bool \<Rightarrow> source \<Rightarrow> real \<Rightarrow> (string \<times> real) list \<Rightarrow> int
   \<Rightarrow> error + oligomer_row list" where
  "annotate_oligomers_naive stored numpy_nodes source ppm lib maximum =
     insert_rows (oligomer_same_key stored) []
       (map (oligomer_item (numpy_mz numpy_nodes source))
            (oligomers_accepted_naive source ppm lib maximum))"

section \<open>Summary aggregator\<close>

text \<open>
  The destination store is an SQLite file: a list of named tables, in the order of
  \<^verbatim>\<open>sqlite_master\<close>. A table is a list of rows, a row gives a value to each of its
  columns, and a value is NULL, a number or a text. (An integer and a real that are
  equal are the same value for SQL comparison and for \<^verbatim>\<open>UNION\<close>; the model has one
  kind of number.) The tables have the columns their \<^verbatim>\<open>CREATE TABLE\<close> statements
  give them.
\<close>

datatype cell = Null | Num real | Text string

type_synonym row = "(string \<times> cell) list"
type_synonym table = "row list"
type_synonym database = "(string \<times> table) list"

definition col :: "row \<Rightarrow> string \<Rightarrow> cell" where
  "col r c = (case map_of r c of None \<Rightarrow> Null | Some v \<Rightarrow> v)"

definition table_names :: "database \<Rightarrow> string list" where
  "table_names db = map fst db"

definition table_rows :: "database \<Rightarrow> string \<Rightarrow> table" where
  "table_rows db name = (case map_of db name of None \<Rightarrow> [] | Some t \<Rightarrow> t)"

text \<open>\<^verbatim>\<open>"compound" in tn[0]\<close>: the substring test of Python.\<close>

fun contains :: "string \<Rightarrow> string \<Rightarrow> bool" where
  "contains sub [] = (sub = [])"
| "contains sub (c # cs) = (take (length sub) (c # cs) = sub \<or> contains sub cs)"

text \<open>
  SQL \<^verbatim>\<open>round(x)\<close> and \<^verbatim>\<open>round(x, 1)\<close>: to the nearest integer or tenth, a tie away
  from zero; NULL stays NULL. (The columns they are applied to, \<^verbatim>\<open>mz_ratio\<close> and
  \<^verbatim>\<open>atoms\<close>, hold numbers or NULL; a text that does not start with a number counts
  as 0.)
\<close>

fun sql_round :: "cell \<Rightarrow> cell" where
  "sql_round Null = Null"
| "sql_round (Num x) =
     Num (real_of_int (if 0 \<le> x then \<lfloor>x + 1 / 2\<rfloor> else - \<lfloor>- x + 1 / 2\<rfloor>))"
| "sql_round (Text s) = Num 0"

fun sql_round1 :: "cell \<Rightarrow> cell" where
  "sql_round1 Null = Null"
| "sql_round1 (Num x) =
     Num (real_of_int (if 0 \<le> x then \<lfloor>x * 10 + 1 / 2\<rfloor> else - \<lfloor>- x * 10 + 1 / 2\<rfloor>) / 10)"
| "sql_round1 (Text s) = Num 0"

text \<open>
  \<^verbatim>\<open>
  cursor.execute("DROP TABLE IF EXISTS peaklist")
  df[["name", "mz", "rt", "intensity"]].to_sql("peaklist", conn, index=False)
  cursor.execute("SELECT name FROM sqlite_master WHERE type='table'")
  tables = cursor.fetchall()
  \<close>
\<close>

definition sqlite_master :: "database \<Rightarrow> string list" where
  "sqlite_master db = filter (\<lambda>tn. tn \<noteq> ''peaklist'') (table_names db) @ [''peaklist'']"

text \<open>
  \<^verbatim>\<open>
  tables_amo = ["adduct_pairs", "multiple_charged_ions", "oligomers", "isotopes"]
  tables_to_union = []
  for tn in tables:
      if tn[0] in tables_amo:
          tables_to_union.append(str(tn[0]))
  if len(tables_to_union) > 0 and ("groups",) in tables:
      if len(tables_to_union) > 1:
          query = "select peak_id_a, peak_id_b from "
          query += " union select peak_id_a, peak_id_b from ".join(map(str, tables_to_union))
      elif len(tables_to_union) == 1:
          query = "select peak_id_a, peak_id_b from {}".format(tables_to_union[0])
      cursor.execute(query)
      records = [(str(record[0]), str(record[1])) for record in cursor.fetchall()]
      ... the graph of these edges, cut into components by networkx, gives the sub groups ...
  else:
      query_groupings = ""
  \<close>
  The model keeps the edges; what networkx makes of them is outside it.
\<close>

definition tables_amo :: "string list" where
  "tables_amo = [''adduct_pairs'', ''multiple_charged_ions'', ''oligomers'', ''isotopes'']"

definition grouping_edges :: "database \<Rightarrow> string list \<Rightarrow> (cell \<times> cell) list" where
  "grouping_edges db tables_to_union =
     remdups (concat (map (\<lambda>tn. map (\<lambda>r. (col r ''peak_id_a'', col r ''peak_id_b''))
                                      (table_rows db tn)) tables_to_union))"

text \<open>
  The union of label, charge and oligomer rows:
  \<^verbatim>\<open>
  flag_amo = len([tl for tl in tables_amo if (tl,) in tables]) > 0
  if flag_amo:
      sub_queries = []
      for tl in tables_amo:
          if (tl,) in tables:
              if tl == "adduct_pairs":
                  sub_queries.append("""select peak_id_a as peak_id_amo, label_a as label, 1 as charge, 1 as oligomer from adduct_pairs
                  union
                  select peak_id_b as peak_id_amo, label_b as label, 1 as charge, 1 as oligomer from adduct_pairs""")
              elif tl == "multiple_charged_ions":
                  sub_queries.append("""select peak_id_a as peak_id_amo, label_a as label, charge_a as charge, 1 as oligomer from multiple_charged_ions
                  union
                  select peak_id_b as peak_id_amo, label_b as label, charge_b as charge, 1 as oligomer from multiple_charged_ions""")
              elif tl == "oligomers":
                  sub_queries.append("""select peak_id_a as peak_id_amo, label_a as label, 1 as charge, 1 as oligomer from oligomers
                  union
                  select peak_id_b as peak_id_amo, label_b as label, 1 as charge, round(mz_ratio) as oligomer from oligomers""")
      query_amo = " union ".join(map(str, sub_queries))
  \<close>
  \<^verbatim>\<open>UNION\<close> keeps one copy of each row; the order of its result is not specified, and
  the model keeps the first occurrences in order.
\<close>

type_synonym amo_row = "cell \<times> cell \<times> cell \<times> cell"

definition sub_query :: "database \<Rightarrow> string \<Rightarrow> amo_row list" where
  "sub_query db tname =
     (if tname = ''adduct_pairs'' then
        map (\<lambda>r. (col r ''peak_id_a'', col r ''label_a'', Num 1, Num 1)) (table_rows db tname) @
        map (\<lambda>r. (col r ''peak_id_b'', col r ''label_b'', Num 1, Num 1)) (table_rows db tname)
      else if tname = ''multiple_charged_ions'' then
        map (\<lambda>r. (col r ''peak_id_a'', col r ''label_a'', col r ''charge_a'', Num 1))
            (table_rows db tname) @
        map (\<lambda>r. (col r ''peak_id_b'', col r ''label_b'', col r ''charge_b'', Num 1))
            (table_rows db tname)
      else if tname = ''oligomers'' then
        map (\<lambda>r. (col r ''peak_id_a'', col r ''label_a'', Num 1, Num 1)) (table_rows db tname) @
        map (\<lambda>r. (col r ''peak_id_b'', col r ''label_b'', Num 1, sql_round (col r ''mz_ratio'')))
            (table_rows db tname)
      else [])"

definition query_amo :: "database \<Rightarrow> string list \<Rightarrow> amo_row list" where
  "query_amo db sub_queries = remdups (concat (map (sub_query db) sub_queries))"

text \<open>
  The isotope view: every row of \<^verbatim>\<open>isotopes\<close> in both directions, grouped by peak.
  \<^verbatim>\<open>
  query_isotopes = """SELECT peak_id_a, group_concat(label_a) as isotope_labels_a,
                      group_concat(peak_id_b, ",") as isotope_ids,
                      group_concat(label_b) as isotope_labels_b, group_concat(round(atoms,1), ",") as atoms
                      from (select peak_id_a, label_a, peak_id_b, label_b, atoms, ppm_error from isotopes
                      union
                      select peak_id_b as peak_id_a, label_b as label_a,
                      peak_id_a as peak_id_b, label_a as label_b, atoms, ppm_error
                      from isotopes
                      ) group by peak_id_a"""
  \<close>
  \<^verbatim>\<open>group_concat\<close> joins the values of a group that are not NULL into one text; the
  model keeps them as a list.
\<close>

record isotope_group =
  ig_peak_id :: cell
  ig_isotope_labels_a :: "cell list"
  ig_isotope_ids :: "cell list"
  ig_isotope_labels_b :: "cell list"
  ig_atoms :: "cell list"

definition isotopes_both_ways ::
  "database \<Rightarrow> (cell \<times> cell \<times> cell \<times> cell \<times> cell \<times> cell) list" where
  "isotopes_both_ways db =
     remdups
      (map (\<lambda>r. (col r ''peak_id_a'', col r ''label_a'', col r ''peak_id_b'', col r ''label_b'',
                  col r ''atoms'', col r ''ppm_error'')) (table_rows db ''isotopes'') @
       map (\<lambda>r. (col r ''peak_id_b'', col r ''label_b'', col r ''peak_id_a'', col r ''label_a'',
                  col r ''atoms'', col r ''ppm_error'')) (table_rows db ''isotopes''))"

definition query_isotopes :: "database \<Rightarrow> isotope_group list" where
  "query_isotopes db =
     (let rows = isotopes_both_ways db
      in map (\<lambda>p.
           (let group = filter (\<lambda>(a, la, b, lb, atoms, ppm_error). a = p) rows
            in \<lparr> ig_peak_id = p,
                 ig_isotope_labels_a =
                   filter (\<lambda>c. c \<noteq> Null) (map (\<lambda>(a, la, b, lb, atoms, ppm_error). la) group),
                 ig_isotope_ids =
                   filter (\<lambda>c. c \<noteq> Null) (map (\<lambda>(a, la, b, lb, atoms, ppm_error). b) group),
                 ig_isotope_labels_b =
                   filter (\<lambda>c. c \<noteq> Null) (map (\<lambda>(a, la, b, lb, atoms, ppm_error). lb) group),
                 ig_atoms =
                   filter (\<lambda>c. c \<noteq> Null)
                     (map (\<lambda>(a, la, b, lb, atoms, ppm_error). sql_round1 atoms) group) \<rparr>))
         (remdups (map (\<lambda>(a, la, b, lb, atoms, ppm_error). a) rows)))"

text \<open>
  The reference matches joined to the peaks: the table \<^verbatim>\<open>molecular_formulae\<close>, and
  every table whose name contains \<^verbatim>\<open>compound\<close>.
  \<^verbatim>\<open>
  cpd_tables = [tn[0] for tn in tables if "compound" in tn[0]]
  flag_mf = ("molecular_formulae",) in tables
  flag_cpd = len(cpd_tables) > 0
  if flag_mf and flag_cpd: ...
  elif not flag_mf and flag_cpd: ...
  elif flag_mf and not flag_cpd: ...
  else:
      mf_cpc_columns = ""
      union_mf_sub_query = ""
  \<close>
  The function can end in four ways other than with its result: the descriptive
  \<^verbatim>\<open>ValueError("No annotation results available to create summary from")\<close>, an
  \<^verbatim>\<open>sqlite3.OperationalError\<close> from a statement SQLite rejects, and the two
  \<^verbatim>\<open>ValueError\<close>s for a wrong \<^verbatim>\<open>convert_rt\<close> or \<^verbatim>\<open>ndigits_mz\<close>.
\<close>

datatype reference_join =
    MfAndCompounds "string list"
  | CompoundsOnly "string list"
  | MfOnly
  | NoReference

datatype summary_error = NoAnnotationResults | SqlError | BadConvertRt | BadNdigitsMz

datatype py_ndigits = NdigitsNone | NdigitsInt int | NdigitsOther

record summary_queries =
  sq_groupings :: "(cell \<times> cell) list option"
  sq_amo :: "amo_row list option"
  sq_isotopes :: "isotope_group list option"
  sq_reference :: reference_join
  sq_label_constraint :: bool

text \<open>
  \<^verbatim>\<open>summary(df, db, single_row, single_column, convert_rt, ndigits_mz)\<close>. The source
  assembles the text of its SQL statements from the pieces above, depending on which
  tables exist; the model follows the same branches and returns the pieces: the edges
  of the grouping graph, the label/charge/oligomer union, the isotope view, which
  reference tables are joined, and whether that join is constrained by the label. The
  final \<^verbatim>\<open>CREATE TABLE summary AS SELECT ...\<close> joins the peak list with these and
  with nothing else. The statements SQLite rejects:
  \<^item> with \<^verbatim>\<open>isotopes\<close> present and none of \<^verbatim>\<open>adduct_pairs\<close>,
    \<^verbatim>\<open>multiple_charged_ions\<close>, \<^verbatim>\<open>oligomers\<close>, \<^verbatim>\<open>flag_amo\<close> and \<^verbatim>\<open>flag_isotopes\<close> both
    hold and \<^verbatim>\<open>query_amo\<close> is empty, so \<^verbatim>\<open>peak_labels\<close> is created from
    \<^verbatim>\<open>... LEFT JOIN () ON ...\<close> (the branch \<^verbatim>\<open>elif flag_isotopes and not flag_amo\<close>
    cannot be reached);
  \<^item> in single-row mode with a \<^verbatim>\<open>groups\<close> table and no grouping query, the columns
    \<^verbatim>\<open>group_id, degree_cor, ...\<close> are selected from a summary that does not have them.
  \<^verbatim>\<open>
  cursor.execute('PRAGMA table_info("peak_labels")')
  columns_peak_labels = cursor.fetchall()
  if len(columns_peak_labels) == 0 and mf_cpc_columns == "":
      raise ValueError("No annotation results available to create summary from")
  ...
  if convert_rt == "min" and "rt" in df_out.columns.values: ...
  elif convert_rt == "sec" and "rt" in df_out.columns.values: ...
  elif convert_rt is not None:
      raise ValueError("Provide min, sec or None for convert_rt")
  if isinstance(ndigits_mz, int): ...
  elif ndigits_mz is not None:
      raise ValueError("Provide integer or None for ndigits_mz")
  \<close>
  The table \<^verbatim>\<open>peak_labels\<close> is dropped first and created exactly when \<^verbatim>\<open>flag_amo\<close>
  holds.
\<close>

definition summary ::
  "database \<Rightarrow> bool \<Rightarrow> string option \<Rightarrow> py_ndigits \<Rightarrow> summary_error + summary_queries" where
  "summary db single_row convert_rt ndigits_mz =
     (let tables = sqlite_master db;
          tables_to_union = filter (\<lambda>tn. tn \<in> set tables_amo) tables;
          groupings =
            (if tables_to_union \<noteq> [] \<and> ''groups'' \<in> set tables
             then Some (grouping_edges db tables_to_union) else None);
          flag_amo = list_ex (\<lambda>tname. tname \<in> set tables) tables_amo;
          flag_isotopes = (''isotopes'' \<in> set tables);
          sub_queries = filter (\<lambda>tname. tname \<in> set tables)
                          [''adduct_pairs'', ''multiple_charged_ions'', ''oligomers'']
      in if flag_amo \<and> flag_isotopes \<and> sub_queries = [] then Inl SqlError
         else
           (let cpd_tables = filter (contains ''compound'') tables;
                flag_mf = (''molecular_formulae'' \<in> set tables);
                flag_cpd = (cpd_tables \<noteq> []);
                reference =
                  (if flag_mf \<and> flag_cpd then MfAndCompounds cpd_tables
                   else if \<not> flag_mf \<and> flag_cpd then CompoundsOnly cpd_tables
                   else if flag_mf \<and> \<not> flag_cpd then MfOnly
                   else NoReference)
            in if \<not> flag_amo \<and> reference = NoReference then Inl NoAnnotationResults
               else if single_row \<and> ''groups'' \<in> set tables \<and> groupings = None then Inl SqlError
               else if convert_rt \<noteq> None \<and> convert_rt \<noteq> Some ''min'' \<and> convert_rt \<noteq> Some ''sec''
                 then Inl BadConvertRt
               else if ndigits_mz = NdigitsOther then Inl BadNdigitsMz
               else Inr \<lparr> sq_groupings = groupings,
                          sq_amo = (if flag_amo then Some (query_amo db sub_queries) else None),
                          sq_isotopes = (if flag_isotopes then Some (query_isotopes db) else None),
                          sq_reference = reference,
                          sq_label_constraint = flag_amo \<rparr>))"

text \<open>Vocabulary: the store without one of its tables.\<close>

definition drop_table :: "string \<Rightarrow> database \<Rightarrow> database" where
  "drop_table name db = filter (\<lambda>(tn, t). tn \<noteq> name) db"

section \<open>The interval test of the matching predicate\<close>

lemma check_tolerance_windows:
  assumes "shifted_windows mz_x mz_y lp ppm = Some ((x1, x2), (y1, y2))"
  shows "check_tolerance mz_x mz_y lp ppm = (if x1 < y2 \<and> y1 < x2 then Inr 1 else Inr 0)"
proof (cases lp)
  case (MassPair la ma ca lb mb cb)
  with assms show ?thesis
    by (auto simp: Let_def split: prod.splits)
next
  case (DiffPair la aa lb ab md)
  with assms show ?thesis
    by (auto simp: Let_def split: prod.splits)
next
  case OtherPair
  with assms show ?thesis by simp
qed

text \<open>
  Claim C2. Whatever the peaks, the comparison pair and the tolerance, the predicate
  reports a match (returns 1) exactly when the shifted windows \<open>[x1, x2]\<close> and
  \<open>[y1, y2]\<close> satisfy \<open>x1 < y2\<close> and \<open>y1 < x2\<close>, and returns 0 otherwise; in particular
  windows that only touch (\<open>x2 = y1\<close>) are not a match.
\<close>

theorem check_tolerance_strict_overlap:
  assumes "shifted_windows mz_x mz_y lp ppm = Some ((x1, x2), (y1, y2))"
  shows "(check_tolerance mz_x mz_y lp ppm = Inr 1 \<longleftrightarrow> x1 < y2 \<and> y1 < x2) \<and>
         (check_tolerance mz_x mz_y lp ppm = Inr 0 \<longleftrightarrow> \<not> (x1 < y2 \<and> y1 < x2)) \<and>
         (x2 = y1 \<longrightarrow> check_tolerance mz_x mz_y lp ppm = Inr 0)"
  using check_tolerance_windows [OF assms] by auto

text \<open>
  With a tolerance of 0 ppm both windows are points; two peaks exactly one isotope
  mass difference apart give the touching windows \<open>[100, 100]\<close> and \<open>[100, 100]\<close>,
  and no match.
\<close>

theorem check_tolerance_strict_overlap_witness:
  "shifted_windows 100 101 (DiffPair ''(12C)'' 100 ''(13C)'' 1 1) 0 = Some ((100, 100), (100, 100)) \<and>
   check_tolerance 100 101 (DiffPair ''(12C)'' 100 ''(13C)'' 1 1) 0 = Inr 0"
proof -
  have w: "shifted_windows 100 101 (DiffPair ''(12C)'' 100 ''(13C)'' 1 1) 0
             = Some ((100, 100), (100, 100))"
    by (simp add: calculate_mz_tolerance_def)
  from check_tolerance_strict_overlap [OF w] show ?thesis
    using w by simp
qed

section \<open>Range queries of the reference store\<close>

lemma select_compounds_iff:
  "c \<in> set (select_compounds sql_literal cdb lo hi) \<longleftrightarrow>
     c \<in> set cdb \<and>
     (\<exists>m. cpd_exact_mass c = Some m \<and> sql_literal lo \<le> m \<and> m \<le> sql_literal hi)"
  by (auto simp: select_compounds_def sql_ge_def sql_le_def split: option.splits)

lemma mf_where_iff:
  "mf_where lo hi rules r \<longleftrightarrow>
     (\<exists>m. mf_exact_mass r = Some m \<and> lo \<le> m \<and> m \<le> hi) \<and>
     (rules \<longrightarrow> mf_lewis r = Some 1 \<and> mf_senior r = Some 1 \<and>
                 mf_HC r = Some 1 \<and> mf_NOPSC r = Some 1)"
  by (auto simp: mf_where_def sql_ge_def sql_le_def sql_is_one_def split: option.splits)

lemma select_mf_iff:
  "e \<in> set (select_mf sql_literal db lo hi rules) \<longleftrightarrow>
     (\<exists>r \<in> set db. e = mf_record_of r \<and>
        (\<exists>m. mf_exact_mass r = Some m \<and> sql_literal lo \<le> m \<and> m \<le> sql_literal hi) \<and>
        (rules \<longrightarrow> mf_lewis r = Some 1 \<and> mf_senior r = Some 1 \<and>
                    mf_HC r = Some 1 \<and> mf_NOPSC r = Some 1))"
  by (auto simp: select_mf_def mf_where_iff)

text \<open>
  Claim C4, where the source departs from it. The range that both lookups apply is the
  one between the bounds as SQLite reads them from the text of the query: an entry is
  returned exactly when it is stored, its exact mass \<open>m\<close> satisfies
  \<open>sql_literal lo \<le> m \<le> sql_literal hi\<close> and, with the rule filter on, its four rule
  flags are 1. So when the lower bound is read as a greater number, a stored entry
  whose exact mass is the bound \<open>lo\<close> itself is omitted; and when the upper bound is
  read as a greater number, a stored entry above \<open>hi\<close> is returned.
\<close>

theorem select_range_as_read:
  "(c \<in> set (select_compounds sql_literal cdb lo hi) \<longleftrightarrow>
      c \<in> set cdb \<and>
      (\<exists>m. cpd_exact_mass c = Some m \<and> sql_literal lo \<le> m \<and> m \<le> sql_literal hi)) \<and>
   (e \<in> set (select_mf sql_literal db lo hi rules) \<longleftrightarrow>
      (\<exists>r \<in> set db. e = mf_record_of r \<and>
         (\<exists>m. mf_exact_mass r = Some m \<and> sql_literal lo \<le> m \<and> m \<le> sql_literal hi) \<and>
         (rules \<longrightarrow> mf_lewis r = Some 1 \<and> mf_senior r = Some 1 \<and>
                     mf_HC r = Some 1 \<and> mf_NOPSC r = Some 1))) \<and>
   (lo < sql_literal lo \<and> cpd_exact_mass c = Some lo \<longrightarrow>
      c \<notin> set (select_compounds sql_literal cdb lo hi)) \<and>
   (lo < sql_literal lo \<and> mf_exact_mass r = Some lo \<longrightarrow>
      mf_record_of r \<notin> set (select_mf sql_literal db lo hi rules)) \<and>
   (c \<in> set cdb \<and> cpd_exact_mass c = Some m \<and> sql_literal lo \<le> m \<and>
    hi < m \<and> m \<le> sql_literal hi \<longrightarrow>
      c \<in> set (select_compounds sql_literal cdb lo hi))"
proof (intro conjI impI)
  show "c \<in> set (select_compounds sql_literal cdb lo hi) \<longleftrightarrow>
      c \<in> set cdb \<and>
      (\<exists>m. cpd_exact_mass c = Some m \<and> sql_literal lo \<le> m \<and> m \<le> sql_literal hi)"
    by (rule select_compounds_iff)
  show "e \<in> set (select_mf sql_literal db lo hi rules) \<longleftrightarrow>
      (\<exists>r \<in> set db. e = mf_record_of r \<and>
         (\<exists>m. mf_exact_mass r = Some m \<and> sql_literal lo \<le> m \<and> m \<le> sql_literal hi) \<and>
         (rules \<longrightarrow> mf_lewis r = Some 1 \<and> mf_senior r = Some 1 \<and>
                     mf_HC r = Some 1 \<and> mf_NOPSC r = Some 1))"
    by (rule select_mf_iff)
next
  assume "lo < sql_literal lo \<and> cpd_exact_mass c = Some lo"
  then show "c \<notin> set (select_compounds sql_literal cdb lo hi)"
    by (auto simp: select_compounds_iff)
next
  assume h: "lo < sql_literal lo \<and> mf_exact_mass r = Some lo"
  show "mf_record_of r \<notin> set (select_mf sql_literal db lo hi rules)"
  proof
    assume "mf_record_of r \<in> set (select_mf sql_literal db lo hi rules)"
    then obtain r' m where r': "mf_record_of r = mf_record_of r'"
        "mf_exact_mass r' = Some m" "sql_literal lo \<le> m"
      unfolding select_mf_iff by blast
    from r'(1) have "mf_exact_mass r = mf_exact_mass r'"
      by (simp add: mf_record_of_def)
    with h r' show False by simp
  qed
next
  assume "c \<in> set cdb \<and> cpd_exact_mass c = Some m \<and> sql_literal lo \<le> m \<and>
    hi < m \<and> m \<le> sql_literal hi"
  then show "c \<in> set (select_compounds sql_literal cdb lo hi)"
    by (auto simp: select_compounds_iff)
qed

text \<open>
  The float Python writes as \<^verbatim>\<open>1937.514094\<close> is \<open>8521277101331527 / 2 ^ 42\<close>; SQLite
  3.46 reads that text as the next float, \<open>8521277101331528 / 2 ^ 42\<close>. With a reader
  that does so, a compound stored with exactly that mass is not found by a lookup whose
  two bounds are that mass.
\<close>

theorem select_range_as_read_witness:
  "select_compounds
     (\<lambda>x. if x = 8521277101331527 / 2 ^ 42 then 8521277101331528 / 2 ^ 42 else x)
     [\<lparr> cpd_compound_id = Some ''C1'', cpd_compound_name = Some ''compound 1'',
        cpd_exact_mass = Some (8521277101331527 / 2 ^ 42), cpd_C = Some 100,
        cpd_H = Some 200, cpd_N = Some 0, cpd_O = Some 30, cpd_P = Some 0, cpd_S = Some 0,
        cpd_CHNOPS = Some 1, cpd_molecular_formula = Some ''C100H200O30'' \<rparr>]
     (8521277101331527 / 2 ^ 42) (8521277101331527 / 2 ^ 42) = []"
proof -
  let ?read = "\<lambda>x::real. if x = 8521277101331527 / 2 ^ 42 then 8521277101331528 / 2 ^ 42 else x"
  let ?c = "\<lparr> cpd_compound_id = Some ''C1'', cpd_compound_name = Some ''compound 1'',
        cpd_exact_mass = Some (8521277101331527 / 2 ^ 42), cpd_C = Some 100,
        cpd_H = Some 200, cpd_N = Some 0, cpd_O = Some 30, cpd_P = Some 0, cpd_S = Some 0,
        cpd_CHNOPS = Some 1, cpd_molecular_formula = Some ''C100H200O30'' \<rparr>"
  let ?lo = "8521277101331527 / 2 ^ 42 :: real"
  have "?lo < ?read ?lo \<and> cpd_exact_mass ?c = Some ?lo" by simp
  with select_range_as_read [of ?c ?read "[?c]" ?lo ?lo]
  have "?c \<notin> set (select_compounds ?read [?c] ?lo ?lo)" by blast
  then show ?thesis
    by (simp add: select_compounds_def sql_ge_def sql_le_def)
qed

section \<open>Ordering of the normalized library\<close>

lemma sequence_map_Inr:
  "(\<And>x. x \<in> set xs \<Longrightarrow> f x = Inr (g x)) \<Longrightarrow> sequence (map f xs) = Inr (map g xs)"
  by (induction xs) auto

lemma combinations2_mem:
  "(u, v) \<in> set (combinations2 xs) \<Longrightarrow> u \<in> set xs \<and> v \<in> set xs"
  by (induction xs) auto

lemma make_pair_float:
  "is_float (snd a) \<Longrightarrow> is_float (snd b) \<Longrightarrow> make_pair a b = Inr (pair_of a b)"
  by (cases a; cases b; cases "snd a"; cases "snd b") (auto simp: pair_of_def)

lemma make_pair_dict:
  "\<not> is_float (snd a) \<Longrightarrow> \<not> is_float (snd b) \<Longrightarrow> make_pair a b = Inr (pair_of a b)"
  by (cases a; cases b; cases "snd a"; cases "snd b") (auto simp: pair_of_def)

lemma make_pair_homogeneous:
  assumes "homogeneous lib" "a \<in> set lib" "b \<in> set lib"
  shows "make_pair a b = Inr (pair_of a b)"
  using assms unfolding homogeneous_def list_all_iff
  by (auto intro: make_pair_float make_pair_dict)

lemma sorted_reverse_sorted:
  "sorted_wrt (\<lambda>x y. key x \<ge> key y) (sorted_reverse key xs)"
proof -
  have "sorted (map (\<lambda>x. - key x) (sort_key (\<lambda>x. - key x) xs))"
    by (rule sorted_sort_key)
  then show ?thesis
    by (simp add: sorted_reverse_def sorted_map)
qed

lemma sorted_reverse_mset: "mset (sorted_reverse key xs) = mset xs"
  by (simp add: sorted_reverse_def)

lemma prep_lib_dict:
  assumes "homogeneous lib"
  shows "prep_lib (DictLib lib) =
           Inr (sorted_reverse mass_separation (map (\<lambda>(a, b). pair_of a b) (combinations2 lib)))"
proof -
  have "sequence (map (\<lambda>(a, b). make_pair a b) (combinations2 lib))
          = Inr (map (\<lambda>(a, b). pair_of a b) (combinations2 lib))"
    by (rule sequence_map_Inr) (auto dest!: combinations2_mem simp: make_pair_homogeneous [OF assms])
  then show ?thesis by simp
qed

lemma combinations2_map: "combinations2 (map f xs) = map (\<lambda>(a, b). (f a, f b)) (combinations2 xs)"
  by (induction xs) auto

lemma combinations2_count:
  "distinct xs \<Longrightarrow> a \<in> set xs \<Longrightarrow> b \<in> set xs \<Longrightarrow> a \<noteq> b \<Longrightarrow>
   count (mset (combinations2 xs)) (a, b) + count (mset (combinations2 xs)) (b, a) = 1"
proof (induction xs)
  case Nil
  then show ?case by simp
next
  case (Cons x xs)
  have notin: "\<And>v. count (mset (combinations2 xs)) (x, v) = 0" "\<And>v. count (mset (combinations2 xs)) (v, x) = 0"
    using Cons.prems(1) combinations2_mem [of _ _ xs]
    by (auto simp: count_eq_zero_iff)
  have cm: "\<And>u v. count (image_mset (Pair x) (mset xs)) (u, v) = (if u = x then count (mset xs) v else 0)"
    by (induction xs) auto
  have one: "\<And>v. v \<in> set xs \<Longrightarrow> count (mset xs) v = 1"
  proof -
    fix v assume "v \<in> set xs"
    moreover from Cons.prems(1) have "distinct xs" by simp
    ultimately show "count (mset xs) v = 1"
      by (simp add: distinct_count_atmost_1)
  qed
  consider "a = x" | "b = x" | "a \<noteq> x" "b \<noteq> x" by blast
  then show ?case
  proof cases
    case 1
    with Cons.prems have "b \<in> set xs" "b \<noteq> x" by auto
    with 1 show ?thesis by (simp add: notin cm one)
  next
    case 2
    with Cons.prems have "a \<in> set xs" "a \<noteq> x" by auto
    with 2 show ?thesis by (simp add: notin cm one)
  next
    case 3
    with Cons.prems have "a \<in> set xs" "b \<in> set xs" "distinct xs" by auto
    from Cons.IH [OF this(3) this(1) this(2) Cons.prems(4)] 3 show ?thesis
      by (simp add: cm)
  qed
qed

lemma prep_lib_list:
  assumes "entries \<noteq> []" "list_all has_mass_difference entries"
  shows "prep_lib (ListLib entries) = Inr (sorted_reverse mass_difference entries)"
  using assms by (cases entries) auto

lemma labels_of_pairs:
  "map pair_labels (map (\<lambda>(a, b). pair_of a b) (combinations2 lib)) = combinations2 (map fst lib)"
  by (simp add: combinations2_map pair_of_def case_prod_unfold)

text \<open>
  Claim C1, as amended. For a dictionary library whose values are all floats or all
  mass/charge dictionaries, the normalizer returns every pair of
  \<^verbatim>\<open>itertools.combinations\<close> once (with distinct labels: each unordered pair of labels
  once, in one orientation), sorted by descending \<^emph>\<open>signed\<close> difference
  (mass of the first entry minus mass of the second). For a non-empty list of entries
  that all carry \<^verbatim>\<open>mass_difference\<close>, it returns the same entries sorted by descending
  \<^verbatim>\<open>mass_difference\<close>.
\<close>

theorem prep_lib_descending_signed:
  "(homogeneous lib \<longrightarrow>
      (\<exists>ps. prep_lib (DictLib lib) = Inr ps \<and>
            mset ps = mset (map (\<lambda>(a, b). pair_of a b) (combinations2 lib)) \<and>
            sorted_wrt (\<lambda>p q. mass_separation p \<ge> mass_separation q) ps \<and>
            (distinct (map fst lib) \<longrightarrow>
               (\<forall>a b. a \<in> fst ` set lib \<and> b \<in> fst ` set lib \<and> a \<noteq> b \<longrightarrow>
                  count (mset (map pair_labels ps)) (a, b) +
                  count (mset (map pair_labels ps)) (b, a) = 1)))) \<and>
   (entries \<noteq> [] \<and> list_all has_mass_difference entries \<longrightarrow>
      (\<exists>ps. prep_lib (ListLib entries) = Inr ps \<and>
            mset ps = mset entries \<and>
            sorted_wrt (\<lambda>p q. mass_difference p \<ge> mass_difference q) ps))"
proof (intro conjI impI)
  assume h: "homogeneous lib"
  let ?raw = "map (\<lambda>(a, b). pair_of a b) (combinations2 lib)"
  let ?ps = "sorted_reverse mass_separation ?raw"
  have labels: "mset (map pair_labels ?ps) = mset (combinations2 (map fst lib))"
  proof -
    have "mset (map pair_labels ?ps) = image_mset pair_labels (mset ?ps)"
      by (rule mset_map)
    also have "\<dots> = image_mset pair_labels (mset ?raw)"
      by (simp only: sorted_reverse_mset)
    also have "\<dots> = mset (map pair_labels ?raw)"
      by (rule mset_map [symmetric])
    finally show ?thesis by (simp only: labels_of_pairs)
  qed
  have uniq: "count (mset (map pair_labels ?ps)) (a, b) +
              count (mset (map pair_labels ?ps)) (b, a) = 1"
    if "distinct (map fst lib)" "a \<in> fst ` set lib" "b \<in> fst ` set lib" "a \<noteq> b" for a b
    using combinations2_count [of "map fst lib" a b] that by (simp only: labels) simp
  show "\<exists>ps. prep_lib (DictLib lib) = Inr ps \<and>
            mset ps = mset ?raw \<and>
            sorted_wrt (\<lambda>p q. mass_separation p \<ge> mass_separation q) ps \<and>
            (distinct (map fst lib) \<longrightarrow>
               (\<forall>a b. a \<in> fst ` set lib \<and> b \<in> fst ` set lib \<and> a \<noteq> b \<longrightarrow>
                  count (mset (map pair_labels ps)) (a, b) +
                  count (mset (map pair_labels ps)) (b, a) = 1))"
  proof (intro exI [of _ ?ps] conjI impI allI)
    show "prep_lib (DictLib lib) = Inr ?ps" by (rule prep_lib_dict [OF h])
    show "mset ?ps = mset ?raw" by (rule sorted_reverse_mset)
    show "sorted_wrt (\<lambda>p q. mass_separation p \<ge> mass_separation q) ?ps"
      by (rule sorted_reverse_sorted)
  next
    fix a b
    assume "distinct (map fst lib)" "a \<in> fst ` set lib \<and> b \<in> fst ` set lib \<and> a \<noteq> b"
    then show "count (mset (map pair_labels ?ps)) (a, b) +
               count (mset (map pair_labels ?ps)) (b, a) = 1"
      using uniq by blast
  qed
next
  assume e: "entries \<noteq> [] \<and> list_all has_mass_difference entries"
  show "\<exists>ps. prep_lib (ListLib entries) = Inr ps \<and> mset ps = mset entries \<and>
            sorted_wrt (\<lambda>p q. mass_difference p \<ge> mass_difference q) ps"
  proof (intro exI [of _ "sorted_reverse mass_difference entries"] conjI)
    show "prep_lib (ListLib entries) = Inr (sorted_reverse mass_difference entries)"
      using e by (simp add: prep_lib_list)
    show "mset (sorted_reverse mass_difference entries) = mset entries"
      by (rule sorted_reverse_mset)
    show "sorted_wrt (\<lambda>p q. mass_difference p \<ge> mass_difference q)
            (sorted_reverse mass_difference entries)"
      by (rule sorted_reverse_sorted)
  qed
qed

theorem prep_lib_descending_signed_witness:
  "homogeneous [(''[M+H]+'', FloatValue 1.007276), (''[M+Na]+'', FloatValue 22.989218),
                (''[M+K]+'', FloatValue 38.963158)] \<and>
   (\<exists>ps. prep_lib (DictLib [(''[M+H]+'', FloatValue 1.007276), (''[M+Na]+'', FloatValue 22.989218),
                             (''[M+K]+'', FloatValue 38.963158)]) = Inr ps \<and>
         sorted_wrt (\<lambda>p q. mass_separation p \<ge> mass_separation q) ps) \<and>
   list_all has_mass_difference
     [DiffPair ''C'' 98.93 ''(13C)'' 1.07 1.003355,
      DiffPair ''S'' 94.99 ''(34S)'' 4.25 1.995796] \<and>
   (\<exists>ps. prep_lib (ListLib [DiffPair ''C'' 98.93 ''(13C)'' 1.07 1.003355,
                            DiffPair ''S'' 94.99 ''(34S)'' 4.25 1.995796]) = Inr ps \<and>
         sorted_wrt (\<lambda>p q. mass_difference p \<ge> mass_difference q) ps)"
proof -
  let ?lib = "[(''[M+H]+'', FloatValue 1.007276), (''[M+Na]+'', FloatValue 22.989218),
               (''[M+K]+'', FloatValue 38.963158)]"
  let ?iso = "[DiffPair ''C'' 98.93 ''(13C)'' 1.07 1.003355,
               DiffPair ''S'' 94.99 ''(34S)'' 4.25 1.995796]"
  have h: "homogeneous ?lib" by (simp add: homogeneous_def)
  have e: "?iso \<noteq> [] \<and> list_all has_mass_difference ?iso" by simp
  from prep_lib_descending_signed [of ?lib ?iso] h e show ?thesis by blast
qed

text \<open>
  The claim as stated asks for descending \<^emph>\<open>absolute\<close> difference. On a library
  listed by ascending mass the signed differences are all negative, and the result is
  in ascending order of absolute difference: 15.97, 21.98, 37.96.
\<close>

theorem prep_lib_absolute_counterexample:
  "prep_lib (DictLib [(''[M+H]+'', FloatValue 1.007276), (''[M+Na]+'', FloatValue 22.989218),
                      (''[M+K]+'', FloatValue 38.963158)])
     = Inr [MassPair ''[M+Na]+'' 22.989218 1 ''[M+K]+'' 38.963158 1,
            MassPair ''[M+H]+'' 1.007276 1 ''[M+Na]+'' 22.989218 1,
            MassPair ''[M+H]+'' 1.007276 1 ''[M+K]+'' 38.963158 1] \<and>
   \<not> sorted_wrt (\<lambda>p q. \<bar>mass_separation p\<bar> \<ge> \<bar>mass_separation q\<bar>)
       [MassPair ''[M+Na]+'' 22.989218 1 ''[M+K]+'' 38.963158 1,
        MassPair ''[M+H]+'' 1.007276 1 ''[M+Na]+'' 22.989218 1,
        MassPair ''[M+H]+'' 1.007276 1 ''[M+K]+'' 38.963158 1]"
  by (simp add: sorted_reverse_def)

section \<open>Isotope annotation: the atoms field\<close>

text \<open>
  Claim C5, where the source departs from it. Two peaks one carbon-13 mass difference
  apart, the second with intensity 0, match the isotope pair at 5 ppm, and one of the
  two abundance-weighted products is 0. From a flat peak list the run ends normally
  and the row has a NULL \<^verbatim>\<open>atoms\<close> field; from a graph with the same two peaks the run
  ends with TypeError (\<^verbatim>\<open>float(None)\<close>) and writes nothing.
\<close>

theorem annotate_isotopes_zero_product:
  "annotate_isotopes
     (PeakList [\<lparr> peak_name = ''a'', peak_mz = 100, peak_rt = 10, peak_intensity = 1000 \<rparr>,
                \<lparr> peak_name = ''b'', peak_mz = 101.003355, peak_rt = 10, peak_intensity = 0 \<rparr>])
     5 [DiffPair ''C'' 98.93 ''(13C)'' 1.07 1.003355]
     = Inr [\<lparr> iso_peak_id_a = ''a'', iso_peak_id_b = ''b'', iso_label_a = ''C'',
              iso_label_b = ''(13C)'', iso_atoms = None, iso_ppm_error = 0 \<rparr>] \<and>
   annotate_isotopes
     (Graphs [\<lparr> graph_nodes = [\<lparr> node_id = ''a'', node_mz = 100, node_intensity = 1000 \<rparr>,
                               \<lparr> node_id = ''b'', node_mz = 101.003355, node_intensity = 0 \<rparr>],
                graph_edges = [(''a'', ''b'')] \<rparr>])
     5 [DiffPair ''C'' 98.93 ''(13C)'' 1.07 1.003355]
     = Inl TypeError"
  by (simp add: annotate_isotopes_def sorted_reverse_def annotate_pairs_from_peaklist_def
      annotate_pairs_from_graph_def assignment_of_def calculate_mz_tolerance_def
      calculate_ppm_error_def round2_def py_round_def isotope_row_peaklist_def
      isotope_row_graph_def atoms_of_def insert_isotope_def isotope_key_def find_node_def)

section \<open>Artifact annotation\<close>

text \<open>
  Claim C9, where the source departs from it. Whatever the peaks and the threshold,
  the artifact annotation of a flat peak list ends with TypeError before any pair is
  compared, and that of a list of graphs ends with an exception too: no pair is ever
  flagged and no row is ever written.
\<close>

theorem annotate_artifacts_raises:
  "annotate_artifacts (PeakList peaklist) diff = Inl TypeError \<and>
   (\<exists>e. annotate_artifacts (Graphs graphs) diff = Inl e)"
  by (cases graphs) (simp_all add: annotate_artifacts_gen_def)

section \<open>Plain inserts under a primary key\<close>

lemma key_clash_append1:
  "key_clash k (t @ [r]) \<longleftrightarrow> key_clash k t \<or> (\<exists>q \<in> set t. k q r)"
proof
  assume "key_clash k (t @ [r])"
  then obtain pre a mid b post where h: "t @ [r] = pre @ a # mid @ b # post" "k a b"
    unfolding key_clash_def by blast
  show "key_clash k t \<or> (\<exists>q \<in> set t. k q r)"
  proof (cases post rule: rev_cases)
    case Nil
    with h have "t = pre @ a # mid" "r = b" by auto
    with h show ?thesis by auto
  next
    case (snoc ps p)
    with h have "t = pre @ a # mid @ b # ps" by (auto simp: append_eq_append_conv2)
    with h show ?thesis unfolding key_clash_def by blast
  qed
next
  assume "key_clash k t \<or> (\<exists>q \<in> set t. k q r)"
  then show "key_clash k (t @ [r])"
  proof
    assume "key_clash k t"
    then obtain pre a mid b post where "t = pre @ a # mid @ b # post" "k a b"
      unfolding key_clash_def by blast
    then have "t @ [r] = pre @ a # mid @ b # (post @ [r])" "k a b" by auto
    then show ?thesis unfolding key_clash_def by blast
  next
    assume "\<exists>q \<in> set t. k q r"
    then obtain q where "q \<in> set t" "k q r" by blast
    then obtain pre mid where "t = pre @ q # mid" by (auto simp: in_set_conv_decomp)
    then have "t @ [r] = pre @ q # mid @ r # []" by simp
    with \<open>k q r\<close> show ?thesis unfolding key_clash_def by blast
  qed
qed

lemma insert_rows_clash:
  "\<not> key_clash k t \<Longrightarrow>
   insert_rows k t (map Inr rows) =
     (if key_clash k (t @ rows) then Inl IntegrityError else Inr (t @ rows))"
proof (induction rows arbitrary: t)
  case Nil
  then show ?case by simp
next
  case (Cons r rs)
  show ?case
  proof (cases "\<exists>q \<in> set t. k q r")
    case True
    then have "key_clash k (t @ [r])" by (simp add: key_clash_append1)
    then obtain pre a mid b post where "t @ [r] = pre @ a # mid @ b # post" "k a b"
      unfolding key_clash_def by blast
    then have "t @ r # rs = pre @ a # mid @ b # (post @ rs)" "k a b"
      by (metis append.assoc append_Cons append_Nil)+
    then have "key_clash k (t @ r # rs)" unfolding key_clash_def by blast
    with True show ?thesis by (simp add: list_ex_iff)
  next
    case False
    with Cons.prems have nc: "\<not> key_clash k (t @ [r])" by (simp add: key_clash_append1)
    from Cons.IH [OF nc] False show ?thesis by (simp add: list_ex_iff)
  qed
qed

lemma key_clash_Nil [simp]: "\<not> key_clash k []"
  by (simp add: key_clash_def)

lemma insert_rows_fresh:
  "insert_rows k [] (map Inr rows) =
     (if key_clash k rows then Inl IntegrityError else Inr rows)"
  using insert_rows_clash [of k "[]" rows] by simp

lemma insert_rows_append:
  "insert_rows k t (xs @ ys) =
     (case insert_rows k t xs of Inl e \<Rightarrow> Inl e | Inr t' \<Rightarrow> insert_rows k t' ys)"
proof (induction xs arbitrary: t)
  case Nil
  then show ?case by simp
next
  case (Cons x xs)
  then show ?case by (cases x) auto
qed

lemma insert_rows_Inr:
  "insert_rows k t items = Inr t' \<Longrightarrow> \<exists>rows. items = map Inr rows \<and> t' = t @ rows"
proof (induction items arbitrary: t)
  case Nil
  then show ?case by simp
next
  case (Cons x xs)
  show ?case
  proof (cases x)
    case (Inl e)
    with Cons.prems show ?thesis by simp
  next
    case (Inr r)
    with Cons.prems have "insert_rows k (t @ [r]) xs = Inr t'"
      by (simp split: if_splits)
    from Cons.IH [OF this] obtain rows where "xs = map Inr rows" "t' = (t @ [r]) @ rows"
      by blast
    with Inr show ?thesis by (intro exI [of _ "r # rows"]) simp
  qed
qed

section \<open>Oligomer search: the early exit\<close>

lemma partners_Cons:
  "oligomers_partners ppm (adduct, mass) p_i d (p_j # rest) =
     (if diverged ppm (candidate (peak_mz p_i) mass d) (peak_mz p_j) then []
      else (if accepts ppm mass (candidate (peak_mz p_i) mass d) (peak_mz p_j)
            then [match_of p_i p_j adduct mass d] else [])
           @ oligomers_partners ppm (adduct, mass) p_i d rest)"
  by (simp add: diverged_def accepts_def candidate_def match_of_def Let_def split: prod.splits)

lemma oligomers_partners_naive_Cons:
  "oligomers_partners_naive ppm (adduct, mass) p_i d (p_j # rest) =
     (if accepts ppm mass (candidate (peak_mz p_i) mass d) (peak_mz p_j)
      then [match_of p_i p_j adduct mass d] else [])
     @ oligomers_partners_naive ppm (adduct, mass) p_i d rest"
  by (simp add: accepts_def candidate_def match_of_def Let_def split: prod.splits)

lemma diverged_not_accepts: "diverged ppm c mz_y \<Longrightarrow> \<not> accepts ppm mass c mz_y"
  by (simp add: diverged_def accepts_def)

lemma min_tol_mono:
  "ppm \<le> 1000000 \<Longrightarrow> m \<le> m' \<Longrightarrow>
     fst (calculate_mz_tolerance m ppm) \<le> fst (calculate_mz_tolerance m' ppm)"
proof -
  assume p: "ppm \<le> 1000000" and m: "m \<le> m'"
  have "m * (1 - 0.000001 * ppm) \<le> m' * (1 - 0.000001 * ppm)"
    using p m by (intro mult_right_mono) auto
  then show ?thesis by (simp add: calculate_mz_tolerance_def algebra_simps)
qed

lemma oligomers_partners_naive_nil:
  assumes "\<forall>p \<in> set ps. \<not> accepts ppm mass (candidate (peak_mz p_i) mass d) (peak_mz p)"
  shows "oligomers_partners_naive ppm (adduct, mass) p_i d ps = []"
  using assms by (induction ps) (simp_all add: oligomers_partners_naive_Cons del: oligomers_partners_naive.simps(2))

lemma partners_eq_naive:
  assumes "ppm \<le> 1000000" "sorted (map peak_mz ps)"
  shows "oligomers_partners ppm (adduct, mass) p_i d ps = oligomers_partners_naive ppm (adduct, mass) p_i d ps"
  using assms(2)
proof (induction ps)
  case Nil
  then show ?case by simp
next
  case (Cons p_j rest)
  let ?c = "candidate (peak_mz p_i) mass d"
  show ?case
  proof (cases "diverged ppm ?c (peak_mz p_j)")
    case True
    have "\<not> accepts ppm mass ?c (peak_mz p)" if "p \<in> set rest" for p
    proof -
      from Cons.prems that have "peak_mz p_j \<le> peak_mz p" by auto
      from min_tol_mono [OF assms(1) this] True
      show ?thesis by (simp add: diverged_def accepts_def)
    qed
    then have "oligomers_partners_naive ppm (adduct, mass) p_i d rest = []"
      by (intro oligomers_partners_naive_nil) blast
    with True show ?thesis
      by (simp add: partners_Cons oligomers_partners_naive_Cons diverged_not_accepts
          del: oligomers_partners.simps(2) oligomers_partners_naive.simps(2))
  next
    case False
    from Cons have "oligomers_partners ppm (adduct, mass) p_i d rest
                      = oligomers_partners_naive ppm (adduct, mass) p_i d rest" by simp
    with False show ?thesis
      by (simp add: partners_Cons oligomers_partners_naive_Cons
          del: oligomers_partners.simps(2) oligomers_partners_naive.simps(2))
  qed
qed

lemma peaks_eq_naive:
  assumes "ppm \<le> 1000000" "sorted (map peak_mz ps)"
  shows "oligomers_peaks ppm adduct maximum ps = oligomers_peaks_naive ppm adduct maximum ps"
  using assms(2)
proof (induction ps)
  case Nil
  then show ?case by simp
next
  case (Cons p rest)
  obtain a m where ad: "adduct = (a, m)" by (cases adduct)
  from Cons.prems have s: "sorted (map peak_mz rest)" by simp
  have "oligomers_partners ppm adduct p d rest = oligomers_partners_naive ppm adduct p d rest" for d
    unfolding ad by (rule partners_eq_naive [OF assms(1) s])
  with Cons.IH [OF s] show ?case by simp
qed

lemma accepted_eq_naive:
  assumes "ppm \<le> 1000000" "sorted (map peak_mz peaklist)"
  shows "oligomers_accepted_peaklist peaklist ppm lib maximum
           = oligomers_accepted_peaklist_naive peaklist ppm lib maximum"
  by (simp add: oligomers_accepted_peaklist_def oligomers_accepted_peaklist_naive_def
      peaks_eq_naive [OF assms])


lemma adducts_Cons:
  "oligomers_adducts ppm n nn d ((adduct, mass) # lib) =
     (if diverged ppm (candidate (node_mz n) mass d) (node_mz nn) then []
      else (if accepts ppm mass (candidate (node_mz n) mass d) (node_mz nn)
            then [node_match n nn adduct mass d] else [])
           @ oligomers_adducts ppm n nn d lib)"
  by (simp add: diverged_def accepts_def candidate_def node_match_def Let_def split: prod.splits)

lemma oligomers_adducts_naive_Cons:
  "oligomers_adducts_naive ppm n nn d ((adduct, mass) # lib) =
     (if accepts ppm mass (candidate (node_mz n) mass d) (node_mz nn)
      then [node_match n nn adduct mass d] else [])
     @ oligomers_adducts_naive ppm n nn d lib"
  by (simp add: accepts_def candidate_def node_match_def Let_def split: prod.splits)

lemma max_tol_mono:
  assumes "- 1000000 \<le> ppm" "c' \<le> c"
  shows "snd (calculate_mz_tolerance c' ppm) \<le> snd (calculate_mz_tolerance c ppm)"
proof -
  have "c' * (1 + 0.000001 * ppm) \<le> c * (1 + 0.000001 * ppm)"
    using assms by (intro mult_right_mono) auto
  then show ?thesis by (simp add: calculate_mz_tolerance_def algebra_simps)
qed

lemma candidate_antimono:
  assumes "0 \<le> d" "mass \<le> mass'"
  shows "candidate mz mass' d \<le> candidate mz mass d"
proof -
  have "(mz - mass') * real_of_int d \<le> (mz - mass) * real_of_int d"
    using assms by (intro mult_right_mono) auto
  then show ?thesis by (simp add: candidate_def)
qed

lemma oligomers_adducts_naive_nil:
  assumes "\<forall>(adduct, mass) \<in> set lib. \<not> accepts ppm mass (candidate (node_mz n) mass d) (node_mz nn)"
  shows "oligomers_adducts_naive ppm n nn d lib = []"
  using assms by (induction lib) (auto simp: oligomers_adducts_naive_Cons simp del: oligomers_adducts_naive.simps(2))

lemma adducts_eq_naive:
  assumes "- 1000000 \<le> ppm" "0 \<le> d" "sorted (map snd lib)"
  shows "oligomers_adducts ppm n nn d lib = oligomers_adducts_naive ppm n nn d lib"
  using assms(3)
proof (induction lib)
  case Nil
  then show ?case by simp
next
  case (Cons a rest)
  obtain adduct mass where a: "a = (adduct, mass)" by (cases a)
  let ?c = "candidate (node_mz n) mass d"
  show ?case
  proof (cases "diverged ppm ?c (node_mz nn)")
    case True
    have "\<not> accepts ppm mass' (candidate (node_mz n) mass' d) (node_mz nn)"
      if "(adduct', mass') \<in> set rest" for adduct' mass'
    proof -
      from Cons.prems that a have "mass \<le> mass'" by force
      from max_tol_mono [OF assms(1) candidate_antimono [OF assms(2) this, of "node_mz n"]] True
      show ?thesis by (simp add: diverged_def accepts_def)
    qed
    then have "oligomers_adducts_naive ppm n nn d rest = []"
      by (intro oligomers_adducts_naive_nil) blast
    with True show ?thesis
      unfolding a
      by (simp add: adducts_Cons oligomers_adducts_naive_Cons diverged_not_accepts
          del: oligomers_adducts.simps(2) oligomers_adducts_naive.simps(2))
  next
    case False
    from Cons have "oligomers_adducts ppm n nn d rest = oligomers_adducts_naive ppm n nn d rest" by simp
    with False show ?thesis
      unfolding a
      by (simp add: adducts_Cons oligomers_adducts_naive_Cons
          del: oligomers_adducts.simps(2) oligomers_adducts_naive.simps(2))
  qed
qed

lemma node_eq_naive:
  assumes "- 1000000 \<le> ppm" "sorted (map snd lib)"
  shows "oligomers_node G ppm lib n = oligomers_node_naive G ppm lib n"
proof -
  have "oligomers_adducts ppm n y d lib = oligomers_adducts_naive ppm n y d lib"
    if "d \<in> set [1..k]" for d k y
    using that by (intro adducts_eq_naive [OF assms(1) _ assms(2)]) simp
  then show ?thesis
    unfolding oligomers_node_def oligomers_node_naive_def Let_def
    by (intro arg_cong [where f = concat] map_cong refl) (auto split: option.splits)
qed

lemma upto_1_2: "[1..2::int] = [1, 2]"
  by (simp add: upto.simps)

lemma insert_rows_single: "insert_rows k [] [Inr r] = Inr [r]"
  by simp

lemma show_nat_digit: "n < 10 \<Longrightarrow> show_nat n = [''0123456789'' ! n]"
  by simp

lemma py_round_of_int: "py_round (real_of_int k) = k"
  by (simp add: py_round_def Let_def)

lemma round2_of_int: "round2 (real_of_int k) = real_of_int k"
proof -
  have "real_of_int k * 100 = real_of_int (k * 100)" by simp
  then have "py_round (real_of_int k * 100) = k * 100"
    by (simp only: py_round_of_int)
  then show ?thesis by (simp add: round2_def)
qed

text \<open>
  Claim C3, as amended. When the peaks of the flat list are in ascending order of m/z
  (and the tolerance is at most 1000000 ppm), the search with the early exit
  accepts exactly the matches of the search without it, in the same order, and the
  run ends in the same way, with the same table written or the same exception. In
  graph mode the same holds when the adducts of the library are in ascending order of
  mass (and the tolerance is at least -1000000 ppm).
\<close>

theorem oligomers_early_exit_sorted:
  "(ppm \<le> 1000000 \<and> sorted (map peak_mz peaklist) \<longrightarrow>
      oligomers_accepted (PeakList peaklist) ppm lib maximum
        = oligomers_accepted_naive (PeakList peaklist) ppm lib maximum \<and>
      annotate_oligomers stored numpy_nodes (PeakList peaklist) ppm lib maximum
        = annotate_oligomers_naive stored numpy_nodes (PeakList peaklist) ppm lib maximum) \<and>
   (- 1000000 \<le> ppm \<and> sorted (map snd lib) \<longrightarrow>
      oligomers_accepted (Graphs graphs) ppm lib maximum
        = oligomers_accepted_naive (Graphs graphs) ppm lib maximum \<and>
      annotate_oligomers stored numpy_nodes (Graphs graphs) ppm lib maximum
        = annotate_oligomers_naive stored numpy_nodes (Graphs graphs) ppm lib maximum)"
proof (intro conjI impI)
  assume "ppm \<le> 1000000 \<and> sorted (map peak_mz peaklist)"
  then show e: "oligomers_accepted (PeakList peaklist) ppm lib maximum
        = oligomers_accepted_naive (PeakList peaklist) ppm lib maximum"
    by (simp add: accepted_eq_naive)
  show "annotate_oligomers stored numpy_nodes (PeakList peaklist) ppm lib maximum
        = annotate_oligomers_naive stored numpy_nodes (PeakList peaklist) ppm lib maximum"
    unfolding annotate_oligomers_def annotate_oligomers_naive_def e ..
next
  assume "- 1000000 \<le> ppm \<and> sorted (map snd lib)"
  then have "oligomers_node G ppm lib = oligomers_node_naive G ppm lib" for G
    by (intro ext node_eq_naive) simp_all
  then show e: "oligomers_accepted (Graphs graphs) ppm lib maximum
        = oligomers_accepted_naive (Graphs graphs) ppm lib maximum"
    by simp
  show "annotate_oligomers stored numpy_nodes (Graphs graphs) ppm lib maximum
        = annotate_oligomers_naive stored numpy_nodes (Graphs graphs) ppm lib maximum"
    unfolding annotate_oligomers_def annotate_oligomers_naive_def e ..
qed

text \<open>
  A flat list in ascending order of m/z (99 + H, its dimer 2 * 99 + H, and a third peak)
  and a graph with the library in ascending order of mass: with and without the early
  exit the dimer is the one match, and its row the one row written.
\<close>

theorem oligomers_early_exit_sorted_witness:
  "sorted (map peak_mz
     [\<lparr> peak_name = ''a'', peak_mz = 100.007276, peak_rt = 1, peak_intensity = 1 \<rparr>,
      \<lparr> peak_name = ''b'', peak_mz = 199.007276, peak_rt = 1, peak_intensity = 1 \<rparr>,
      \<lparr> peak_name = ''c'', peak_mz = 500, peak_rt = 1, peak_intensity = 1 \<rparr>]) \<and>
   oligomers_accepted_naive (PeakList
     [\<lparr> peak_name = ''a'', peak_mz = 100.007276, peak_rt = 1, peak_intensity = 1 \<rparr>,
      \<lparr> peak_name = ''b'', peak_mz = 199.007276, peak_rt = 1, peak_intensity = 1 \<rparr>,
      \<lparr> peak_name = ''c'', peak_mz = 500, peak_rt = 1, peak_intensity = 1 \<rparr>])
     5 [(''[M+H]+'', 1.007276), (''[M+K]+'', 38.963158)] 2
   = [Inr \<lparr> olg_peak_id_a = ''a'', olg_peak_id_b = ''b'', olg_mz_a = 100.007276,
            olg_mz_b = 199.007276, olg_adduct = ''[M+H]+'', olg_mass = 1.007276, olg_d = 1 \<rparr>] \<and>
   annotate_oligomers_naive (\<lambda>s. s) True (PeakList
     [\<lparr> peak_name = ''a'', peak_mz = 100.007276, peak_rt = 1, peak_intensity = 1 \<rparr>,
      \<lparr> peak_name = ''b'', peak_mz = 199.007276, peak_rt = 1, peak_intensity = 1 \<rparr>,
      \<lparr> peak_name = ''c'', peak_mz = 500, peak_rt = 1, peak_intensity = 1 \<rparr>])
     5 [(''[M+H]+'', 1.007276), (''[M+K]+'', 38.963158)] 2
   = Inr [\<lparr> orow_peak_id_a = ''a'', orow_peak_id_b = ''b'', orow_mz_a = 100.007276,
            orow_mz_b = 199.007276, orow_label_a = ''[M+H]+'', orow_label_b = ''[2M+H]+'',
            orow_mz_ratio = 2, orow_ppm_error = Some 0 \<rparr>] \<and>
   sorted (map snd [(''[M+H]+'', 1.007276 :: real), (''[M+K]+'', 38.963158)]) \<and>
   oligomers_accepted_naive (Graphs
     [\<lparr> graph_nodes = [\<lparr> node_id = ''a'', node_mz = 100.007276, node_intensity = 1 \<rparr>,
                      \<lparr> node_id = ''b'', node_mz = 199.007276, node_intensity = 1 \<rparr>],
        graph_edges = [(''a'', ''b'')] \<rparr>])
     5 [(''[M+H]+'', 1.007276), (''[M+K]+'', 38.963158)] 2
   = [Inr \<lparr> olg_peak_id_a = ''a'', olg_peak_id_b = ''b'', olg_mz_a = 100.007276,
            olg_mz_b = 199.007276, olg_adduct = ''[M+H]+'', olg_mass = 1.007276, olg_d = 1 \<rparr>] \<and>
   annotate_oligomers_naive (\<lambda>s. s) True (Graphs
     [\<lparr> graph_nodes = [\<lparr> node_id = ''a'', node_mz = 100.007276, node_intensity = 1 \<rparr>,
                      \<lparr> node_id = ''b'', node_mz = 199.007276, node_intensity = 1 \<rparr>],
        graph_edges = [(''a'', ''b'')] \<rparr>])
     5 [(''[M+H]+'', 1.007276), (''[M+K]+'', 38.963158)] 2
   = Inr [\<lparr> orow_peak_id_a = ''a'', orow_peak_id_b = ''b'', orow_mz_a = 100.007276,
            orow_mz_b = 199.007276, orow_label_a = ''[M+H]+'', orow_label_b = ''[2M+H]+'',
            orow_mz_ratio = 2, orow_ppm_error = Some 0 \<rparr>]"
proof -
  let ?pl = "[\<lparr> peak_name = ''a'', peak_mz = 100.007276, peak_rt = 1, peak_intensity = 1 \<rparr>,
      \<lparr> peak_name = ''b'', peak_mz = 199.007276, peak_rt = 1, peak_intensity = 1 \<rparr>,
      \<lparr> peak_name = ''c'', peak_mz = 500, peak_rt = 1, peak_intensity = 1 \<rparr>]"
  let ?gs = "[\<lparr> graph_nodes = [\<lparr> node_id = ''a'', node_mz = 100.007276, node_intensity = 1 \<rparr>,
                      \<lparr> node_id = ''b'', node_mz = 199.007276, node_intensity = 1 \<rparr>],
        graph_edges = [(''a'', ''b'')] \<rparr>]"
  let ?lib = "[(''[M+H]+'', 1.007276 :: real), (''[M+K]+'', 38.963158)]"
  let ?m = "\<lparr> olg_peak_id_a = ''a'', olg_peak_id_b = ''b'', olg_mz_a = 100.007276,
            olg_mz_b = 199.007276, olg_adduct = ''[M+H]+'', olg_mass = 1.007276, olg_d = 1 \<rparr>"
  let ?r = "\<lparr> orow_peak_id_a = ''a'', orow_peak_id_b = ''b'', orow_mz_a = 100.007276,
            orow_mz_b = 199.007276, orow_label_a = ''[M+H]+'', orow_label_b = ''[2M+H]+'',
            orow_mz_ratio = 2, orow_ppm_error = Some 0 \<rparr>"
  have s1: "(5::real) \<le> 1000000 \<and> sorted (map peak_mz ?pl)" by simp
  have s2: "- 1000000 \<le> (5::real) \<and> sorted (map snd ?lib)" by simp
  note eq = oligomers_early_exit_sorted [of 5 ?pl ?lib 2 "(\<lambda>s. s) :: string \<Rightarrow> string" True ?gs]
  have a: "oligomers_accepted (PeakList ?pl) 5 ?lib 2 = [Inr ?m]"
    by (simp add: oligomers_accepted_peaklist_def calculate_mz_tolerance_def)
  have b: "oligomers_accepted (Graphs ?gs) 5 ?lib 2 = [Inr ?m]"
    by (simp add: oligomers_node_def find_node_def calculate_mz_tolerance_def)
  have r: "oligomer_row_of True ?m = Inr ?r"
    using py_round_of_int [of 2] round2_of_int [of 2] round2_of_int [of 0]
    by (simp add: oligomer_row_of_def oligomer_label_def show_int_def calculate_ppm_error_def
        Let_def)
  have c: "annotate_oligomers (\<lambda>s. s) True (PeakList ?pl) 5 ?lib 2 = Inr [?r]"
    unfolding annotate_oligomers_def a by (simp only: list.map oligomer_item.simps numpy_mz.simps r insert_rows_single)
  have d: "annotate_oligomers (\<lambda>s. s) True (Graphs ?gs) 5 ?lib 2 = Inr [?r]"
    unfolding annotate_oligomers_def b by (simp only: list.map oligomer_item.simps numpy_mz.simps r insert_rows_single)
  from eq s1 have e1: "oligomers_accepted (PeakList ?pl) 5 ?lib 2
                         = oligomers_accepted_naive (PeakList ?pl) 5 ?lib 2"
    and f1: "annotate_oligomers (\<lambda>s. s) True (PeakList ?pl) 5 ?lib 2
                         = annotate_oligomers_naive (\<lambda>s. s) True (PeakList ?pl) 5 ?lib 2"
    by blast+
  from eq s2 have e2: "oligomers_accepted (Graphs ?gs) 5 ?lib 2
                         = oligomers_accepted_naive (Graphs ?gs) 5 ?lib 2"
    and f2: "annotate_oligomers (\<lambda>s. s) True (Graphs ?gs) 5 ?lib 2
                         = annotate_oligomers_naive (\<lambda>s. s) True (Graphs ?gs) 5 ?lib 2"
    by blast+
  have a': "oligomers_accepted_naive (PeakList ?pl) 5 ?lib 2 = [Inr ?m]"
    unfolding e1 [symmetric] by (rule a)
  have b': "oligomers_accepted_naive (Graphs ?gs) 5 ?lib 2 = [Inr ?m]"
    unfolding e2 [symmetric] by (rule b)
  have c': "annotate_oligomers_naive (\<lambda>s. s) True (PeakList ?pl) 5 ?lib 2 = Inr [?r]"
    unfolding f1 [symmetric] by (rule c)
  have d': "annotate_oligomers_naive (\<lambda>s. s) True (Graphs ?gs) 5 ?lib 2 = Inr [?r]"
    unfolding f2 [symmetric] by (rule d)
  from s1 s2 a' b' c' d' show ?thesis by blast
qed

text \<open>
  The claim as stated holds for every peak source. In a flat list that is not in
  order of m/z the early exit at peak \<open>c\<close> (m/z 500) hides the dimer \<open>b\<close> that comes
  after it; in a graph, with the heavier adduct first in the library, the early exit
  at that adduct hides the match of the lighter one. In both the run with the early
  exit writes an empty table, and the run without it the row of the dimer.
\<close>

theorem oligomers_early_exit_counterexample:
  "oligomers_accepted (PeakList
     [\<lparr> peak_name = ''a'', peak_mz = 100.007276, peak_rt = 1, peak_intensity = 1 \<rparr>,
      \<lparr> peak_name = ''c'', peak_mz = 500, peak_rt = 1, peak_intensity = 1 \<rparr>,
      \<lparr> peak_name = ''b'', peak_mz = 199.007276, peak_rt = 1, peak_intensity = 1 \<rparr>])
     5 [(''[M+H]+'', 1.007276)] 2 = [] \<and>
   oligomers_accepted_naive (PeakList
     [\<lparr> peak_name = ''a'', peak_mz = 100.007276, peak_rt = 1, peak_intensity = 1 \<rparr>,
      \<lparr> peak_name = ''c'', peak_mz = 500, peak_rt = 1, peak_intensity = 1 \<rparr>,
      \<lparr> peak_name = ''b'', peak_mz = 199.007276, peak_rt = 1, peak_intensity = 1 \<rparr>])
     5 [(''[M+H]+'', 1.007276)] 2
   = [Inr \<lparr> olg_peak_id_a = ''a'', olg_peak_id_b = ''b'', olg_mz_a = 100.007276,
            olg_mz_b = 199.007276, olg_adduct = ''[M+H]+'', olg_mass = 1.007276, olg_d = 1 \<rparr>] \<and>
   oligomers_accepted (Graphs
     [\<lparr> graph_nodes = [\<lparr> node_id = ''a'', node_mz = 100.007276, node_intensity = 1 \<rparr>,
                      \<lparr> node_id = ''b'', node_mz = 199.007276, node_intensity = 1 \<rparr>],
        graph_edges = [(''a'', ''b'')] \<rparr>])
     5 [(''[M+K]+'', 38.963158), (''[M+H]+'', 1.007276)] 2 = [] \<and>
   oligomers_accepted_naive (Graphs
     [\<lparr> graph_nodes = [\<lparr> node_id = ''a'', node_mz = 100.007276, node_intensity = 1 \<rparr>,
                      \<lparr> node_id = ''b'', node_mz = 199.007276, node_intensity = 1 \<rparr>],
        graph_edges = [(''a'', ''b'')] \<rparr>])
     5 [(''[M+K]+'', 38.963158), (''[M+H]+'', 1.007276)] 2
   = [Inr \<lparr> olg_peak_id_a = ''a'', olg_peak_id_b = ''b'', olg_mz_a = 100.007276,
            olg_mz_b = 199.007276, olg_adduct = ''[M+H]+'', olg_mass = 1.007276, olg_d = 1 \<rparr>] \<and>
   annotate_oligomers (\<lambda>s. s) True (PeakList
     [\<lparr> peak_name = ''a'', peak_mz = 100.007276, peak_rt = 1, peak_intensity = 1 \<rparr>,
      \<lparr> peak_name = ''c'', peak_mz = 500, peak_rt = 1, peak_intensity = 1 \<rparr>,
      \<lparr> peak_name = ''b'', peak_mz = 199.007276, peak_rt = 1, peak_intensity = 1 \<rparr>])
     5 [(''[M+H]+'', 1.007276)] 2 = Inr [] \<and>
   annotate_oligomers_naive (\<lambda>s. s) True (PeakList
     [\<lparr> peak_name = ''a'', peak_mz = 100.007276, peak_rt = 1, peak_intensity = 1 \<rparr>,
      \<lparr> peak_name = ''c'', peak_mz = 500, peak_rt = 1, peak_intensity = 1 \<rparr>,
      \<lparr> peak_name = ''b'', peak_mz = 199.007276, peak_rt = 1, peak_intensity = 1 \<rparr>])
     5 [(''[M+H]+'', 1.007276)] 2
   = Inr [\<lparr> orow_peak_id_a = ''a'', orow_peak_id_b = ''b'', orow_mz_a = 100.007276,
            orow_mz_b = 199.007276, orow_label_a = ''[M+H]+'', orow_label_b = ''[2M+H]+'',
            orow_mz_ratio = 2, orow_ppm_error = Some 0 \<rparr>] \<and>
   annotate_oligomers (\<lambda>s. s) True (Graphs
     [\<lparr> graph_nodes = [\<lparr> node_id = ''a'', node_mz = 100.007276, node_intensity = 1 \<rparr>,
                      \<lparr> node_id = ''b'', node_mz = 199.007276, node_intensity = 1 \<rparr>],
        graph_edges = [(''a'', ''b'')] \<rparr>])
     5 [(''[M+K]+'', 38.963158), (''[M+H]+'', 1.007276)] 2 = Inr [] \<and>
   annotate_oligomers_naive (\<lambda>s. s) True (Graphs
     [\<lparr> graph_nodes = [\<lparr> node_id = ''a'', node_mz = 100.007276, node_intensity = 1 \<rparr>,
                      \<lparr> node_id = ''b'', node_mz = 199.007276, node_intensity = 1 \<rparr>],
        graph_edges = [(''a'', ''b'')] \<rparr>])
     5 [(''[M+K]+'', 38.963158), (''[M+H]+'', 1.007276)] 2
   = Inr [\<lparr> orow_peak_id_a = ''a'', orow_peak_id_b = ''b'', orow_mz_a = 100.007276,
            orow_mz_b = 199.007276, orow_label_a = ''[M+H]+'', orow_label_b = ''[2M+H]+'',
            orow_mz_ratio = 2, orow_ppm_error = Some 0 \<rparr>]"
proof -
  let ?pl = "[\<lparr> peak_name = ''a'', peak_mz = 100.007276, peak_rt = 1, peak_intensity = 1 \<rparr>,
      \<lparr> peak_name = ''c'', peak_mz = 500, peak_rt = 1, peak_intensity = 1 \<rparr>,
      \<lparr> peak_name = ''b'', peak_mz = 199.007276, peak_rt = 1, peak_intensity = 1 \<rparr>]"
  let ?gs = "[\<lparr> graph_nodes = [\<lparr> node_id = ''a'', node_mz = 100.007276, node_intensity = 1 \<rparr>,
                      \<lparr> node_id = ''b'', node_mz = 199.007276, node_intensity = 1 \<rparr>],
        graph_edges = [(''a'', ''b'')] \<rparr>]"
  let ?m = "\<lparr> olg_peak_id_a = ''a'', olg_peak_id_b = ''b'', olg_mz_a = 100.007276,
            olg_mz_b = 199.007276, olg_adduct = ''[M+H]+'', olg_mass = 1.007276, olg_d = 1 \<rparr>"
  let ?r = "\<lparr> orow_peak_id_a = ''a'', orow_peak_id_b = ''b'', orow_mz_a = 100.007276,
            orow_mz_b = 199.007276, orow_label_a = ''[M+H]+'', orow_label_b = ''[2M+H]+'',
            orow_mz_ratio = 2, orow_ppm_error = Some 0 \<rparr>"
  have a: "oligomers_accepted (PeakList ?pl) 5 [(''[M+H]+'', 1.007276)] 2 = []"
    by (simp add: oligomers_accepted_peaklist_def calculate_mz_tolerance_def)
  have a': "oligomers_accepted_naive (PeakList ?pl) 5 [(''[M+H]+'', 1.007276)] 2 = [Inr ?m]"
    by (simp add: oligomers_accepted_peaklist_naive_def calculate_mz_tolerance_def)
  have b: "oligomers_accepted (Graphs ?gs) 5 [(''[M+K]+'', 38.963158), (''[M+H]+'', 1.007276)] 2 = []"
    by (simp add: oligomers_node_def find_node_def calculate_mz_tolerance_def)
  have b': "oligomers_accepted_naive (Graphs ?gs) 5 [(''[M+K]+'', 38.963158), (''[M+H]+'', 1.007276)] 2 = [Inr ?m]"
    by (simp add: oligomers_node_naive_def find_node_def calculate_mz_tolerance_def)
  have r: "oligomer_row_of True ?m = Inr ?r"
    using py_round_of_int [of 2] round2_of_int [of 2] round2_of_int [of 0]
    by (simp add: oligomer_row_of_def oligomer_label_def show_int_def calculate_ppm_error_def
        Let_def)
  have c: "annotate_oligomers (\<lambda>s. s) True (PeakList ?pl) 5 [(''[M+H]+'', 1.007276)] 2 = Inr []"
    unfolding annotate_oligomers_def a by simp
  have c': "annotate_oligomers_naive (\<lambda>s. s) True (PeakList ?pl) 5 [(''[M+H]+'', 1.007276)] 2
              = Inr [?r]"
    unfolding annotate_oligomers_naive_def a' by (simp only: list.map oligomer_item.simps numpy_mz.simps r insert_rows_single)
  have d: "annotate_oligomers (\<lambda>s. s) True (Graphs ?gs) 5 [(''[M+K]+'', 38.963158), (''[M+H]+'', 1.007276)] 2 = Inr []"
    unfolding annotate_oligomers_def b by simp
  have d': "annotate_oligomers_naive (\<lambda>s. s) True (Graphs ?gs) 5 [(''[M+K]+'', 38.963158), (''[M+H]+'', 1.007276)] 2 = Inr [?r]"
    unfolding annotate_oligomers_naive_def b' by (simp only: list.map oligomer_item.simps numpy_mz.simps r insert_rows_single)
  from a a' b b' c c' d d' show ?thesis by blast
qed

section \<open>Oligomer search: the multiplicities tested\<close>

lemma partners_mem:
  "m \<in> set (oligomers_partners ppm (adduct, mass) p_i d ps) \<longleftrightarrow>
     (\<exists>before p_j after. ps = before @ p_j # after \<and>
        (\<forall>p \<in> set (before @ [p_j]). \<not> diverged ppm (candidate (peak_mz p_i) mass d) (peak_mz p)) \<and>
        accepts ppm mass (candidate (peak_mz p_i) mass d) (peak_mz p_j) \<and>
        m = match_of p_i p_j adduct mass d)"
proof (induction ps)
  case Nil
  then show ?case by simp
next
  case (Cons q rest)
  let ?c = "candidate (peak_mz p_i) mass d"
  let ?R = "\<lambda>ps. \<exists>before p_j after. ps = before @ p_j # after \<and>
        (\<forall>p \<in> set (before @ [p_j]). \<not> diverged ppm ?c (peak_mz p)) \<and>
        accepts ppm mass ?c (peak_mz p_j) \<and> m = match_of p_i p_j adduct mass d"
  have split: "?R (q # rest) \<longleftrightarrow>
      \<not> diverged ppm ?c (peak_mz q) \<and>
      ((accepts ppm mass ?c (peak_mz q) \<and> m = match_of p_i q adduct mass d) \<or> ?R rest)"
    (is "?L \<longleftrightarrow> ?M")
  proof
    assume ?L
    then obtain before p_j after where h: "q # rest = before @ p_j # after"
        "\<forall>p \<in> set (before @ [p_j]). \<not> diverged ppm ?c (peak_mz p)"
        "accepts ppm mass ?c (peak_mz p_j)" "m = match_of p_i p_j adduct mass d"
      by blast
    show ?M
    proof (cases before)
      case Nil
      with h show ?thesis by auto
    next
      case (Cons b bs)
      with h have "rest = bs @ p_j # after" "q = b" by auto
      with h Cons show ?thesis by auto
    qed
  next
    assume m: ?M
    then have nd: "\<not> diverged ppm ?c (peak_mz q)" by blast
    from m consider "accepts ppm mass ?c (peak_mz q) \<and> m = match_of p_i q adduct mass d" | "?R rest"
      by blast
    then show ?L
    proof cases
      case 1
      with nd show ?thesis by (intro exI [of _ "[]"] exI [of _ q] exI [of _ rest]) simp
    next
      case 2
      then obtain before p_j after where h: "rest = before @ p_j # after"
        "\<forall>p \<in> set (before @ [p_j]). \<not> diverged ppm ?c (peak_mz p)"
        "accepts ppm mass ?c (peak_mz p_j)" "m = match_of p_i p_j adduct mass d"
        by blast
      with nd show ?thesis
        by (intro exI [of _ "q # before"] exI [of _ p_j] exI [of _ after]) simp
    qed
  qed
  show ?case
    unfolding split using Cons.IH
    by (auto simp: partners_Cons simp del: oligomers_partners.simps(2))
qed

lemma peaks_mem:
  "m \<in> set (oligomers_peaks ppm (adduct, mass) maximum ps) \<longleftrightarrow>
     (\<exists>pre p_i mid p_j post d. ps = pre @ p_i # mid @ p_j # post \<and> 1 \<le> d \<and> d < maximum \<and>
        (\<forall>p \<in> set (mid @ [p_j]). \<not> diverged ppm (candidate (peak_mz p_i) mass d) (peak_mz p)) \<and>
        accepts ppm mass (candidate (peak_mz p_i) mass d) (peak_mz p_j) \<and>
        m = match_of p_i p_j adduct mass d)"
proof (induction ps)
  case Nil
  then show ?case by simp
next
  case (Cons q rest)
  let ?T = "\<lambda>p_i mid p_j d. 1 \<le> d \<and> d < maximum \<and>
        (\<forall>p \<in> set (mid @ [p_j]). \<not> diverged ppm (candidate (peak_mz p_i) mass d) (peak_mz p)) \<and>
        accepts ppm mass (candidate (peak_mz p_i) mass d) (peak_mz p_j) \<and>
        m = match_of p_i p_j adduct mass d"
  let ?R = "\<lambda>ps. \<exists>pre p_i mid p_j post d. ps = pre @ p_i # mid @ p_j # post \<and> ?T p_i mid p_j d"
  have split: "?R (q # rest) \<longleftrightarrow>
      (\<exists>mid p_j post d. rest = mid @ p_j # post \<and> ?T q mid p_j d) \<or> ?R rest"
    (is "?L \<longleftrightarrow> ?A \<or> ?B")
  proof
    assume ?L
    then obtain pre p_i mid p_j post d where h: "q # rest = pre @ p_i # mid @ p_j # post"
        "?T p_i mid p_j d" by blast
    show "?A \<or> ?B"
    proof (cases pre)
      case Nil
      with h have "rest = mid @ p_j # post" "q = p_i" by auto
      with h show ?thesis by blast
    next
      case (Cons b bs)
      with h have "rest = bs @ p_i # mid @ p_j # post" by auto
      with h show ?thesis by blast
    qed
  next
    assume "?A \<or> ?B"
    then show ?L
    proof
      assume ?A
      then obtain mid p_j post d where "rest = mid @ p_j # post" "?T q mid p_j d" by blast
      then show ?L by (intro exI [of _ "[]"] exI [of _ q] exI [of _ mid] exI [of _ p_j]
            exI [of _ post] exI [of _ d]) simp
    next
      assume ?B
      then obtain pre p_i mid p_j post d where "rest = pre @ p_i # mid @ p_j # post"
          "?T p_i mid p_j d" by blast
      then show ?L by (intro exI [of _ "q # pre"] exI [of _ p_i] exI [of _ mid] exI [of _ p_j]
            exI [of _ post] exI [of _ d]) simp
    qed
  qed
  have first: "m \<in> set (concat (map (\<lambda>d. oligomers_partners ppm (adduct, mass) q d rest) [1..maximum - 1]))
      \<longleftrightarrow> (\<exists>mid p_j post d. rest = mid @ p_j # post \<and> ?T q mid p_j d)"
  proof -
    have "m \<in> set (concat (map (\<lambda>d. oligomers_partners ppm (adduct, mass) q d rest) [1..maximum - 1]))
        \<longleftrightarrow> (\<exists>d. 1 \<le> d \<and> d < maximum \<and> m \<in> set (oligomers_partners ppm (adduct, mass) q d rest))"
      by auto
    also have "\<dots> \<longleftrightarrow> (\<exists>d. 1 \<le> d \<and> d < maximum \<and>
        (\<exists>before p_j after. rest = before @ p_j # after \<and>
          (\<forall>p \<in> set (before @ [p_j]). \<not> diverged ppm (candidate (peak_mz q) mass d) (peak_mz p)) \<and>
          accepts ppm mass (candidate (peak_mz q) mass d) (peak_mz p_j) \<and>
          m = match_of q p_j adduct mass d))"
      by (simp only: partners_mem)
    also have "\<dots> \<longleftrightarrow> (\<exists>mid p_j post d. rest = mid @ p_j # post \<and> ?T q mid p_j d)"
      by blast
    finally show ?thesis .
  qed
  show ?case
    unfolding split using Cons.IH first by simp
qed


lemma candidate_copies:
  "candidate mz_x mass d = (real_of_int d + 1) * (mz_x - mass) + mass"
  by (simp add: candidate_def algebra_simps)

lemma adducts_multiplicity:
  "m \<in> set (oligomers_adducts ppm n nn d lib) \<Longrightarrow> olg_d m = d"
  by (induction lib) (auto split: prod.splits if_splits simp: Let_def)

lemma node_multiplicity:
  assumes "Inr m \<in> set (oligomers_node G ppm lib n)"
  shows "1 \<le> olg_d m \<and>
         olg_d m \<le> int (length (filter (\<lambda>e. fst e = node_id n) (graph_edges G)))"
  using assms
  by (auto simp: oligomers_node_def Let_def split: option.splits if_splits
      dest: adducts_multiplicity)

lemma accepted_peaklist_mem:
  "m \<in> set (oligomers_accepted_peaklist peaklist ppm lib maximum) \<longleftrightarrow>
     (\<exists>(adduct, mass) \<in> set lib. \<exists>pre p_i mid p_j post d.
        peaklist = pre @ p_i # mid @ p_j # post \<and> 1 \<le> d \<and> d < maximum \<and>
        (\<forall>p \<in> set (mid @ [p_j]). \<not> diverged ppm (candidate (peak_mz p_i) mass d) (peak_mz p)) \<and>
        accepts ppm mass (candidate (peak_mz p_i) mass d) (peak_mz p_j) \<and>
        m = match_of p_i p_j adduct mass d)"
proof -
  have "m \<in> set (oligomers_accepted_peaklist peaklist ppm lib maximum) \<longleftrightarrow>
      (\<exists>a \<in> set lib. m \<in> set (oligomers_peaks ppm (fst a, snd a) maximum peaklist))"
    by (simp add: oligomers_accepted_peaklist_def)
  then show ?thesis
    by (simp only: peaks_mem case_prod_unfold)
qed

lemma annotate_peaklist_items:
  "annotate_oligomers stored numpy_nodes (PeakList peaklist) ppm lib maximum =
     insert_rows (oligomer_same_key stored) []
       (map (oligomer_row_of True) (oligomers_accepted_peaklist peaklist ppm lib maximum))"
  by (simp add: annotate_oligomers_def comp_def)

lemma annotate_peaklist_Inr:
  "annotate_oligomers stored numpy_nodes (PeakList peaklist) ppm lib maximum = Inr table \<longleftrightarrow>
     map (oligomer_row_of True) (oligomers_accepted_peaklist peaklist ppm lib maximum)
       = map Inr table \<and>
     \<not> key_clash (oligomer_same_key stored) table"
proof
  assume r: "annotate_oligomers stored numpy_nodes (PeakList peaklist) ppm lib maximum = Inr table"
  then obtain rows where rows:
      "map (oligomer_row_of True) (oligomers_accepted_peaklist peaklist ppm lib maximum)
         = map Inr rows" "table = rows"
    unfolding annotate_peaklist_items using insert_rows_Inr by fastforce
  from r have "\<not> key_clash (oligomer_same_key stored) rows"
    unfolding annotate_peaklist_items rows(1) insert_rows_fresh by (simp split: if_splits)
  with rows show "map (oligomer_row_of True) (oligomers_accepted_peaklist peaklist ppm lib maximum)
       = map Inr table \<and> \<not> key_clash (oligomer_same_key stored) table"
    by simp
next
  assume "map (oligomer_row_of True) (oligomers_accepted_peaklist peaklist ppm lib maximum)
       = map Inr table \<and> \<not> key_clash (oligomer_same_key stored) table"
  then show "annotate_oligomers stored numpy_nodes (PeakList peaklist) ppm lib maximum = Inr table"
    unfolding annotate_peaklist_items by (simp add: insert_rows_fresh)
qed

lemma annotate_peaklist_clash:
  assumes "oligomers_accepted_peaklist peaklist ppm lib maximum = ms @ m # rest"
    and "map (oligomer_row_of True) ms = map Inr rows"
    and "oligomer_row_of True m = Inr r"
    and "\<exists>q \<in> set rows. oligomer_same_key stored q r"
  shows "annotate_oligomers stored numpy_nodes (PeakList peaklist) ppm lib maximum
           = Inl IntegrityError"
proof -
  have "map (oligomer_row_of True) (oligomers_accepted_peaklist peaklist ppm lib maximum)
          = map Inr rows @ (Inr r # map (oligomer_row_of True) rest)"
    using assms(1-3) by simp
  then show ?thesis
    unfolding annotate_peaklist_items
    using assms(4) by (simp add: insert_rows_append insert_rows_fresh list_ex_iff)
qed

text \<open>
  Claim C8, as amended. In flat-list mode the test of a candidate succeeds, when the
  loops come to it, exactly for an adduct of the library, a peak \<open>p_i\<close>, a later peak
  \<open>p_j\<close> and a multiplicity \<open>d\<close> with \<open>1 \<le> d < maximum\<close> (so up to \<open>maximum - 1\<close>, the
  configured maximum itself excluded) such that the early exit has not fired at any
  peak after \<open>p_i\<close> up to \<open>p_j\<close>, and the candidate for \<open>d\<close>, which is \<open>d + 1\<close> copies of
  the de-adducted \<open>mz_x\<close> with the adduct added back, meets \<open>mz_y\<close> within tolerance.
  The run ends normally exactly when each of these matches gives a row and no two of
  the rows are for the same two peaks; the table then holds these rows, in the order
  of the loops. A match for two peaks that have a row already raises IntegrityError,
  and the candidates after it are never tested. In graph mode the parameter
  \<open>maximum\<close> plays no part, and every accepted multiplicity lies between 1 and the
  number of neighbours of the node.
\<close>

theorem oligomers_tested_multiplicities:
  "(m \<in> set (oligomers_accepted_peaklist peaklist ppm lib maximum) \<longleftrightarrow>
     (\<exists>(adduct, mass) \<in> set lib. \<exists>pre p_i mid p_j post d.
        peaklist = pre @ p_i # mid @ p_j # post \<and> 1 \<le> d \<and> d < maximum \<and>
        (\<forall>p \<in> set (mid @ [p_j]). \<not> diverged ppm (candidate (peak_mz p_i) mass d) (peak_mz p)) \<and>
        accepts ppm mass (candidate (peak_mz p_i) mass d) (peak_mz p_j) \<and>
        m = match_of p_i p_j adduct mass d)) \<and>
   candidate mz_x mass' d' = (real_of_int d' + 1) * (mz_x - mass') + mass' \<and>
   (annotate_oligomers stored numpy_nodes (PeakList peaklist) ppm lib maximum = Inr table \<longleftrightarrow>
      map (oligomer_row_of True) (oligomers_accepted_peaklist peaklist ppm lib maximum)
        = map Inr table \<and>
      \<not> key_clash (oligomer_same_key stored) table) \<and>
   (oligomers_accepted_peaklist peaklist ppm lib maximum = ms @ m # rest \<and>
    map (oligomer_row_of True) ms = map Inr rows \<and>
    oligomer_row_of True m = Inr r \<and>
    (\<exists>q \<in> set rows. oligomer_same_key stored q r) \<longrightarrow>
      annotate_oligomers stored numpy_nodes (PeakList peaklist) ppm lib maximum
        = Inl IntegrityError) \<and>
   annotate_oligomers stored numpy_nodes (Graphs graphs) ppm lib maximum
     = annotate_oligomers stored numpy_nodes (Graphs graphs) ppm lib maximum' \<and>
   (\<forall>G \<in> set graphs. \<forall>n \<in> set (graph_nodes G).
      Inr m \<in> set (oligomers_node G ppm lib n) \<longrightarrow>
      1 \<le> olg_d m \<and>
      olg_d m \<le> int (length (filter (\<lambda>e. fst e = node_id n) (graph_edges G))))"
proof (intro conjI ballI impI)
  show "m \<in> set (oligomers_accepted_peaklist peaklist ppm lib maximum) \<longleftrightarrow>
     (\<exists>(adduct, mass) \<in> set lib. \<exists>pre p_i mid p_j post d.
        peaklist = pre @ p_i # mid @ p_j # post \<and> 1 \<le> d \<and> d < maximum \<and>
        (\<forall>p \<in> set (mid @ [p_j]). \<not> diverged ppm (candidate (peak_mz p_i) mass d) (peak_mz p)) \<and>
        accepts ppm mass (candidate (peak_mz p_i) mass d) (peak_mz p_j) \<and>
        m = match_of p_i p_j adduct mass d)"
    by (rule accepted_peaklist_mem)
  show "candidate mz_x mass' d' = (real_of_int d' + 1) * (mz_x - mass') + mass'"
    by (rule candidate_copies)
  show "annotate_oligomers stored numpy_nodes (PeakList peaklist) ppm lib maximum = Inr table \<longleftrightarrow>
      map (oligomer_row_of True) (oligomers_accepted_peaklist peaklist ppm lib maximum)
        = map Inr table \<and>
      \<not> key_clash (oligomer_same_key stored) table"
    by (rule annotate_peaklist_Inr)
  show "annotate_oligomers stored numpy_nodes (Graphs graphs) ppm lib maximum
          = annotate_oligomers stored numpy_nodes (Graphs graphs) ppm lib maximum'"
    by (simp add: annotate_oligomers_def)
next
  assume "oligomers_accepted_peaklist peaklist ppm lib maximum = ms @ m # rest \<and>
    map (oligomer_row_of True) ms = map Inr rows \<and>
    oligomer_row_of True m = Inr r \<and>
    (\<exists>q \<in> set rows. oligomer_same_key stored q r)"
  then show "annotate_oligomers stored numpy_nodes (PeakList peaklist) ppm lib maximum
        = Inl IntegrityError"
    using annotate_peaklist_clash by blast
next
  fix G n
  assume "Inr m \<in> set (oligomers_node G ppm lib n)"
  then show "1 \<le> olg_d m"
    and "olg_d m \<le> int (length (filter (\<lambda>e. fst e = node_id n) (graph_edges G)))"
    using node_multiplicity by blast+
qed

text \<open>
  A monomer 99 + H and its trimer 3 * 99 + H: with \<open>maximum = 3\<close> the multiplicity
  \<open>d = 2\<close> is tested, the trimer is accepted and its row is the table written. Three
  peaks where \<open>b\<close> is the dimer of \<open>a\<close> for the adduct H and its trimer for the adduct
  K: the second match for \<open>(a, b)\<close> ends the run with IntegrityError. A graph with
  one edge: the multiplicity of its match is 1.
\<close>

theorem oligomers_tested_multiplicities_witness:
  "\<lparr> olg_peak_id_a = ''a'', olg_peak_id_b = ''b'', olg_mz_a = 100.007276,
        olg_mz_b = 298.007276, olg_adduct = ''[M+H]+'', olg_mass = 1.007276, olg_d = 2 \<rparr>
   \<in> set (oligomers_accepted_peaklist
            [\<lparr> peak_name = ''a'', peak_mz = 100.007276, peak_rt = 1, peak_intensity = 1 \<rparr>,
             \<lparr> peak_name = ''b'', peak_mz = 298.007276, peak_rt = 1, peak_intensity = 1 \<rparr>]
            5 [(''[M+H]+'', 1.007276)] 3) \<and>
   annotate_oligomers (\<lambda>s. s) True (PeakList
            [\<lparr> peak_name = ''a'', peak_mz = 100.007276, peak_rt = 1, peak_intensity = 1 \<rparr>,
             \<lparr> peak_name = ''b'', peak_mz = 298.007276, peak_rt = 1, peak_intensity = 1 \<rparr>])
            5 [(''[M+H]+'', 1.007276)] 3
   = Inr [\<lparr> orow_peak_id_a = ''a'', orow_peak_id_b = ''b'', orow_mz_a = 100.007276,
        orow_mz_b = 298.007276, orow_label_a = ''[M+H]+'', orow_label_b = ''[3M+H]+'',
        orow_mz_ratio = 3, orow_ppm_error = Some 0 \<rparr>] \<and>
   annotate_oligomers (\<lambda>s. s) True (PeakList
            [\<lparr> peak_name = ''a'', peak_mz = 76.91904, peak_rt = 1, peak_intensity = 1 \<rparr>,
             \<lparr> peak_name = ''b'', peak_mz = 152.830804, peak_rt = 1, peak_intensity = 1 \<rparr>,
             \<lparr> peak_name = ''e'', peak_mz = 266.69845, peak_rt = 1, peak_intensity = 1 \<rparr>])
            5 [(''[M+H]+'', 1.007276), (''[M+K]+'', 38.963158)] 3
   = Inl IntegrityError \<and>
   Inr \<lparr> olg_peak_id_a = ''a'', olg_peak_id_b = ''b'', olg_mz_a = 100.007276,
        olg_mz_b = 199.007276, olg_adduct = ''[M+H]+'', olg_mass = 1.007276, olg_d = 1 \<rparr>
   \<in> set (oligomers_node
      \<lparr> graph_nodes = [\<lparr> node_id = ''a'', node_mz = 100.007276, node_intensity = 1 \<rparr>,
                     \<lparr> node_id = ''b'', node_mz = 199.007276, node_intensity = 1 \<rparr>],
       graph_edges = [(''a'', ''b'')] \<rparr>
      5 [(''[M+H]+'', 1.007276)]
      \<lparr> node_id = ''a'', node_mz = 100.007276, node_intensity = 1 \<rparr>) \<and>
   olg_d \<lparr> olg_peak_id_a = ''a'', olg_peak_id_b = ''b'', olg_mz_a = 100.007276,
        olg_mz_b = 199.007276, olg_adduct = ''[M+H]+'', olg_mass = 1.007276, olg_d = 1 \<rparr> = 1"
proof -
  let ?a = "\<lparr> peak_name = ''a'', peak_mz = 100.007276, peak_rt = 1, peak_intensity = 1 \<rparr>"
  let ?b = "\<lparr> peak_name = ''b'', peak_mz = 298.007276, peak_rt = 1, peak_intensity = 1 \<rparr>"
  let ?m = "\<lparr> olg_peak_id_a = ''a'', olg_peak_id_b = ''b'', olg_mz_a = 100.007276,
        olg_mz_b = 298.007276, olg_adduct = ''[M+H]+'', olg_mass = 1.007276, olg_d = 2 \<rparr>"
  let ?r = "\<lparr> orow_peak_id_a = ''a'', orow_peak_id_b = ''b'', orow_mz_a = 100.007276,
        orow_mz_b = 298.007276, orow_label_a = ''[M+H]+'', orow_label_b = ''[3M+H]+'',
        orow_mz_ratio = 3, orow_ppm_error = Some 0 \<rparr>"
  let ?H = "[(''[M+H]+'', 1.007276 :: real)]"
  let ?qa = "\<lparr> peak_name = ''a'', peak_mz = 76.91904, peak_rt = 1, peak_intensity = 1 \<rparr>"
  let ?qb = "\<lparr> peak_name = ''b'', peak_mz = 152.830804, peak_rt = 1, peak_intensity = 1 \<rparr>"
  let ?qe = "\<lparr> peak_name = ''e'', peak_mz = 266.69845, peak_rt = 1, peak_intensity = 1 \<rparr>"
  let ?lib = "[(''[M+H]+'', 1.007276 :: real), (''[M+K]+'', 38.963158)]"
  let ?m1 = "\<lparr> olg_peak_id_a = ''a'', olg_peak_id_b = ''b'', olg_mz_a = 76.91904,
        olg_mz_b = 152.830804, olg_adduct = ''[M+H]+'', olg_mass = 1.007276, olg_d = 1 \<rparr>"
  let ?m2 = "\<lparr> olg_peak_id_a = ''a'', olg_peak_id_b = ''b'', olg_mz_a = 76.91904,
        olg_mz_b = 152.830804, olg_adduct = ''[M+K]+'', olg_mass = 38.963158, olg_d = 2 \<rparr>"
  let ?m3 = "\<lparr> olg_peak_id_a = ''b'', olg_peak_id_b = ''e'', olg_mz_a = 152.830804,
        olg_mz_b = 266.69845, olg_adduct = ''[M+K]+'', olg_mass = 38.963158, olg_d = 1 \<rparr>"
  let ?r1 = "\<lparr> orow_peak_id_a = ''a'', orow_peak_id_b = ''b'', orow_mz_a = 76.91904,
        orow_mz_b = 152.830804, orow_label_a = ''[M+H]+'', orow_label_b = ''[2M+H]+'',
        orow_mz_ratio = 2, orow_ppm_error = Some 0 \<rparr>"
  let ?r2 = "\<lparr> orow_peak_id_a = ''a'', orow_peak_id_b = ''b'', orow_mz_a = 76.91904,
        orow_mz_b = 152.830804, orow_label_a = ''[M+K]+'', orow_label_b = ''[3M+K]+'',
        orow_mz_ratio = 3, orow_ppm_error = Some 0 \<rparr>"
  let ?G = "\<lparr> graph_nodes = [\<lparr> node_id = ''a'', node_mz = 100.007276, node_intensity = 1 \<rparr>,
                     \<lparr> node_id = ''b'', node_mz = 199.007276, node_intensity = 1 \<rparr>],
       graph_edges = [(''a'', ''b'')] \<rparr>"
  let ?n = "\<lparr> node_id = ''a'', node_mz = 100.007276, node_intensity = 1 \<rparr>"
  let ?mg = "\<lparr> olg_peak_id_a = ''a'', olg_peak_id_b = ''b'', olg_mz_a = 100.007276,
        olg_mz_b = 199.007276, olg_adduct = ''[M+H]+'', olg_mass = 1.007276, olg_d = 1 \<rparr>"
  note thm1 = oligomers_tested_multiplicities
         [of ?m "[?a, ?b]" 5 ?H 3 _ _ _ "(\<lambda>s. s) :: string \<Rightarrow> string" True "[?r]"
             "[]" "[]" "[]" ?r "[]"]
  note thm2 = oligomers_tested_multiplicities
         [of ?m2 "[?qa, ?qb, ?qe]" 5 ?lib 3 _ _ _ "(\<lambda>s. s) :: string \<Rightarrow> string" True _
             "[?m1]" "[?m3]" "[?r1]" ?r2 "[]"]
  note thm3 = oligomers_tested_multiplicities
         [of ?mg "[]" 5 ?H 3 _ _ _ "(\<lambda>s. s) :: string \<Rightarrow> string" True _
             "[]" "[]" "[]" _ "[?G]"]
  have acc: "oligomers_accepted_peaklist [?a, ?b] 5 ?H 3 = [?m]"
    by (simp add: oligomers_accepted_peaklist_def calculate_mz_tolerance_def upto_1_2)
  have "\<exists>(adduct, mass) \<in> set ?H.
          \<exists>pre p_i mid p_j post d.
            [?a, ?b] = pre @ p_i # mid @ p_j # post \<and> 1 \<le> d \<and> d < 3 \<and>
            (\<forall>p \<in> set (mid @ [p_j]). \<not> diverged 5 (candidate (peak_mz p_i) mass d) (peak_mz p)) \<and>
            accepts 5 mass (candidate (peak_mz p_i) mass d) (peak_mz p_j) \<and>
            ?m = match_of p_i p_j adduct mass d"
    apply (rule bexI [of _ "(''[M+H]+'', 1.007276)"])
     apply (simp only: prod.case)
     apply (rule exI [of _ "[]"], rule exI [of _ ?a], rule exI [of _ "[]"],
        rule exI [of _ ?b], rule exI [of _ "[]"], rule exI [of _ 2])
     apply (simp add: diverged_def accepts_def candidate_def calculate_mz_tolerance_def
        match_of_def)
    apply simp
    done
  with thm1 have w1: "?m \<in> set (oligomers_accepted_peaklist [?a, ?b] 5 ?H 3)"
    by blast
  have row: "oligomer_row_of True ?m = Inr ?r"
    using py_round_of_int [of 3] round2_of_int [of 3] round2_of_int [of 0]
    by (simp add: oligomer_row_of_def oligomer_label_def show_int_def calculate_ppm_error_def
        Let_def)
  have "map (oligomer_row_of True) (oligomers_accepted_peaklist [?a, ?b] 5 ?H 3) = map Inr [?r]"
    unfolding acc by (simp only: list.map row)
  moreover have "\<not> key_clash (oligomer_same_key (\<lambda>s. s)) [?r]"
    by (simp add: key_clash_def Cons_eq_append_conv)
  ultimately have w2: "annotate_oligomers (\<lambda>s. s) True (PeakList [?a, ?b]) 5 ?H 3 = Inr [?r]"
    using thm1 by blast
  have acc2: "oligomers_accepted_peaklist [?qa, ?qb, ?qe] 5 ?lib 3 = [?m1] @ ?m2 # [?m3]"
    by (simp add: oligomers_accepted_peaklist_def calculate_mz_tolerance_def upto_1_2)
  have row1: "map (oligomer_row_of True) [?m1] = map Inr [?r1]"
    using py_round_of_int [of 2] round2_of_int [of 2] round2_of_int [of 0]
    by (simp add: oligomer_row_of_def oligomer_label_def show_int_def calculate_ppm_error_def
        Let_def)
  have row2: "oligomer_row_of True ?m2 = Inr ?r2"
    using py_round_of_int [of 3] round2_of_int [of 3] round2_of_int [of 0]
    by (simp add: oligomer_row_of_def oligomer_label_def show_int_def calculate_ppm_error_def
        Let_def)
  have clash: "\<exists>q \<in> set [?r1]. oligomer_same_key (\<lambda>s. s) q ?r2"
    by (simp add: oligomer_same_key_def)
  from thm2 acc2 row1 row2 clash
  have w3: "annotate_oligomers (\<lambda>s. s) True (PeakList [?qa, ?qb, ?qe]) 5 ?lib 3 = Inl IntegrityError"
    by blast
  have w4: "Inr ?mg \<in> set (oligomers_node ?G 5 ?H ?n)"
    by (simp add: oligomers_node_def find_node_def calculate_mz_tolerance_def)
  with thm3 have "1 \<le> olg_d ?mg \<and>
      olg_d ?mg \<le> int (length (filter (\<lambda>e. fst e = node_id ?n) (graph_edges ?G)))"
    by simp
  then have w5: "olg_d ?mg = 1" by simp
  from w1 w2 w3 w4 w5 show ?thesis by blast
qed

text \<open>
  The claim as stated has the configured maximum itself tested, and every
  multiplicity tested for every pair and adduct. With \<open>maximum = 2\<close> the monomer and
  its trimer give an empty table, although the test at \<open>d = 2\<close> accepts the trimer.
  With the three peaks above and \<open>maximum = 3\<close> the run ends at the second match
  for \<open>(a, b)\<close>, and the dimer \<open>e\<close> of \<open>b\<close> for the adduct K, which the test at
  \<open>d = 1\<close> accepts, is never tested.
\<close>

theorem oligomers_maximum_counterexample:
  "annotate_oligomers (\<lambda>s. s) True (PeakList
     [\<lparr> peak_name = ''a'', peak_mz = 100.007276, peak_rt = 1, peak_intensity = 1 \<rparr>,
      \<lparr> peak_name = ''b'', peak_mz = 298.007276, peak_rt = 1, peak_intensity = 1 \<rparr>])
     5 [(''[M+H]+'', 1.007276)] 2 = Inr [] \<and>
   oligomers_partners 5 (''[M+H]+'', 1.007276)
     \<lparr> peak_name = ''a'', peak_mz = 100.007276, peak_rt = 1, peak_intensity = 1 \<rparr> 2
     [\<lparr> peak_name = ''b'', peak_mz = 298.007276, peak_rt = 1, peak_intensity = 1 \<rparr>]
   = [\<lparr> olg_peak_id_a = ''a'', olg_peak_id_b = ''b'', olg_mz_a = 100.007276,
        olg_mz_b = 298.007276, olg_adduct = ''[M+H]+'', olg_mass = 1.007276, olg_d = 2 \<rparr>] \<and>
   annotate_oligomers (\<lambda>s. s) True (PeakList
     [\<lparr> peak_name = ''a'', peak_mz = 76.91904, peak_rt = 1, peak_intensity = 1 \<rparr>,
      \<lparr> peak_name = ''b'', peak_mz = 152.830804, peak_rt = 1, peak_intensity = 1 \<rparr>,
      \<lparr> peak_name = ''e'', peak_mz = 266.69845, peak_rt = 1, peak_intensity = 1 \<rparr>])
     5 [(''[M+H]+'', 1.007276), (''[M+K]+'', 38.963158)] 3 = Inl IntegrityError \<and>
   oligomers_partners 5 (''[M+K]+'', 38.963158)
     \<lparr> peak_name = ''b'', peak_mz = 152.830804, peak_rt = 1, peak_intensity = 1 \<rparr> 1
     [\<lparr> peak_name = ''e'', peak_mz = 266.69845, peak_rt = 1, peak_intensity = 1 \<rparr>]
   = [\<lparr> olg_peak_id_a = ''b'', olg_peak_id_b = ''e'', olg_mz_a = 152.830804,
        olg_mz_b = 266.69845, olg_adduct = ''[M+K]+'', olg_mass = 38.963158, olg_d = 1 \<rparr>]"
proof -
  let ?m1 = "\<lparr> olg_peak_id_a = ''a'', olg_peak_id_b = ''b'', olg_mz_a = 76.91904,
        olg_mz_b = 152.830804, olg_adduct = ''[M+H]+'', olg_mass = 1.007276, olg_d = 1 \<rparr>"
  let ?m2 = "\<lparr> olg_peak_id_a = ''a'', olg_peak_id_b = ''b'', olg_mz_a = 76.91904,
        olg_mz_b = 152.830804, olg_adduct = ''[M+K]+'', olg_mass = 38.963158, olg_d = 2 \<rparr>"
  let ?m3 = "\<lparr> olg_peak_id_a = ''b'', olg_peak_id_b = ''e'', olg_mz_a = 152.830804,
        olg_mz_b = 266.69845, olg_adduct = ''[M+K]+'', olg_mass = 38.963158, olg_d = 1 \<rparr>"
  let ?r1 = "\<lparr> orow_peak_id_a = ''a'', orow_peak_id_b = ''b'', orow_mz_a = 76.91904,
        orow_mz_b = 152.830804, orow_label_a = ''[M+H]+'', orow_label_b = ''[2M+H]+'',
        orow_mz_ratio = 2, orow_ppm_error = Some 0 \<rparr>"
  let ?r2 = "\<lparr> orow_peak_id_a = ''a'', orow_peak_id_b = ''b'', orow_mz_a = 76.91904,
        orow_mz_b = 152.830804, orow_label_a = ''[M+K]+'', orow_label_b = ''[3M+K]+'',
        orow_mz_ratio = 3, orow_ppm_error = Some 0 \<rparr>"
  have a: "annotate_oligomers (\<lambda>s. s) True (PeakList [\<lparr> peak_name = ''a'', peak_mz = 100.007276, peak_rt = 1, peak_intensity = 1 \<rparr>, \<lparr> peak_name = ''b'', peak_mz = 298.007276, peak_rt = 1, peak_intensity = 1 \<rparr>]) 5 [(''[M+H]+'', 1.007276)] 2 = Inr []"
    by (simp add: annotate_oligomers_def oligomers_accepted_peaklist_def
        calculate_mz_tolerance_def)
  have b: "oligomers_partners 5 (''[M+H]+'', 1.007276) \<lparr> peak_name = ''a'', peak_mz = 100.007276, peak_rt = 1, peak_intensity = 1 \<rparr> 2 [\<lparr> peak_name = ''b'', peak_mz = 298.007276, peak_rt = 1, peak_intensity = 1 \<rparr>] = [\<lparr> olg_peak_id_a = ''a'', olg_peak_id_b = ''b'', olg_mz_a = 100.007276,
        olg_mz_b = 298.007276, olg_adduct = ''[M+H]+'', olg_mass = 1.007276, olg_d = 2 \<rparr>]"
    by (simp add: calculate_mz_tolerance_def)
  have acc: "oligomers_accepted_peaklist [\<lparr> peak_name = ''a'', peak_mz = 76.91904, peak_rt = 1, peak_intensity = 1 \<rparr>, \<lparr> peak_name = ''b'', peak_mz = 152.830804, peak_rt = 1, peak_intensity = 1 \<rparr>, \<lparr> peak_name = ''e'', peak_mz = 266.69845, peak_rt = 1, peak_intensity = 1 \<rparr>] 5 [(''[M+H]+'', 1.007276), (''[M+K]+'', 38.963158)] 3 = [?m1, ?m2, ?m3]"
    by (simp add: oligomers_accepted_peaklist_def calculate_mz_tolerance_def upto_1_2)
  have row1: "oligomer_row_of True ?m1 = Inr ?r1"
    using py_round_of_int [of 2] round2_of_int [of 2] round2_of_int [of 0]
    by (simp add: oligomer_row_of_def oligomer_label_def show_int_def calculate_ppm_error_def
        Let_def)
  have row2: "oligomer_row_of True ?m2 = Inr ?r2"
    using py_round_of_int [of 3] round2_of_int [of 3] round2_of_int [of 0]
    by (simp add: oligomer_row_of_def oligomer_label_def show_int_def calculate_ppm_error_def
        Let_def)
  have c: "annotate_oligomers (\<lambda>s. s) True (PeakList [\<lparr> peak_name = ''a'', peak_mz = 76.91904, peak_rt = 1, peak_intensity = 1 \<rparr>, \<lparr> peak_name = ''b'', peak_mz = 152.830804, peak_rt = 1, peak_intensity = 1 \<rparr>, \<lparr> peak_name = ''e'', peak_mz = 266.69845, peak_rt = 1, peak_intensity = 1 \<rparr>]) 5 [(''[M+H]+'', 1.007276), (''[M+K]+'', 38.963158)] 3 = Inl IntegrityError"
    unfolding annotate_oligomers_def oligomers_accepted.simps acc
    by (simp only: list.map oligomer_item.simps numpy_mz.simps row1 row2)
       (simp add: oligomer_same_key_def)
  have d: "oligomers_partners 5 (''[M+K]+'', 38.963158) \<lparr> peak_name = ''b'', peak_mz = 152.830804, peak_rt = 1, peak_intensity = 1 \<rparr> 1 [\<lparr> peak_name = ''e'', peak_mz = 266.69845, peak_rt = 1, peak_intensity = 1 \<rparr>] = [?m3]"
    by (simp add: calculate_mz_tolerance_def)
  from a b c d show ?thesis by blast
qed

section \<open>Reference matches with the same key\<close>

lemma sequence_all_Inr: "sequence (map Inr rows) = Inr rows"
  by (induction rows) auto

lemma molecular_formulae_loop_all:
  assumes "concat (map (mf_candidates sql_literal cts lib ppm db rules) peaklist) = map Inr rows"
  shows "molecular_formulae_loop sql_literal cts lib ppm db rules table peaklist
           = insert_rows mf_same_key table (map Inr rows)"
  using assms
proof (induction peaklist arbitrary: table rows)
  case Nil
  then show ?case by simp
next
  case (Cons p peaklist)
  from Cons.prems obtain r1 r2 where r: "rows = r1 @ r2"
      "mf_candidates sql_literal cts lib ppm db rules p = map Inr r1"
      "concat (map (mf_candidates sql_literal cts lib ppm db rules) peaklist) = map Inr r2"
    by (auto simp: append_eq_map_conv)
  show ?case
    using Cons.IH [OF r(3)]
    by (simp add: r(1,2) sequence_all_Inr insert_rows_append split: sum.splits)
qed

text \<open>
  Claim C6, as amended. The reference-match tables are written with a plain insert.
  A run that ends normally has written every match it produced, in order, and left
  each written row as it was. When no row fails to be built, the run ends with an
  integrity error exactly when two of the produced matches have the same primary key
  (\<open>(id, compound_id, adduct)\<close> for compounds, \<open>(id, mz, molecular_formula, adduct)\<close>
  for molecular formulae): the second of them is not ignored, it aborts the run.
\<close>

theorem reference_matches_same_key:
  "(annotate_compounds sql_literal peaklist lib ppm cdb = Inr table \<longrightarrow>
      compound_candidates sql_literal peaklist lib ppm cdb = map Inr table \<and>
      \<not> key_clash compound_same_key table) \<and>
   (compound_candidates sql_literal peaklist lib ppm cdb = map Inr rows \<longrightarrow>
      annotate_compounds sql_literal peaklist lib ppm cdb =
        (if key_clash compound_same_key rows then Inl IntegrityError else Inr rows)) \<and>
   (concat (map (mf_candidates sql_literal cts lib ppm db rules) peaklist) = map Inr mrows \<longrightarrow>
      annotate_molecular_formulae sql_literal cts peaklist lib ppm db rules =
        (if key_clash mf_same_key mrows then Inl IntegrityError else Inr mrows))"
proof (intro conjI impI)
  assume a: "annotate_compounds sql_literal peaklist lib ppm cdb = Inr table"
  then obtain rows where r: "compound_candidates sql_literal peaklist lib ppm cdb = map Inr rows"
      "table = rows"
    unfolding annotate_compounds_def by (auto dest: insert_rows_Inr)
  then show "compound_candidates sql_literal peaklist lib ppm cdb = map Inr table" by simp
  from a r show "\<not> key_clash compound_same_key table"
    by (auto simp: annotate_compounds_def insert_rows_fresh split: if_splits)
next
  assume "compound_candidates sql_literal peaklist lib ppm cdb = map Inr rows"
  then show "annotate_compounds sql_literal peaklist lib ppm cdb =
        (if key_clash compound_same_key rows then Inl IntegrityError else Inr rows)"
    by (simp add: annotate_compounds_def insert_rows_fresh)
next
  assume "concat (map (mf_candidates sql_literal cts lib ppm db rules) peaklist) = map Inr mrows"
  then show "annotate_molecular_formulae sql_literal cts peaklist lib ppm db rules =
        (if key_clash mf_same_key mrows then Inl IntegrityError else Inr mrows)"
    by (simp add: annotate_molecular_formulae_def molecular_formulae_loop_all insert_rows_fresh)
qed

text \<open>
  One peak at the m/z of protonated glucose, against a store that holds glucose: one
  match is written to each table. (The formula string is a stand-in for
  \<^verbatim>\<open>composition_to_string\<close>: the element symbols in order. The bounds are read back
  as they were written.)
\<close>

theorem reference_matches_same_key_witness:
  "compound_candidates (\<lambda>x. x) [\<lparr> peak_name = ''p1'', peak_mz = 181.070666, peak_rt = 60, peak_intensity = 1000 \<rparr>] [(''[M+H]+'', 1.007276), (''[M+Na]+'', 22.989218)] 5 [\<lparr> cpd_compound_id = Some ''HMDB0000122'', cpd_compound_name = Some ''D-Glucose'',
       cpd_exact_mass = Some 180.06339, cpd_C = Some 6, cpd_H = Some 12, cpd_N = Some 0,
       cpd_O = Some 6, cpd_P = Some 0, cpd_S = Some 0, cpd_CHNOPS = Some 1,
       cpd_molecular_formula = Some ''C6H12O6'' \<rparr>] = map Inr [\<lparr> cm_id = ''p1'', cm_mz = 181.070666, cm_exact_mass = 181.070666, cm_ppm_error = 0,
       cm_adduct = ''[M+H]+'', cm_C = Some 6, cm_H = Some 12, cm_N = Some 0, cm_O = Some 6,
       cm_P = Some 0, cm_S = Some 0, cm_CHNOPS = Some 1,
       cm_molecular_formula = Some ''C6H12O6'', cm_compound_id = Some ''HMDB0000122'',
       cm_compound_name = Some ''D-Glucose'' \<rparr>] \<and>
   annotate_compounds (\<lambda>x. x) [\<lparr> peak_name = ''p1'', peak_mz = 181.070666, peak_rt = 60, peak_intensity = 1000 \<rparr>] [(''[M+H]+'', 1.007276), (''[M+Na]+'', 22.989218)] 5 [\<lparr> cpd_compound_id = Some ''HMDB0000122'', cpd_compound_name = Some ''D-Glucose'',
       cpd_exact_mass = Some 180.06339, cpd_C = Some 6, cpd_H = Some 12, cpd_N = Some 0,
       cpd_O = Some 6, cpd_P = Some 0, cpd_S = Some 0, cpd_CHNOPS = Some 1,
       cpd_molecular_formula = Some ''C6H12O6'' \<rparr>] = Inr [\<lparr> cm_id = ''p1'', cm_mz = 181.070666, cm_exact_mass = 181.070666, cm_ppm_error = 0,
       cm_adduct = ''[M+H]+'', cm_C = Some 6, cm_H = Some 12, cm_N = Some 0, cm_O = Some 6,
       cm_P = Some 0, cm_S = Some 0, cm_CHNOPS = Some 1,
       cm_molecular_formula = Some ''C6H12O6'', cm_compound_id = Some ''HMDB0000122'',
       cm_compound_name = Some ''D-Glucose'' \<rparr>] \<and>
   \<not> key_clash compound_same_key [\<lparr> cm_id = ''p1'', cm_mz = 181.070666, cm_exact_mass = 181.070666, cm_ppm_error = 0,
       cm_adduct = ''[M+H]+'', cm_C = Some 6, cm_H = Some 12, cm_N = Some 0, cm_O = Some 6,
       cm_P = Some 0, cm_S = Some 0, cm_CHNOPS = Some 1,
       cm_molecular_formula = Some ''C6H12O6'', cm_compound_id = Some ''HMDB0000122'',
       cm_compound_name = Some ''D-Glucose'' \<rparr>] \<and>
   concat (map (mf_candidates (\<lambda>x. x) (\<lambda>comp. concat (map fst comp)) [(''[M+H]+'', 1.007276), (''[M+Na]+'', 22.989218)] 5 [\<lparr> mf_exact_mass = Some 180.06339, mf_C = Some 6, mf_H = Some 12, mf_N = Some 0,
       mf_O = Some 6, mf_P = Some 0, mf_S = Some 0, mf_CHNOPS = Some 1, mf_HC = Some 1,
       mf_NOPSC = Some 1, mf_lewis = Some 1, mf_senior = Some 1,
       mf_double_bond_equivalents = Some 1 \<rparr>] True) [\<lparr> peak_name = ''p1'', peak_mz = 181.070666, peak_rt = 60, peak_intensity = 1000 \<rparr>]) = map Inr [\<lparr> mm_id = ''p1'', mm_mz = 181.070666, mm_exact_mass = 181.070666, mm_ppm_error = 0,
       mm_adduct = ''[M+H]+'', mm_C = Some 6, mm_H = Some 12, mm_N = Some 0, mm_O = Some 6,
       mm_P = Some 0, mm_S = Some 0, mm_CHNOPS = Some 1, mm_molecular_formula = ''CHNOPS'',
       mm_HC = Some 1, mm_NOPSC = Some 1, mm_lewis = Some 1, mm_senior = Some 1,
       mm_double_bond_equivalents = Some 1 \<rparr>] \<and>
   annotate_molecular_formulae (\<lambda>x. x) (\<lambda>comp. concat (map fst comp)) [\<lparr> peak_name = ''p1'', peak_mz = 181.070666, peak_rt = 60, peak_intensity = 1000 \<rparr>] [(''[M+H]+'', 1.007276), (''[M+Na]+'', 22.989218)] 5 [\<lparr> mf_exact_mass = Some 180.06339, mf_C = Some 6, mf_H = Some 12, mf_N = Some 0,
       mf_O = Some 6, mf_P = Some 0, mf_S = Some 0, mf_CHNOPS = Some 1, mf_HC = Some 1,
       mf_NOPSC = Some 1, mf_lewis = Some 1, mf_senior = Some 1,
       mf_double_bond_equivalents = Some 1 \<rparr>] True = Inr [\<lparr> mm_id = ''p1'', mm_mz = 181.070666, mm_exact_mass = 181.070666, mm_ppm_error = 0,
       mm_adduct = ''[M+H]+'', mm_C = Some 6, mm_H = Some 12, mm_N = Some 0, mm_O = Some 6,
       mm_P = Some 0, mm_S = Some 0, mm_CHNOPS = Some 1, mm_molecular_formula = ''CHNOPS'',
       mm_HC = Some 1, mm_NOPSC = Some 1, mm_lewis = Some 1, mm_senior = Some 1,
       mm_double_bond_equivalents = Some 1 \<rparr>]"
proof -
  let ?p = "\<lparr> peak_name = ''p1'', peak_mz = 181.070666, peak_rt = 60, peak_intensity = 1000 \<rparr>"
  let ?lib = "[(''[M+H]+'', 1.007276), (''[M+Na]+'', 22.989218)] :: (string \<times> real) list"
  let ?cpd = "\<lparr> cpd_compound_id = Some ''HMDB0000122'', cpd_compound_name = Some ''D-Glucose'',
       cpd_exact_mass = Some 180.06339, cpd_C = Some 6, cpd_H = Some 12, cpd_N = Some 0,
       cpd_O = Some 6, cpd_P = Some 0, cpd_S = Some 0, cpd_CHNOPS = Some 1,
       cpd_molecular_formula = Some ''C6H12O6'' \<rparr>"
  let ?cm = "\<lparr> cm_id = ''p1'', cm_mz = 181.070666, cm_exact_mass = 181.070666, cm_ppm_error = 0,
       cm_adduct = ''[M+H]+'', cm_C = Some 6, cm_H = Some 12, cm_N = Some 0, cm_O = Some 6,
       cm_P = Some 0, cm_S = Some 0, cm_CHNOPS = Some 1,
       cm_molecular_formula = Some ''C6H12O6'', cm_compound_id = Some ''HMDB0000122'',
       cm_compound_name = Some ''D-Glucose'' \<rparr>"
  let ?mfr = "\<lparr> mf_exact_mass = Some 180.06339, mf_C = Some 6, mf_H = Some 12, mf_N = Some 0,
       mf_O = Some 6, mf_P = Some 0, mf_S = Some 0, mf_CHNOPS = Some 1, mf_HC = Some 1,
       mf_NOPSC = Some 1, mf_lewis = Some 1, mf_senior = Some 1,
       mf_double_bond_equivalents = Some 1 \<rparr>"
  let ?mm = "\<lparr> mm_id = ''p1'', mm_mz = 181.070666, mm_exact_mass = 181.070666, mm_ppm_error = 0,
       mm_adduct = ''[M+H]+'', mm_C = Some 6, mm_H = Some 12, mm_N = Some 0, mm_O = Some 6,
       mm_P = Some 0, mm_S = Some 0, mm_CHNOPS = Some 1, mm_molecular_formula = ''CHNOPS'',
       mm_HC = Some 1, mm_NOPSC = Some 1, mm_lewis = Some 1, mm_senior = Some 1,
       mm_double_bond_equivalents = Some 1 \<rparr>"
  let ?cts = "(\<lambda>comp. concat (map fst comp)) :: (string \<times> int option) list \<Rightarrow> string"
  note t = reference_matches_same_key [of "\<lambda>x. x" "[?p]" ?lib 5 "[?cpd]" "[?cm]" "[?cm]" ?cts "[?mfr]" True "[?mm]"]
  have c: "compound_candidates (\<lambda>x. x) [?p] ?lib 5 [?cpd] = map Inr [?cm]"
    by (simp add: compound_candidates_def calculate_mz_tolerance_def select_compounds_def
        sql_ge_def sql_le_def compound_match_of_def calculate_ppm_error_def Let_def)
  have a: "annotate_compounds (\<lambda>x. x) [?p] ?lib 5 [?cpd] = Inr [?cm]"
    unfolding annotate_compounds_def c by simp
  have m: "concat (map (mf_candidates (\<lambda>x. x) ?cts ?lib 5 [?mfr] True) [?p]) = map Inr [?mm]"
    by (simp add: mf_candidates_def calculate_mz_tolerance_def select_mf_def mf_where_def
        sql_ge_def sql_le_def sql_is_one_def mf_record_of_def mf_match_of_def
        calculate_ppm_error_def Let_def)
  from t a have nc: "\<not> key_clash compound_same_key [?cm]" by blast
  from t m have "annotate_molecular_formulae (\<lambda>x. x) ?cts [?p] ?lib 5 [?mfr] True =
      (if key_clash mf_same_key [?mm] then Inl IntegrityError else Inr [?mm])"
    by blast
  moreover have "\<not> key_clash mf_same_key [?mm]"
    by (simp add: key_clash_def Cons_eq_append_conv)
  ultimately have mf: "annotate_molecular_formulae (\<lambda>x. x) ?cts [?p] ?lib 5 [?mfr] True = Inr [?mm]"
    by simp
  from c a nc m mf show ?thesis by blast
qed

text \<open>
  The claim as stated has the second match with the same key ignored without error.
  A peak list in which the same peak is listed twice produces the same match twice;
  the second insert raises the integrity error and the run is aborted.
\<close>

theorem reference_match_duplicate_counterexample:
  "annotate_compounds (\<lambda>x. x) [\<lparr> peak_name = ''p1'', peak_mz = 181.070666, peak_rt = 60, peak_intensity = 1000 \<rparr>, \<lparr> peak_name = ''p1'', peak_mz = 181.070666, peak_rt = 60, peak_intensity = 1000 \<rparr>] [(''[M+H]+'', 1.007276), (''[M+Na]+'', 22.989218)] 5 [\<lparr> cpd_compound_id = Some ''HMDB0000122'', cpd_compound_name = Some ''D-Glucose'',
       cpd_exact_mass = Some 180.06339, cpd_C = Some 6, cpd_H = Some 12, cpd_N = Some 0,
       cpd_O = Some 6, cpd_P = Some 0, cpd_S = Some 0, cpd_CHNOPS = Some 1,
       cpd_molecular_formula = Some ''C6H12O6'' \<rparr>] = Inl IntegrityError"
  by (simp add: annotate_compounds_def compound_candidates_def calculate_mz_tolerance_def
      select_compounds_def sql_ge_def sql_le_def compound_match_of_def
      calculate_ppm_error_def compound_same_key_def Let_def)

section \<open>Summary: which tables are read\<close>

lemma map_of_drop_table: "k \<noteq> name \<Longrightarrow> map_of (drop_table name db) k = map_of db k"
  by (induction db) (auto simp: drop_table_def)

lemma table_rows_drop: "k \<noteq> name \<Longrightarrow> table_rows (drop_table name db) k = table_rows db k"
  by (simp add: table_rows_def map_of_drop_table)

lemma names_drop: "table_names (drop_table name db) = filter (\<lambda>tn. tn \<noteq> name) (table_names db)"
  by (induction db) (auto simp: drop_table_def table_names_def)

lemma filter_master_drop:
  assumes "\<not> P name"
  shows "filter P (sqlite_master (drop_table name db)) = filter P (sqlite_master db)"
proof -
  have "filter P (filter Q (filter (\<lambda>tn. tn \<noteq> name) xs)) = filter P (filter Q xs)" for xs Q
    using assms by (induction xs) auto
  then show ?thesis
    by (simp add: sqlite_master_def names_drop del: filter_filter)
qed

lemma mem_master_drop:
  assumes "k \<noteq> name"
  shows "k \<in> set (sqlite_master (drop_table name db)) \<longleftrightarrow> k \<in> set (sqlite_master db)"
  using assms by (auto simp: sqlite_master_def names_drop)

lemma sub_query_drop_artifacts:
  "sub_query (drop_table ''artifacts'' db) = sub_query db"
  by (rule ext) (simp add: sub_query_def table_rows_drop)

lemma query_amo_drop_artifacts:
  "query_amo (drop_table ''artifacts'' db) sub_queries = query_amo db sub_queries"
  by (simp add: query_amo_def sub_query_drop_artifacts)

lemma query_isotopes_drop_artifacts:
  "query_isotopes (drop_table ''artifacts'' db) = query_isotopes db"
  by (simp add: query_isotopes_def isotopes_both_ways_def table_rows_drop)

lemma grouping_edges_drop:
  assumes "name \<notin> set tables_to_union"
  shows "grouping_edges (drop_table name db) tables_to_union = grouping_edges db tables_to_union"
proof -
  have "table_rows (drop_table name db) tn = table_rows db tn" if "tn \<in> set tables_to_union" for tn
    using that assms by (intro table_rows_drop) auto
  then show ?thesis
    by (simp add: grouping_edges_def cong: map_cong)
qed

lemma artifacts_not_amo: "''artifacts'' \<notin> set tables_amo"
  by (simp add: tables_amo_def)

lemma artifacts_not_compound: "\<not> contains ''compound'' ''artifacts''"
  by simp

text \<open>
  Claim C10. Whatever the store and the options, the summary is the one computed from
  the store without its \<^verbatim>\<open>artifacts\<close> table: the same outcome, the same edges, the
  same label, charge and oligomer rows, the same isotope partners, the same reference
  tables. So the rows of a persisted \<^verbatim>\<open>artifacts\<close> table, and its presence,
  contribute nothing.
\<close>

theorem summary_ignores_artifacts:
  "summary (drop_table ''artifacts'' db) single_row convert_rt ndigits_mz
     = summary db single_row convert_rt ndigits_mz"
proof -
  have f1: "filter (\<lambda>tn. tn \<in> set tables_amo) (sqlite_master (drop_table ''artifacts'' db))
              = filter (\<lambda>tn. tn \<in> set tables_amo) (sqlite_master db)"
    by (rule filter_master_drop) (rule artifacts_not_amo)
  have f2: "filter (contains ''compound'') (sqlite_master (drop_table ''artifacts'' db))
              = filter (contains ''compound'') (sqlite_master db)"
    by (rule filter_master_drop) (rule artifacts_not_compound)
  have m: "''groups'' \<in> set (sqlite_master (drop_table ''artifacts'' db))
             \<longleftrightarrow> ''groups'' \<in> set (sqlite_master db)"
    "''isotopes'' \<in> set (sqlite_master (drop_table ''artifacts'' db))
             \<longleftrightarrow> ''isotopes'' \<in> set (sqlite_master db)"
    "''adduct_pairs'' \<in> set (sqlite_master (drop_table ''artifacts'' db))
             \<longleftrightarrow> ''adduct_pairs'' \<in> set (sqlite_master db)"
    "''multiple_charged_ions'' \<in> set (sqlite_master (drop_table ''artifacts'' db))
             \<longleftrightarrow> ''multiple_charged_ions'' \<in> set (sqlite_master db)"
    "''oligomers'' \<in> set (sqlite_master (drop_table ''artifacts'' db))
             \<longleftrightarrow> ''oligomers'' \<in> set (sqlite_master db)"
    "''molecular_formulae'' \<in> set (sqlite_master (drop_table ''artifacts'' db))
             \<longleftrightarrow> ''molecular_formulae'' \<in> set (sqlite_master db)"
    by (simp_all add: mem_master_drop)
  have g: "grouping_edges (drop_table ''artifacts'' db)
             (filter (\<lambda>tn. tn \<in> set tables_amo) (sqlite_master db))
           = grouping_edges db (filter (\<lambda>tn. tn \<in> set tables_amo) (sqlite_master db))"
    by (rule grouping_edges_drop) (simp add: artifacts_not_amo)
  have amo: "list_ex (\<lambda>tname. tname \<in> set (sqlite_master (drop_table ''artifacts'' db))) tables_amo
           = list_ex (\<lambda>tname. tname \<in> set (sqlite_master db)) tables_amo"
    by (simp add: tables_amo_def m)
  show ?thesis
    unfolding summary_def Let_def f1 f2 g amo
    by (simp only: m query_amo_drop_artifacts query_isotopes_drop_artifacts list.simps filter.simps)
qed

text \<open>
  A store with an adduct pair and an artifact for the same two peaks: the summary has
  the two labelled rows of the adduct pair, with or without the \<^verbatim>\<open>artifacts\<close> table.
\<close>

theorem summary_ignores_artifacts_witness:
  "summary [(''adduct_pairs'', [[(''peak_id_a'', Text ''a''), (''peak_id_b'', Text ''b''), (''label_a'', Text ''[M+H]+''), (''label_b'', Text ''[M+Na]+''), (''ppm_error'', Num 0.5)]]), (''artifacts'', [[(''peak_id_a'', Text ''a''), (''peak_id_b'', Text ''b''), (''mz_diff'', Num 0.01), (''ppm_error'', Num 100)]])] False None NdigitsNone
     = Inr \<lparr> sq_groupings = None,
             sq_amo = Some [(Text ''a'', Text ''[M+H]+'', Num 1, Num 1),
                            (Text ''b'', Text ''[M+Na]+'', Num 1, Num 1)],
             sq_isotopes = None, sq_reference = NoReference, sq_label_constraint = True \<rparr>"
proof -
  have "summary (drop_table ''artifacts'' [(''adduct_pairs'', [[(''peak_id_a'', Text ''a''), (''peak_id_b'', Text ''b''), (''label_a'', Text ''[M+H]+''), (''label_b'', Text ''[M+Na]+''), (''ppm_error'', Num 0.5)]]), (''artifacts'', [[(''peak_id_a'', Text ''a''), (''peak_id_b'', Text ''b''), (''mz_diff'', Num 0.01), (''ppm_error'', Num 100)]])])
          False None NdigitsNone
     = Inr \<lparr> sq_groupings = None,
             sq_amo = Some [(Text ''a'', Text ''[M+H]+'', Num 1, Num 1),
                            (Text ''b'', Text ''[M+Na]+'', Num 1, Num 1)],
             sq_isotopes = None, sq_reference = NoReference, sq_label_constraint = True \<rparr>"
    by (simp add: drop_table_def summary_def sqlite_master_def table_names_def tables_amo_def
        query_amo_def sub_query_def table_rows_def col_def)
  then show ?thesis
    by (simp only: summary_ignores_artifacts)
qed

section \<open>Summary: the descriptive error\<close>

lemma master_set: "set (sqlite_master db) = (set (table_names db) - {''peaklist''}) \<union> {''peaklist''}"
  by (auto simp: sqlite_master_def)

lemma peaklist_not_compound: "\<not> contains ''compound'' ''peaklist''"
  by simp

lemma flag_amo_iff:
  "list_ex (\<lambda>tname. tname \<in> set (sqlite_master db)) tables_amo
     \<longleftrightarrow> (\<exists>tn \<in> set (table_names db). tn \<in> set tables_amo)"
  by (auto simp: tables_amo_def master_set)

lemma cpd_tables_iff:
  "filter (contains ''compound'') (sqlite_master db) \<noteq> []
     \<longleftrightarrow> (\<exists>tn \<in> set (table_names db). contains ''compound'' tn)"
  by (auto simp: filter_empty_conv master_set)

lemma flag_mf_iff:
  "''molecular_formulae'' \<in> set (sqlite_master db)
     \<longleftrightarrow> ''molecular_formulae'' \<in> set (table_names db)"
  by (auto simp: master_set)

lemma reference_none:
  "(if mf \<and> cpd then MfAndCompounds c
    else if \<not> mf \<and> cpd then CompoundsOnly c
    else if mf \<and> \<not> cpd then MfOnly else NoReference) = NoReference \<longleftrightarrow> \<not> mf \<and> \<not> cpd"
  by simp

lemma summary_no_results_iff:
  "summary db single_row convert_rt ndigits_mz = Inl NoAnnotationResults \<longleftrightarrow>
     \<not> list_ex (\<lambda>tname. tname \<in> set (sqlite_master db)) tables_amo \<and>
     ''molecular_formulae'' \<notin> set (sqlite_master db) \<and>
     filter (contains ''compound'') (sqlite_master db) = []"
proof (cases "list_ex (\<lambda>tname. tname \<in> set (sqlite_master db)) tables_amo")
  case True
  then show ?thesis
    unfolding summary_def Let_def by (simp only: reference_none) simp
next
  case False
  then show ?thesis
    unfolding summary_def Let_def by (simp only: reference_none) simp
qed

lemma summary_runs:
  assumes "list_ex (\<lambda>tname. tname \<in> set (sqlite_master db)) tables_amo \<or>
           ''molecular_formulae'' \<in> set (sqlite_master db) \<or>
           filter (contains ''compound'') (sqlite_master db) \<noteq> []"
    and "\<not> (list_ex (\<lambda>tname. tname \<in> set (sqlite_master db)) tables_amo \<and>
            ''isotopes'' \<in> set (sqlite_master db) \<and>
            filter (\<lambda>tname. tname \<in> set (sqlite_master db))
              [''adduct_pairs'', ''multiple_charged_ions'', ''oligomers''] = [])"
    and "\<not> (single_row \<and> ''groups'' \<in> set (sqlite_master db) \<and>
            filter (\<lambda>tn. tn \<in> set tables_amo) (sqlite_master db) = [])"
    and "convert_rt = None \<or> convert_rt = Some ''min'' \<or> convert_rt = Some ''sec''"
    and "ndigits_mz \<noteq> NdigitsOther"
  shows "\<exists>q. summary db single_row convert_rt ndigits_mz = Inr q"
proof -
  from assms(2) have c1: "(list_ex (\<lambda>tname. tname \<in> set (sqlite_master db)) tables_amo \<and>
            ''isotopes'' \<in> set (sqlite_master db) \<and>
            filter (\<lambda>tname. tname \<in> set (sqlite_master db))
              [''adduct_pairs'', ''multiple_charged_ions'', ''oligomers''] = []) = False"
    by simp
  from assms(1) have c2: "(\<not> list_ex (\<lambda>tname. tname \<in> set (sqlite_master db)) tables_amo \<and>
      \<not> ''molecular_formulae'' \<in> set (sqlite_master db) \<and>
      \<not> filter (contains ''compound'') (sqlite_master db) \<noteq> []) = False"
    by blast
  from assms(3) have c3: "(single_row \<and> ''groups'' \<in> set (sqlite_master db) \<and>
      (if filter (\<lambda>tn. tn \<in> set tables_amo) (sqlite_master db) \<noteq> [] \<and>
          ''groups'' \<in> set (sqlite_master db)
       then Some (grouping_edges db (filter (\<lambda>tn. tn \<in> set tables_amo) (sqlite_master db)))
       else None) = None) = False"
    by auto
  from assms(4) have c4: "(convert_rt \<noteq> None \<and> convert_rt \<noteq> Some ''min'' \<and>
      convert_rt \<noteq> Some ''sec'') = False"
    by blast
  from assms(5) have c5: "(ndigits_mz = NdigitsOther) = False" by simp
  show ?thesis
    unfolding summary_def Let_def
    by (simp only: reference_none c1 c2 c3 c4 c5 if_False) blast
qed

text \<open>
  Claim C7, as amended. The summary fails with the descriptive error exactly when the
  store holds none of \<^verbatim>\<open>adduct_pairs\<close>, \<^verbatim>\<open>multiple_charged_ions\<close>, \<^verbatim>\<open>oligomers\<close>,
  \<^verbatim>\<open>isotopes\<close>, \<^verbatim>\<open>molecular_formulae\<close> and no table whose name contains \<^verbatim>\<open>compound\<close>
  (the tables \<^verbatim>\<open>artifacts\<close> and \<^verbatim>\<open>drug_products\<close> do not count). With valid display
  options it produces the summary when one of \<^verbatim>\<open>adduct_pairs\<close>,
  \<^verbatim>\<open>multiple_charged_ions\<close>, \<^verbatim>\<open>oligomers\<close> exists, and also when a reference table
  exists and the store has no relationship table of the four and no \<^verbatim>\<open>groups\<close> table.
\<close>

theorem summary_descriptive_error:
  "(summary db single_row convert_rt ndigits_mz = Inl NoAnnotationResults \<longleftrightarrow>
      (\<forall>tn \<in> set (table_names db).
         tn \<notin> set tables_amo \<and> tn \<noteq> ''molecular_formulae'' \<and> \<not> contains ''compound'' tn)) \<and>
   ((''adduct_pairs'' \<in> set (table_names db) \<or> ''multiple_charged_ions'' \<in> set (table_names db) \<or>
     ''oligomers'' \<in> set (table_names db)) \<and>
    (convert_rt = None \<or> convert_rt = Some ''min'' \<or> convert_rt = Some ''sec'') \<and>
    ndigits_mz \<noteq> NdigitsOther
    \<longrightarrow> (\<exists>q. summary db single_row convert_rt ndigits_mz = Inr q)) \<and>
   ((''molecular_formulae'' \<in> set (table_names db) \<or>
       (\<exists>tn \<in> set (table_names db). contains ''compound'' tn)) \<and>
    (\<forall>tn \<in> set (table_names db). tn \<notin> set tables_amo) \<and>
    ''groups'' \<notin> set (table_names db) \<and>
    (convert_rt = None \<or> convert_rt = Some ''min'' \<or> convert_rt = Some ''sec'') \<and>
    ndigits_mz \<noteq> NdigitsOther
    \<longrightarrow> (\<exists>q. summary db single_row convert_rt ndigits_mz = Inr q))"
proof (intro conjI impI)
  show "summary db single_row convert_rt ndigits_mz = Inl NoAnnotationResults \<longleftrightarrow>
      (\<forall>tn \<in> set (table_names db).
         tn \<notin> set tables_amo \<and> tn \<noteq> ''molecular_formulae'' \<and> \<not> contains ''compound'' tn)"
    unfolding summary_no_results_iff flag_amo_iff flag_mf_iff
    using cpd_tables_iff [of db] by blast
next
  assume h: "(''adduct_pairs'' \<in> set (table_names db) \<or> ''multiple_charged_ions'' \<in> set (table_names db) \<or>
     ''oligomers'' \<in> set (table_names db)) \<and>
    (convert_rt = None \<or> convert_rt = Some ''min'' \<or> convert_rt = Some ''sec'') \<and>
    ndigits_mz \<noteq> NdigitsOther"
  then have amo: "list_ex (\<lambda>tname. tname \<in> set (sqlite_master db)) tables_amo"
    unfolding flag_amo_iff by (auto simp: tables_amo_def)
  from h have sq: "filter (\<lambda>tname. tname \<in> set (sqlite_master db))
          [''adduct_pairs'', ''multiple_charged_ions'', ''oligomers''] \<noteq> []"
    by (auto simp: master_set)
  from h have ttu: "filter (\<lambda>tn. tn \<in> set tables_amo) (sqlite_master db) \<noteq> []"
    by (auto simp: filter_empty_conv master_set tables_amo_def)
  show "\<exists>q. summary db single_row convert_rt ndigits_mz = Inr q"
    using amo sq ttu h by (intro summary_runs) blast+
next
  assume h: "(''molecular_formulae'' \<in> set (table_names db) \<or>
       (\<exists>tn \<in> set (table_names db). contains ''compound'' tn)) \<and>
    (\<forall>tn \<in> set (table_names db). tn \<notin> set tables_amo) \<and>
    ''groups'' \<notin> set (table_names db) \<and>
    (convert_rt = None \<or> convert_rt = Some ''min'' \<or> convert_rt = Some ''sec'') \<and>
    ndigits_mz \<noteq> NdigitsOther"
  then have g: "''groups'' \<notin> set (sqlite_master db)"
    by (auto simp: master_set)
  from h have na: "\<not> list_ex (\<lambda>tname. tname \<in> set (sqlite_master db)) tables_amo"
    unfolding flag_amo_iff by blast
  from h have r: "''molecular_formulae'' \<in> set (sqlite_master db) \<or>
           filter (contains ''compound'') (sqlite_master db) \<noteq> []"
    unfolding flag_mf_iff cpd_tables_iff by blast
  show "\<exists>q. summary db single_row convert_rt ndigits_mz = Inr q"
    using g na r h by (intro summary_runs) blast+
qed

theorem summary_descriptive_error_witness:
  "summary [] False None NdigitsNone = Inl NoAnnotationResults \<and>
   (\<exists>q. summary [(''adduct_pairs'', [[(''peak_id_a'', Text ''a''), (''peak_id_b'', Text ''b''), (''label_a'', Text ''[M+H]+''), (''label_b'', Text ''[M+Na]+''), (''ppm_error'', Num 0.5)]])] True (Some ''min'') (NdigitsInt 4) = Inr q) \<and>
   (\<exists>q. summary [(''molecular_formulae'', [])] False None NdigitsNone = Inr q)"
proof -
  note t1 = summary_descriptive_error [of "[]" False None NdigitsNone]
  note t2 = summary_descriptive_error [of "[(''adduct_pairs'', [[(''peak_id_a'', Text ''a''), (''peak_id_b'', Text ''b''), (''label_a'', Text ''[M+H]+''), (''label_b'', Text ''[M+Na]+''), (''ppm_error'', Num 0.5)]])]" True "Some ''min''" "NdigitsInt 4"]
  note t3 = summary_descriptive_error [of "[(''molecular_formulae'', [])]" False None NdigitsNone]
  from t1 have "summary [] False None NdigitsNone = Inl NoAnnotationResults"
    by (simp add: table_names_def)
  moreover from t2 have "\<exists>q. summary [(''adduct_pairs'', [[(''peak_id_a'', Text ''a''), (''peak_id_b'', Text ''b''), (''label_a'', Text ''[M+H]+''), (''label_b'', Text ''[M+Na]+''), (''ppm_error'', Num 0.5)]])] True (Some ''min'') (NdigitsInt 4) = Inr q"
    by (simp add: table_names_def)
  moreover from t3 have "\<exists>q. summary [(''molecular_formulae'', [])] False None NdigitsNone = Inr q"
    by (simp add: table_names_def tables_amo_def)
  ultimately show ?thesis by blast
qed

text \<open>
  The claim as stated counts every relationship table and every reference-match
  table. A store whose only annotation table is \<^verbatim>\<open>artifacts\<close>, or \<^verbatim>\<open>drug_products\<close>,
  gets the descriptive error.
\<close>

theorem summary_artifacts_only_counterexample:
  "summary [(''artifacts'', [[(''peak_id_a'', Text ''a''), (''peak_id_b'', Text ''b''), (''mz_diff'', Num 0.01), (''ppm_error'', Num 100)]])] False None NdigitsNone = Inl NoAnnotationResults \<and>
   summary [(''drug_products'', [])] False None NdigitsNone = Inl NoAnnotationResults"
  by (simp add: summary_def sqlite_master_def table_names_def tables_amo_def)

text \<open>
  A store whose only annotation table is \<^verbatim>\<open>isotopes\<close> gets neither the summary nor
  the descriptive error: the statement that creates \<^verbatim>\<open>peak_labels\<close> is rejected.
\<close>

lemma summary_isotopes_only:
  "summary [(''isotopes'', rows)] single_row convert_rt ndigits_mz = Inl SqlError"
  by (simp add: summary_def sqlite_master_def table_names_def tables_amo_def)

end
